theory Spec2Isabelle
  imports Main
begin

text \<open>
  The worker of vinylcollection-enricher: one request resolves a music release, given as a
  barcode, a provider's identifier or an artist and title, across Discogs, MusicBrainz,
  Wikidata and Wikipedia into one document. The theory embeds the worker's functions, with the
  network as a script of answers, and proves properties of the embedding.
\<close>

section \<open>Strings and small utilities\<close>

text \<open>
  JavaScript strings are modelled as \<^typ>\<open>string\<close>. A value that may be \<^verbatim>\<open>null\<close> or
  \<^verbatim>\<open>undefined\<close> is an \<^typ>\<open>'a option\<close>; a string is truthy when it is present and
  not empty.
\<close>

definition truthy :: "string option \<Rightarrow> bool" where
  "truthy v = (case v of None \<Rightarrow> False | Some s \<Rightarrow> s \<noteq> [])"

text \<open>The character class \<^verbatim>\<open>\d\<close> (and \<^verbatim>\<open>\D\<close>, its complement).\<close>

definition is_digit :: "char \<Rightarrow> bool" where
  "is_digit c = (c \<in> set ''0123456789'')"

text \<open>\<^verbatim>\<open>digits.replace(/^0+/, "")\<close>: the leading run of zeros is removed.\<close>

definition strip_leading_zeros :: "string \<Rightarrow> string" where
  "strip_leading_zeros s = dropWhile (\<lambda>c. c = CHR ''0'') s"

text \<open>
  \<^verbatim>\<open>normalizeBarcode(b)\<close>: \<^verbatim>\<open>(b + "").replace(/\D+/g, "")\<close> keeps exactly the digits of
  \<open>b\<close>, in order.
\<close>

definition normalizeBarcode :: "string option \<Rightarrow> string option" where
  "normalizeBarcode b =
     (if \<not> truthy b then None
      else let digits = filter is_digit (the b) in
        if digits = [] then None
        else if length digits = 12 then Some digits
        else if length digits = 13 then Some digits
        else (let t = strip_leading_zeros digits in if t \<noteq> [] then Some t else Some digits))"


text \<open>
  \<^verbatim>\<open>dedupe(arr)\<close> is \<^verbatim>\<open>Array.from(new Set((arr || []).filter(Boolean)))\<close>. A JavaScript
  \<^verbatim>\<open>Set\<close> keeps its members in insertion order, and adding a member it already holds
  changes nothing: \<open>set_add\<close> is one such insertion.
\<close>

definition set_add :: "'a list \<Rightarrow> 'a \<Rightarrow> 'a list" where
  "set_add seen x = (if x \<in> set seen then seen else seen @ [x])"

definition dedupe :: "string list \<Rightarrow> string list" where
  "dedupe arr = foldl set_add [] (filter (\<lambda>x. x \<noteq> []) arr)"

text \<open>\<^verbatim>\<open>a || b\<close> on values that are strings or null.\<close>

definition js_or :: "string option \<Rightarrow> string option \<Rightarrow> string option" where
  "js_or a b = (if truthy a then a else b)"

text \<open>
  A string is the sequence of the bytes of its UTF-8 encoding: the no-break space U+00A0,
  for one, is the two bytes C2 A0, and a sequence of bytes that is not well-formed UTF-8
  stands for no string. The patterns of the source name ASCII characters only, and no byte of
  a character outside ASCII is an ASCII byte, so they are matched byte by byte; the
  exceptions are white space and the line terminators, which have members outside ASCII.
\<close>

text \<open>\<^verbatim>\<open>s.startsWith(p)\<close> and \<^verbatim>\<open>s.includes(sub)\<close>.\<close>

definition starts_with :: "string \<Rightarrow> string \<Rightarrow> bool" where
  "starts_with s p = (take (length p) s = p)"

fun js_includes :: "string \<Rightarrow> string \<Rightarrow> bool" where
  "js_includes [] sub = (sub = [])"
| "js_includes (c # cs) sub = (starts_with (c # cs) sub \<or> js_includes cs sub)"

text \<open>
  The white space of JavaScript, which \<^verbatim>\<open>\s\<close> matches and \<^verbatim>\<open>trim\<close> removes, is the tab,
  the line feed, the vertical tab, the form feed, the carriage return and the space, and
  outside ASCII U+00A0, U+1680, U+2000 to U+200A, U+2028, U+2029, U+202F, U+205F, U+3000 and
  U+FEFF. \<open>wide_spaces\<close> lists the encodings of the latter, and \<open>space_len s\<close> is the number
  of bytes of the white space character \<open>s\<close> begins with, or 0 when it begins with none.
\<close>

definition ascii_space :: "char \<Rightarrow> bool" where
  "ascii_space c = (c \<in> set [CHR '' '', CHR 0x09, CHR 0x0A, CHR 0x0B, CHR 0x0C, CHR 0x0D])"

definition wide_spaces :: "string list" where
  "wide_spaces =
     [[CHR 0xC2, CHR 0xA0],
      [CHR 0xE1, CHR 0x9A, CHR 0x80],
      [CHR 0xE2, CHR 0x80, CHR 0x80], [CHR 0xE2, CHR 0x80, CHR 0x81], [CHR 0xE2, CHR 0x80, CHR 0x82],
      [CHR 0xE2, CHR 0x80, CHR 0x83], [CHR 0xE2, CHR 0x80, CHR 0x84], [CHR 0xE2, CHR 0x80, CHR 0x85],
      [CHR 0xE2, CHR 0x80, CHR 0x86], [CHR 0xE2, CHR 0x80, CHR 0x87], [CHR 0xE2, CHR 0x80, CHR 0x88],
      [CHR 0xE2, CHR 0x80, CHR 0x89], [CHR 0xE2, CHR 0x80, CHR 0x8A],
      [CHR 0xE2, CHR 0x80, CHR 0xA8], [CHR 0xE2, CHR 0x80, CHR 0xA9], [CHR 0xE2, CHR 0x80, CHR 0xAF],
      [CHR 0xE2, CHR 0x81, CHR 0x9F],
      [CHR 0xE3, CHR 0x80, CHR 0x80],
      [CHR 0xEF, CHR 0xBB, CHR 0xBF]]"

definition space_len :: "string \<Rightarrow> nat" where
  "space_len s =
     (case s of
        [] \<Rightarrow> 0
      | c # cs \<Rightarrow>
          if ascii_space c then 1
          else if c = CHR 0xC2 then (if take 2 s \<in> set wide_spaces then 2 else 0)
          else if c \<in> set [CHR 0xE1, CHR 0xE2, CHR 0xE3, CHR 0xEF]
            then (if take 3 s \<in> set wide_spaces then 3 else 0)
          else 0)"

text \<open>
  The line terminators, which \<^verbatim>\<open>.\<close> does not match, are the line feed, the carriage
  return, U+2028 and U+2029.
\<close>

definition has_line_terminator :: "string \<Rightarrow> bool" where
  "has_line_terminator s =
     (list_ex (\<lambda>c. c = CHR 0x0A \<or> c = CHR 0x0D) s
      \<or> js_includes s [CHR 0xE2, CHR 0x80, CHR 0xA8] \<or> js_includes s [CHR 0xE2, CHR 0x80, CHR 0xA9])"

definition dquote :: char where
  "dquote = CHR 0x22"

definition to_lower :: "char \<Rightarrow> char" where
  "to_lower c =
     (case map_of (zip ''ABCDEFGHIJKLMNOPQRSTUVWXYZ'' ''abcdefghijklmnopqrstuvwxyz'') c of
        Some l \<Rightarrow> l
      | None \<Rightarrow> c)"

definition to_upper :: "char \<Rightarrow> char" where
  "to_upper c =
     (case map_of (zip ''abcdefghijklmnopqrstuvwxyz'' ''ABCDEFGHIJKLMNOPQRSTUVWXYZ'') c of
        Some u \<Rightarrow> u
      | None \<Rightarrow> c)"

text \<open>
  \<^verbatim>\<open>s.trim()\<close>. \<open>trim_start\<close> removes the white space characters \<open>s\<close> begins with;
  \<open>trim_end\<close> cuts \<open>s\<close> where what is left is white space only.
\<close>

function trim_start :: "string \<Rightarrow> string" where
  "trim_start s = (if space_len s = 0 then s else trim_start (drop (space_len s) s))"
  by pat_completeness auto

termination
  by (relation "measure length")
     (auto simp: space_len_def split: list.splits if_splits)

declare trim_start.simps [simp del]

fun trim_end :: "string \<Rightarrow> string" where
  "trim_end [] = []"
| "trim_end (c # cs) = (if trim_start (c # cs) = [] then [] else c # trim_end cs)"

definition trim :: "string \<Rightarrow> string" where
  "trim s = trim_end (trim_start s)"

text \<open>
  \<^verbatim>\<open>s.split(/\s+/)\<close>: every maximal run of white space is one separator; a separator at
  either end leaves an empty piece there, and the empty string splits into one empty piece.
  \<open>cur\<close> is the piece being read.
\<close>

function split_ws_from :: "string \<Rightarrow> string \<Rightarrow> string list" where
  "split_ws_from cur s =
     (if s = [] then [cur]
      else if space_len s = 0 then split_ws_from (cur @ [hd s]) (tl s)
      else if space_len (drop (space_len s) s) \<noteq> 0 then split_ws_from cur (drop (space_len s) s)
      else cur # split_ws_from [] (drop (space_len s) s))"
  by pat_completeness auto

termination
  by (relation "measure (\<lambda>(cur, s). length s)")
     (auto simp: space_len_def split: list.splits if_splits)

declare split_ws_from.simps [simp del]

definition split_ws :: "string \<Rightarrow> string list" where
  "split_ws s = split_ws_from [] s"

section \<open>The seed\<close>

record seed =
  seed_upc :: "string option"
  seed_mbid :: "string option"
  seed_mb_release_mbid :: "string option"
  seed_mb_release_group :: "string option"
  seed_mb_artist_id :: "string option"
  seed_discogs :: "string option"
  seed_discogs_master_id :: "string option"
  seed_qid :: "string option"
  seed_title :: "string option"
  seed_artist :: "string option"

text \<open>
  \<^verbatim>\<open>url.searchParams.get(k)\<close> is the first value given for \<open>k\<close>, or null: the query is an
  association list.
\<close>

definition get_param :: "(string \<times> string) list \<Rightarrow> string \<Rightarrow> string option" where
  "get_param params k = map_of params k"

text \<open>
  \<^verbatim>\<open>p.match(/^([a-z_]+):(.*)$/i)\<close>: the key is the longest run of letters and underscores
  at the start, which must not be empty and must be followed by a colon; the rest of the
  token is the second group.
\<close>

definition is_key_char :: "char \<Rightarrow> bool" where
  "is_key_char c = (c \<in> set ''abcdefghijklmnopqrstuvwxyzABCDEFGHIJKLMNOPQRSTUVWXYZ_'')"

definition match_key_value :: "string \<Rightarrow> (string \<times> string) option" where
  "match_key_value p =
     (let k = takeWhile is_key_char p; r = dropWhile is_key_char p in
        if k \<noteq> [] \<and> r \<noteq> [] \<and> hd r = CHR '':'' \<and> \<not> has_line_terminator (tl r)
        then Some (k, tl r) else None)"

text \<open>\<^verbatim>\<open>v.replace(/^"(.+)"$/, "$1")\<close>: a value in double quotes loses them.\<close>

definition unquote :: "string \<Rightarrow> string" where
  "unquote v =
     (if 3 \<le> length v \<and> hd v = dquote \<and> last v = dquote
         \<and> \<not> has_line_terminator (butlast (tl v))
      then butlast (tl v) else v)"

definition apply_token :: "seed \<Rightarrow> string \<Rightarrow> seed" where
  "apply_token seed p =
     (case match_key_value p of
        None \<Rightarrow> seed
      | Some (m1, m2) \<Rightarrow>
          let k = map to_lower m1;
              v = unquote m2;
              s1 = (if k = ''upc'' \<or> k = ''ean'' \<or> k = ''barcode'' then seed\<lparr>seed_upc := Some v\<rparr> else seed);
              s2 = (if k = ''mbid'' then s1\<lparr>seed_mbid := Some v\<rparr> else s1);
              s3 = (if k = ''discogs'' then s2\<lparr>seed_discogs := Some v\<rparr> else s2);
              s4 = (if k = ''qid'' then s3\<lparr>seed_qid := Some v\<rparr> else s3);
              s5 = (if k = ''artist'' then s4\<lparr>seed_artist := Some v\<rparr> else s4);
              s6 = (if k = ''title'' then s5\<lparr>seed_title := Some v\<rparr> else s5)
          in s6)"

definition parseSeed :: "(string \<times> string) list \<Rightarrow> string option \<Rightarrow> seed" where
  "parseSeed params cmd =
     (let seed =
        \<lparr> seed_upc = js_or (get_param params ''upc'')
                       (js_or (get_param params ''ean'') (get_param params ''barcode'')),
          seed_mbid = get_param params ''mbid'',
          seed_mb_release_mbid = get_param params ''mb_release_mbid'',
          seed_mb_release_group = get_param params ''mb_release_group'',
          seed_mb_artist_id = get_param params ''mb_artist_id'',
          seed_discogs = js_or (get_param params ''discogs'') (get_param params ''discogs_release_id''),
          seed_discogs_master_id = get_param params ''discogs_master_id'',
          seed_qid = get_param params ''qid'',
          seed_title = get_param params ''title'',
          seed_artist = get_param params ''artist'' \<rparr>
      in if truthy cmd then foldl apply_token seed (split_ws (trim (the cmd))) else seed)"


section \<open>Provider responses\<close>

text \<open>
  A provider's JSON answer is decoded into a record of the fields the pipeline reads, each one
  optional: \<open>None\<close> stands for a field that is absent, null or undefined. Numbers are
  natural numbers and every other scalar is a string, as the providers' schemas have them.
\<close>

record discogs_hit =
  hit_id :: "nat option"
  hit_master_id :: "nat option"
  hit_country :: "string option"
  hit_label :: "string list option"
  hit_genre :: "string list option"
  hit_style :: "string list option"
  hit_title :: "string option"
  hit_year :: "string option"
  hit_thumb :: "string option"

text \<open>
  A MusicBrainz release, as the search lists it and as the detail lookup returns it.
  \<open>ac_artist_id\<close> is \<^verbatim>\<open>ac.artist.id\<close> (absent when \<^verbatim>\<open>ac.artist\<close> is),
  \<open>li_label_name\<close> is \<^verbatim>\<open>li.label.name\<close>, a tag is its \<^verbatim>\<open>name\<close> and a relation is its
  \<^verbatim>\<open>url.resource\<close>.
\<close>

record mb_group =
  rg_id :: "string option"

record mb_credit =
  ac_name :: "string option"
  ac_artist_id :: "string option"

record mb_label_info =
  li_label_name :: "string option"
  li_catalog_number :: "string option"

record mb_release =
  rel_id :: "string option"
  rel_title :: "string option"
  rel_group :: "mb_group option"
  rel_artist_credit :: "mb_credit list option"
  rel_country :: "string option"
  rel_date :: "string option"
  rel_label_info :: "mb_label_info list option"
  rel_tags :: "string option list option"
  rel_relations :: "string option list option"

text \<open>
  A Wikidata entity: its claims by property, each statement reduced to its
  \<^verbatim>\<open>mainsnak.datavalue.value\<close> (a string, or an object with an optional \<^verbatim>\<open>id\<close>), and the
  title of its English Wikipedia site link.
\<close>

datatype snak_value = StrVal string | ObjVal "string option"

record wd_entity =
  ent_claims :: "(string \<times> snak_value option list) list"
  ent_enwiki_title :: "string option"

record wp_summary =
  sum_title :: "string option"
  sum_extract :: "string option"
  sum_thumbnail_source :: "string option"

record media_item =
  mi_title :: "string option"
  mi_srcset :: "string option list option"

text \<open>
  The first page of a Commons \<^verbatim>\<open>imageinfo\<close> answer, with the first of its image infos;
  the \<open>ii_meta_\<close> fields are the \<^verbatim>\<open>value\<close>s under \<^verbatim>\<open>extmetadata\<close>.
\<close>

record image_info =
  ii_url :: "string option"
  ii_width :: "nat option"
  ii_height :: "nat option"
  ii_mime :: "string option"
  ii_meta_LicenseShortName :: "string option"
  ii_meta_License :: "string option"
  ii_meta_Artist :: "string option"
  ii_meta_Credit :: "string option"
  ii_meta_AttributionRequired :: "string option"
  ii_meta_ImageDescription :: "string option"

record commons_page =
  pg_title :: "string option"
  pg_imageinfo :: "image_info option"

text \<open>
  A truthy JSON value, by the schema it was decoded with. \<open>PSparql\<close> holds
  \<^verbatim>\<open>results.bindings[0].item.value\<close>; \<open>PObject\<close> is an object with none of the fields
  above and \<open>PScalar\<close> a truthy value that is not an object. Read under another schema, a
  value has none of that schema's fields.
\<close>

datatype payload =
    PDiscogs "discogs_hit list option"
  | PMbSearch "mb_release list option"
  | PMbRelease mb_release
  | PSparql "string option"
  | PEntities "(string \<times> wd_entity) list"
  | PSummary wp_summary
  | PMediaList "media_item list option"
  | PCommons "commons_page option"
  | PObject
  | PScalar

definition discogs_results :: "payload \<Rightarrow> discogs_hit list option" where
  "discogs_results p = (case p of PDiscogs r \<Rightarrow> r | _ \<Rightarrow> None)"

definition mb_releases :: "payload \<Rightarrow> mb_release list option" where
  "mb_releases p = (case p of PMbSearch r \<Rightarrow> r | _ \<Rightarrow> None)"

definition no_release :: mb_release where
  "no_release =
     \<lparr> rel_id = None, rel_title = None, rel_group = None, rel_artist_credit = None,
       rel_country = None, rel_date = None, rel_label_info = None, rel_tags = None,
       rel_relations = None \<rparr>"

definition as_release :: "payload \<Rightarrow> mb_release" where
  "as_release p = (case p of PMbRelease r \<Rightarrow> r | _ \<Rightarrow> no_release)"

definition sparql_first_item :: "payload \<Rightarrow> string option" where
  "sparql_first_item p = (case p of PSparql b \<Rightarrow> b | _ \<Rightarrow> None)"

definition entity_of :: "payload \<Rightarrow> string \<Rightarrow> wd_entity option" where
  "entity_of p q = (case p of PEntities es \<Rightarrow> map_of es q | _ \<Rightarrow> None)"

definition no_summary :: wp_summary where
  "no_summary = \<lparr> sum_title = None, sum_extract = None, sum_thumbnail_source = None \<rparr>"

definition as_summary :: "payload \<Rightarrow> wp_summary" where
  "as_summary p = (case p of PSummary x \<Rightarrow> x | _ \<Rightarrow> no_summary)"

definition media_items :: "payload \<Rightarrow> media_item list option" where
  "media_items p = (case p of PMediaList r \<Rightarrow> r | _ \<Rightarrow> None)"

definition commons_first_page :: "payload \<Rightarrow> commons_page option" where
  "commons_first_page p = (case p of PCommons r \<Rightarrow> r | _ \<Rightarrow> None)"

definition is_object :: "payload \<Rightarrow> bool" where
  "is_object p = (p \<noteq> PScalar)"

section \<open>The output document\<close>

record idref =
  ref_id :: "string option"
  ref_url :: string

datatype label_value = LabelName string | LabelList "string list"

record canonical =
  title :: "string option"
  artist :: "string option"
  label :: "label_value option"
  catalog_number :: "string option"
  year :: "string option"
  country :: "string option"
  format :: "string list"
  genre :: "string list"
  cover_url :: "string option"
  upc :: "string option"

record ids =
  discogs_release_id :: "idref option"
  discogs_master_id :: "idref option"
  mb_release_mbid :: "idref option"
  mb_release_group :: "idref option"
  mb_artist_id :: "idref option"
  wikidata_qid :: "idref option"
  artist_wikidata_qid :: "idref option"
  wikipedia_title :: "idref option"

record track =
  track_no :: string
  track_title :: string

record wikipedia =
  wp_title :: "string option"
  wp_summary :: "string option"
  infobox :: "payload option"
  tracklist :: "track list option"
  wp_personnel :: "string list option"
  awards :: "string list option"
  certifications :: "string list option"
  landmarks :: "string list option"

record image_credit =
  cr_license :: string
  cr_artist :: string
  cr_caption :: string

record gallery_item =
  gi_source :: string
  gi_role :: string
  gi_title :: string
  gi_url :: "string option"
  gi_width :: "nat option"
  gi_height :: "nat option"
  gi_mime :: "string option"
  gi_credit :: "image_credit option"

record wiki =
  article_gallery :: "gallery_item list"
  album_gallery :: "gallery_item list"
  artist_gallery :: "gallery_item list"

record downloads =
  image_urls :: "string list"

record http_entry =
  h_url :: string
  h_status :: nat

record diagnostics =
  matched_on :: "string option"
  notes_log :: "string list"
  tried_barcodes :: "string list"
  mb_http :: "http_entry list"
  discogs_http :: "http_entry list"
  wiki_http :: "http_entry list"
  wd_http :: "http_entry list"

record flags =
  flag_all :: bool
  flag_images :: string
  flag_lang :: string
  max_images :: nat

text \<open>
  The document \<^verbatim>\<open>out\<close>. \<open>stamps\<close> lists the names given to \<^verbatim>\<open>stamp\<close>; the clock
  readings themselves, and the members no stage ever writes (\<^verbatim>\<open>schema_version\<close>,
  \<^verbatim>\<open>wikidata\<close>, the top-level \<^verbatim>\<open>personnel\<close>), are left out.
\<close>

record out_doc =
  out_flags :: flags
  canonical :: canonical
  ids :: ids
  wikipedia :: wikipedia
  wiki :: wiki
  downloads :: downloads
  diagnostics :: diagnostics
  stamps :: "string list"

definition initOut :: "flags \<Rightarrow> out_doc" where
  "initOut fl =
     \<lparr> out_flags = fl,
       canonical = \<lparr> title = None, artist = None, label = None, catalog_number = None,
         year = None, country = None, format = [], genre = [], cover_url = None, upc = None \<rparr>,
       ids = \<lparr> discogs_release_id = None, discogs_master_id = None, mb_release_mbid = None,
         mb_release_group = None, mb_artist_id = None, wikidata_qid = None,
         artist_wikidata_qid = None, wikipedia_title = None \<rparr>,
       wikipedia = \<lparr> wp_title = None, wp_summary = None, infobox = None, tracklist = None,
         wp_personnel = None, awards = None, certifications = None, landmarks = None \<rparr>,
       wiki = \<lparr> article_gallery = [], album_gallery = [], artist_gallery = [] \<rparr>,
       downloads = \<lparr> image_urls = [] \<rparr>,
       diagnostics = \<lparr> matched_on = None, notes_log = [], tried_barcodes = [], mb_http = [],
         discogs_http = [], wiki_http = [], wd_http = [] \<rparr>,
       stamps = [] \<rparr>"

definition stamp :: "string \<Rightarrow> out_doc \<Rightarrow> out_doc" where
  "stamp name out = out\<lparr>stamps := stamps out @ [''ts_'' @ name]\<rparr>"

definition push_note :: "string \<Rightarrow> out_doc \<Rightarrow> out_doc" where
  "push_note n out = out\<lparr>diagnostics := (diagnostics out)\<lparr>notes_log := notes_log (diagnostics out) @ [n]\<rparr>\<rparr>"

definition push_tried :: "string \<Rightarrow> out_doc \<Rightarrow> out_doc" where
  "push_tried b out =
     out\<lparr>diagnostics := (diagnostics out)\<lparr>tried_barcodes := tried_barcodes (diagnostics out) @ [b]\<rparr>\<rparr>"

text \<open>\<^verbatim>\<open>s.padStart(n, "0")\<close>.\<close>

definition padStart0 :: "nat \<Rightarrow> string \<Rightarrow> string" where
  "padStart0 n s = replicate (n - length s) (CHR ''0'') @ s"

text \<open>
  \<^verbatim>\<open>normalizeSeed(seed, out)\<close> writes the canonical barcode back into the seed and records the
  variants to try.
\<close>

definition normalizeSeed :: "seed \<Rightarrow> out_doc \<Rightarrow> seed \<times> out_doc" where
  "normalizeSeed seed out =
     (let u = normalizeBarcode (seed_upc seed);
          seed1 = seed\<lparr>seed_upc := u\<rparr>;
          out1 = (if truthy u then push_tried (the u) out else out);
          out2 = (if truthy u \<and> length (the u) = 12
                  then push_tried (padStart0 13 (''0'' @ the u)) out1 else out1)
      in (seed1, out2))"

text \<open>
  The barcodes \<^verbatim>\<open>resolveMusicBrainz\<close> searches for, in the order of its loop:
  \<^verbatim>\<open>dedupe(out.diagnostics.tried_barcodes.filter(Boolean))\<close>.
\<close>

definition mb_barcodes :: "out_doc \<Rightarrow> string list" where
  "mb_barcodes out = dedupe (filter (\<lambda>b. b \<noteq> []) (tried_barcodes (diagnostics out)))"

text \<open>
  \<^verbatim>\<open>aggregateDownloadList(out)\<close>: \<open>push_urls\<close> is the inner loop over one gallery, pushing
  each truthy \<^verbatim>\<open>it.url\<close> onto \<^verbatim>\<open>urls\<close>.
\<close>

definition push_urls :: "string list \<Rightarrow> gallery_item list \<Rightarrow> string list" where
  "push_urls urls g = foldl (\<lambda>acc it. if truthy (gi_url it) then acc @ [the (gi_url it)] else acc) urls g"

definition aggregateDownloadList :: "out_doc \<Rightarrow> out_doc" where
  "aggregateDownloadList out =
     (let urls = foldl push_urls []
            [article_gallery (wiki out), album_gallery (wiki out), artist_gallery (wiki out)]
      in out\<lparr>downloads := (downloads out)\<lparr>image_urls := dedupe urls\<rparr>\<rparr>)"

text \<open>The URLs one pass over a list of gallery items pushes.\<close>

definition item_urls :: "gallery_item list \<Rightarrow> string list" where
  "item_urls g = map (\<lambda>it. the (gi_url it)) (filter (\<lambda>it. truthy (gi_url it)) g)"

text \<open>\<^verbatim>\<open>finalizeCanonical(out)\<close>; an array is truthy, so only its length is tested.\<close>

definition finalizeCanonical :: "out_doc \<Rightarrow> out_doc" where
  "finalizeCanonical out =
     (if format (canonical out) = []
      then out\<lparr>canonical := (canonical out)\<lparr>format := dedupe ([] @ [''Album''])\<rparr>\<rparr>
      else out)"


section \<open>More string functions\<close>

text \<open>\<^verbatim>\<open>String(n)\<close> of a natural number, and \<^verbatim>\<open>`${v}`\<close> of a string that may be undefined.\<close>

definition digit_char :: "nat \<Rightarrow> char" where
  "digit_char d = ''0123456789ABCDEF'' ! d"

fun string_of_nat :: "nat \<Rightarrow> string" where
  "string_of_nat n =
     (if n < 10 then [digit_char n] else string_of_nat (n div 10) @ [digit_char (n mod 10)])"

declare string_of_nat.simps [simp del]

definition js_str :: "string option \<Rightarrow> string" where
  "js_str v = (case v of None \<Rightarrow> ''undefined'' | Some s \<Rightarrow> s)"

definition truthy_nat :: "nat option \<Rightarrow> bool" where
  "truthy_nat v = (case v of None \<Rightarrow> False | Some n \<Rightarrow> n \<noteq> 0)"

text \<open>
  \<^verbatim>\<open>s.split(sep)\<close> for a separator string that is not empty. \<open>skip\<close> counts the characters
  of a separator just found that are still to be passed over, \<open>cur\<close> is the piece being read.
\<close>

fun split_on_from :: "string \<Rightarrow> nat \<Rightarrow> string \<Rightarrow> string \<Rightarrow> string list" where
  "split_on_from sep skip cur [] = [cur]"
| "split_on_from sep skip cur (c # cs) =
     (if 0 < skip then split_on_from sep (skip - 1) cur cs
      else if starts_with (c # cs) sep then cur # split_on_from sep (length sep - 1) [] cs
      else split_on_from sep 0 (cur @ [c]) cs)"

definition split_on :: "string \<Rightarrow> string \<Rightarrow> string list" where
  "split_on sep s = split_on_from sep 0 [] s"

text \<open>\<^verbatim>\<open>s.split(/[...]/)\<close> for a class of single characters.\<close>

fun split_chars_from :: "(char \<Rightarrow> bool) \<Rightarrow> string \<Rightarrow> string \<Rightarrow> string list" where
  "split_chars_from p cur [] = [cur]"
| "split_chars_from p cur (c # cs) =
     (if p c then cur # split_chars_from p [] cs else split_chars_from p (cur @ [c]) cs)"

definition split_chars :: "(char \<Rightarrow> bool) \<Rightarrow> string \<Rightarrow> string list" where
  "split_chars p s = split_chars_from p [] s"

text \<open>\<^verbatim>\<open>xs[i]\<close> of an array: undefined past the end.\<close>

definition nth_opt :: "'a list \<Rightarrow> nat \<Rightarrow> 'a option" where
  "nth_opt xs i = (if i < length xs then Some (xs ! i) else None)"

text \<open>\<^verbatim>\<open>xs.join(sep)\<close> of strings that may be undefined: those count as empty.\<close>

fun js_join :: "string \<Rightarrow> string option list \<Rightarrow> string" where
  "js_join sep [] = []"
| "js_join sep [x] = (case x of None \<Rightarrow> [] | Some s \<Rightarrow> s)"
| "js_join sep (x # y # ys) = (case x of None \<Rightarrow> [] | Some s \<Rightarrow> s) @ sep @ js_join sep (y # ys)"

text \<open>
  \<^verbatim>\<open>titleCase(s)\<close> is \<^verbatim>\<open>(s || "").replace(/\b\w/g, c => c.toUpperCase())\<close>: a word
  character is put in upper case when no word character stands before it.
\<close>

definition is_word_char :: "char \<Rightarrow> bool" where
  "is_word_char c = (c \<in> set ''abcdefghijklmnopqrstuvwxyzABCDEFGHIJKLMNOPQRSTUVWXYZ0123456789_'')"

fun title_case_from :: "bool \<Rightarrow> string \<Rightarrow> string" where
  "title_case_from in_word [] = []"
| "title_case_from in_word (c # cs) =
     (if is_word_char c then (if in_word then c else to_upper c) # title_case_from True cs
      else c # title_case_from False cs)"

definition titleCase :: "string option \<Rightarrow> string" where
  "titleCase s = title_case_from False (case s of None \<Rightarrow> [] | Some x \<Rightarrow> x)"

subsection \<open>Percent encoding\<close>

definition hex_byte :: "nat \<Rightarrow> string" where
  "hex_byte b = [CHR ''%'', digit_char (b div 16), digit_char (b mod 16)]"

definition is_alnum :: "char \<Rightarrow> bool" where
  "is_alnum c = (c \<in> set ''abcdefghijklmnopqrstuvwxyzABCDEFGHIJKLMNOPQRSTUVWXYZ0123456789'')"

text \<open>\<^verbatim>\<open>encodeURIComponent(s)\<close>.\<close>

definition encodeURIComponent :: "string \<Rightarrow> string" where
  "encodeURIComponent s =
     concat (map (\<lambda>c. if is_alnum c \<or> c \<in> set ''-_.!~*'' \<or> c = CHR 0x27 \<or> c \<in> set ''()''
                        then [c] else hex_byte (of_char c)) s)"

text \<open>
  \<^verbatim>\<open>new URLSearchParams({...}).toString()\<close>: the serialisation of
  \<^verbatim>\<open>application/x-www-form-urlencoded\<close>.
\<close>

definition form_encode :: "string \<Rightarrow> string" where
  "form_encode s =
     concat (map (\<lambda>c. if is_alnum c \<or> c \<in> set ''*-._'' then [c]
                        else if c = CHR '' '' then ''+'' else hex_byte (of_char c)) s)"

fun urlsearchparams :: "(string \<times> string) list \<Rightarrow> string" where
  "urlsearchparams [] = []"
| "urlsearchparams [(k, v)] = form_encode k @ ''='' @ form_encode v"
| "urlsearchparams ((k, v) # kv # kvs) =
     form_encode k @ ''='' @ form_encode v @ ''&'' @ urlsearchparams (kv # kvs)"

text \<open>
  \<^verbatim>\<open>decodeURIComponent(s)\<close>. Every \<^verbatim>\<open>%XX\<close> is replaced by its byte; the bytes of
  consecutive escapes must form well-formed UTF-8, and a malformed escape or sequence is a
  \<^verbatim>\<open>URIError\<close> (\<open>None\<close>). The string is first cut into literal characters and escapes.
\<close>

datatype uri_item = Lit char | Esc nat

definition hex_val :: "char \<Rightarrow> nat option" where
  "hex_val c = map_of (zip ''0123456789abcdefABCDEF'' [0, 1, 2, 3, 4, 5, 6, 7, 8, 9, 10, 11, 12, 13, 14, 15, 10, 11, 12, 13, 14, 15]) c"

fun uri_items :: "string \<Rightarrow> uri_item list option" where
  "uri_items [] = Some []"
| "uri_items (c # cs) =
     (if c = CHR ''%'' then
        (case cs of
           h1 # h2 # rest \<Rightarrow>
             (case (hex_val h1, hex_val h2) of
                (Some a, Some b) \<Rightarrow> map_option ((#) (Esc (16 * a + b))) (uri_items rest)
              | _ \<Rightarrow> None)
         | _ \<Rightarrow> None)
      else map_option ((#) (Lit c)) (uri_items cs))"

text \<open>
  The number of bytes the UTF-8 sequence with lead byte \<open>b\<close> has (0: not a lead byte), and
  whether a sequence of that length is the encoding of a code point: not overlong, not a
  surrogate, not beyond U+10FFFF.
\<close>

definition utf8_len :: "nat \<Rightarrow> nat" where
  "utf8_len b =
     (if b < 0x80 then 1 else if b < 0xC0 then 0 else if b < 0xE0 then 2
      else if b < 0xF0 then 3 else if b < 0xF8 then 4 else 0)"

definition is_cont :: "nat \<Rightarrow> bool" where
  "is_cont b = (0x80 \<le> b \<and> b < 0xC0)"

definition utf8_ok :: "nat list \<Rightarrow> bool" where
  "utf8_ok bs =
     (case bs of
        [b0, b1] \<Rightarrow> 0xC2 \<le> b0 \<and> is_cont b1
      | [b0, b1, b2] \<Rightarrow>
          is_cont b1 \<and> is_cont b2 \<and> (b0 = 0xE0 \<longrightarrow> 0xA0 \<le> b1) \<and> (b0 = 0xED \<longrightarrow> b1 < 0xA0)
      | [b0, b1, b2, b3] \<Rightarrow>
          is_cont b1 \<and> is_cont b2 \<and> is_cont b3 \<and> b0 \<le> 0xF4
          \<and> (b0 = 0xF0 \<longrightarrow> 0x90 \<le> b1) \<and> (b0 = 0xF4 \<longrightarrow> b1 < 0x90)
      | _ \<Rightarrow> False)"

definition esc_bytes :: "uri_item list \<Rightarrow> nat list option" where
  "esc_bytes its =
     (if list_all (\<lambda>it. case it of Esc _ \<Rightarrow> True | Lit _ \<Rightarrow> False) its
      then Some (map (\<lambda>it. case it of Esc b \<Rightarrow> b | Lit _ \<Rightarrow> 0) its) else None)"

fun uri_decode_items :: "nat \<Rightarrow> uri_item list \<Rightarrow> string option" where
  "uri_decode_items skip [] = Some []"
| "uri_decode_items skip (it # its) =
     (if 0 < skip then uri_decode_items (skip - 1) its
      else case it of
        Lit c \<Rightarrow> map_option ((#) c) (uri_decode_items 0 its)
      | Esc b \<Rightarrow>
          (if b < 0x80 then map_option ((#) (char_of b)) (uri_decode_items 0 its)
           else let n = utf8_len b in
             if n = 0 \<or> length its < n - 1 then None
             else (case esc_bytes (take (n - 1) its) of
                 None \<Rightarrow> None
               | Some bs \<Rightarrow>
                   if utf8_ok (b # bs)
                   then map_option ((@) (map char_of (b # bs))) (uri_decode_items (n - 1) its)
                   else None)))"

definition decodeURIComponent :: "string \<Rightarrow> string option" where
  "decodeURIComponent s = (case uri_items s of None \<Rightarrow> None | Some its \<Rightarrow> uri_decode_items 0 its)"

section \<open>Effects: the network, exceptions and the mutable document\<close>

text \<open>
  The outside world is a script: the answers the network will give to the run's requests, in
  order. A request consumes the next answer and is recorded in the \<open>trace\<close>, as is every
  timed wait. A request with no answer left fails like one whose answer is a network error:
  \<^verbatim>\<open>fetch\<close> rejects, which is an exception at the \<^verbatim>\<open>await\<close>.
\<close>

datatype event = Get string | Post string string | Sleep nat

datatype json_body = NotJson | Json "payload option"

record response =
  r_status :: nat
  r_body :: json_body
  r_text :: string

datatype fetch_result = NetworkError string | Response response

record world =
  pending :: "fetch_result list"
  trace :: "event list"

record sys =
  doc :: out_doc
  net :: world

text \<open>
  A computation runs on the document and the world and either returns a value (\<open>Inr\<close>) or
  throws an exception (\<open>Inl\<close>), an error with a name and a message; what it wrote before
  throwing stays written.
\<close>

datatype js_error = JsError string string

type_synonym 'a prog = "sys \<Rightarrow> (js_error + 'a) \<times> sys"

definition ret :: "'a \<Rightarrow> 'a prog" where
  "ret x = (\<lambda>s. (Inr x, s))"

definition throw :: "js_error \<Rightarrow> 'a prog" where
  "throw e = (\<lambda>s. (Inl e, s))"

definition bnd :: "'a prog \<Rightarrow> ('a \<Rightarrow> 'b prog) \<Rightarrow> 'b prog" where
  "bnd m f = (\<lambda>s. case m s of (Inl e, s1) \<Rightarrow> (Inl e, s1) | (Inr x, s1) \<Rightarrow> f x s1)"

definition upd :: "(out_doc \<Rightarrow> out_doc) \<Rightarrow> unit prog" where
  "upd f = (\<lambda>s. (Inr (), s\<lparr>doc := f (doc s)\<rparr>))"

text \<open>A computation that depends on what the document holds when it starts.\<close>

definition with_doc :: "(out_doc \<Rightarrow> 'a prog) \<Rightarrow> 'a prog" where
  "with_doc f = (\<lambda>s. f (doc s) s)"

text \<open>\<^verbatim>\<open>try { m } catch (e) { h e }\<close>.\<close>

definition catch :: "'a prog \<Rightarrow> (js_error \<Rightarrow> 'a prog) \<Rightarrow> 'a prog" where
  "catch m h = (\<lambda>s. case m s of (Inl e, s1) \<Rightarrow> h e s1 | (Inr x, s1) \<Rightarrow> (Inr x, s1))"

text \<open>\<^verbatim>\<open>String(e)\<close> of an error, and the text the top level logs for it.\<close>

definition error_string :: "js_error \<Rightarrow> string" where
  "error_string e = (case e of JsError n m \<Rightarrow> if m = [] then n else n @ '': '' @ m)"

definition fatal_text :: "js_error \<Rightarrow> string" where
  "fatal_text e = (case e of JsError n m \<Rightarrow> if m \<noteq> [] then m else error_string e)"

definition fetch :: "event \<Rightarrow> response prog" where
  "fetch ev = (\<lambda>s.
     let w = net s;
         s1 = s\<lparr>net := w\<lparr>pending := tl (pending w), trace := trace w @ [ev]\<rparr>\<rparr>
     in case pending w of
          [] \<Rightarrow> (Inl (JsError ''TypeError'' ''fetch failed''), s1)
        | NetworkError e # _ \<Rightarrow> (Inl (JsError ''TypeError'' e), s1)
        | Response r # _ \<Rightarrow> (Inr r, s1))"

text \<open>\<^verbatim>\<open>await new Promise(res => setTimeout(res, ms))\<close>.\<close>

definition sleep :: "nat \<Rightarrow> unit prog" where
  "sleep ms = (\<lambda>s. (Inr (), s\<lparr>net := (net s)\<lparr>trace := trace (net s) @ [Sleep ms]\<rparr>\<rparr>))"

text \<open>\<^verbatim>\<open>r.ok\<close> and \<^verbatim>\<open>r.json()\<close>, which rejects when the body is not JSON.\<close>

definition ok :: "response \<Rightarrow> bool" where
  "ok r = (200 \<le> r_status r \<and> r_status r \<le> 299)"

definition json_of :: "response \<Rightarrow> payload option prog" where
  "json_of r = (case r_body r of NotJson \<Rightarrow> throw (JsError ''SyntaxError'' ''Unexpected token'') | Json p \<Rightarrow> ret p)"

text \<open>The four logs a caller can hand to \<^verbatim>\<open>GETjson\<close> as \<^verbatim>\<open>diagArr\<close>.\<close>

datatype diag_log = MbHttp | DiscogsHttp | WikiHttp | WdHttp

definition log_of :: "diag_log \<Rightarrow> out_doc \<Rightarrow> http_entry list" where
  "log_of l out =
     (case l of
        MbHttp \<Rightarrow> mb_http (diagnostics out)
      | DiscogsHttp \<Rightarrow> discogs_http (diagnostics out)
      | WikiHttp \<Rightarrow> wiki_http (diagnostics out)
      | WdHttp \<Rightarrow> wd_http (diagnostics out))"

definition push_http :: "diag_log \<Rightarrow> http_entry \<Rightarrow> out_doc \<Rightarrow> out_doc" where
  "push_http l e out =
     (let d = diagnostics out in
      out\<lparr>diagnostics :=
        (case l of
           MbHttp \<Rightarrow> d\<lparr>mb_http := mb_http d @ [e]\<rparr>
         | DiscogsHttp \<Rightarrow> d\<lparr>discogs_http := discogs_http d @ [e]\<rparr>
         | WikiHttp \<Rightarrow> d\<lparr>wiki_http := wiki_http d @ [e]\<rparr>
         | WdHttp \<Rightarrow> d\<lparr>wd_http := wd_http d @ [e]\<rparr>)\<rparr>)"

text \<open>The address \<^verbatim>\<open>GETjson\<close> requests, and \<^verbatim>\<open>GETjson\<close> itself.\<close>

definition request_url :: "string \<Rightarrow> string \<Rightarrow> string \<Rightarrow> string" where
  "request_url base path qs =
     base @ path @ (if qs \<noteq> [] then (if js_includes path ''?'' then ''&'' else ''?'') @ qs else [])"

definition GETjson :: "string \<Rightarrow> string \<Rightarrow> diag_log \<Rightarrow> string \<Rightarrow> payload option prog" where
  "GETjson base path diagArr qs =
     (let url = request_url base path qs
      in
      bnd (fetch (Get url)) (\<lambda>r.
      bnd (upd (push_http diagArr
             \<lparr> h_url = path @ (if qs \<noteq> [] then ''?'' @ qs else []), h_status = r_status r \<rparr>)) (\<lambda>_.
      if r_status r = 429 then
        bnd (sleep 2000) (\<lambda>_.
        bnd (fetch (Get url)) (\<lambda>retry.
        bnd (upd (push_http diagArr \<lparr> h_url = path @ '' (retry)'', h_status = r_status retry \<rparr>)) (\<lambda>_.
        if \<not> ok retry then ret None else json_of retry)))
      else if ok r then json_of r
      else ret None)))"

section \<open>Regular expressions\<close>

text \<open>
  The patterns of the source are written with a few combinators that search the way a
  backtracking matcher does. A pattern takes the input and a continuation for the rest of the
  match; it tries its alternatives in the order of their priority and returns the first
  success of the continuation. Literals compare letters without regard to case, as every
  pattern with a literal carries the \<^verbatim>\<open>i\<close> flag.
\<close>

type_synonym 'r rx = "string \<Rightarrow> (string \<Rightarrow> 'r option) \<Rightarrow> 'r option"

definition rx_eps :: "'r rx" where
  "rx_eps = (\<lambda>s k. k s)"

definition rx_chr :: "(char \<Rightarrow> bool) \<Rightarrow> 'r rx" where
  "rx_chr p = (\<lambda>s k. case s of [] \<Rightarrow> None | c # cs \<Rightarrow> if p c then k cs else None)"

definition rx_seq :: "'r rx \<Rightarrow> 'r rx \<Rightarrow> 'r rx" where
  "rx_seq a b = (\<lambda>s k. a s (\<lambda>s1. b s1 k))"

definition rx_cat :: "'r rx list \<Rightarrow> 'r rx" where
  "rx_cat rs = foldr rx_seq rs rx_eps"

definition rx_alt :: "'r rx \<Rightarrow> 'r rx \<Rightarrow> 'r rx" where
  "rx_alt a b = (\<lambda>s k. case a s k of Some r \<Rightarrow> Some r | None \<Rightarrow> b s k)"

text \<open>\<^verbatim>\<open>[...]*\<close>, greedy, and \<^verbatim>\<open>[...]*?\<close>, lazy, over a class of characters.\<close>

fun rx_star :: "(char \<Rightarrow> bool) \<Rightarrow> 'r rx" where
  "rx_star p [] k = k []"
| "rx_star p (c # cs) k =
     (if p c then (case rx_star p cs k of Some r \<Rightarrow> Some r | None \<Rightarrow> k (c # cs))
      else k (c # cs))"

fun rx_lazy :: "(char \<Rightarrow> bool) \<Rightarrow> 'r rx" where
  "rx_lazy p [] k = k []"
| "rx_lazy p (c # cs) k =
     (case k (c # cs) of Some r \<Rightarrow> Some r | None \<Rightarrow> if p c then rx_lazy p cs k else None)"

definition rx_plus :: "(char \<Rightarrow> bool) \<Rightarrow> 'r rx" where
  "rx_plus p = rx_seq (rx_chr p) (rx_star p)"

definition rx_opt :: "(char \<Rightarrow> bool) \<Rightarrow> 'r rx" where
  "rx_opt p = rx_alt (rx_chr p) rx_eps"

text \<open>\<^verbatim>\<open>\s*\<close> and \<^verbatim>\<open>\s+\<close>, greedy: a white space character may take several bytes.\<close>

function rx_spaces :: "'r rx" where
  "rx_spaces s k =
     (if space_len s = 0 then k s
      else case rx_spaces (drop (space_len s) s) k of Some r \<Rightarrow> Some r | None \<Rightarrow> k s)"
  by pat_completeness auto

termination
  by (relation "measure (\<lambda>(s, k). length s)")
     (auto simp: space_len_def split: list.splits if_splits)

declare rx_spaces.simps [simp del]

definition rx_spaces1 :: "'r rx" where
  "rx_spaces1 = (\<lambda>s k. if space_len s = 0 then None else rx_spaces (drop (space_len s) s) k)"

fun rx_lit :: "string \<Rightarrow> 'r rx" where
  "rx_lit [] s k = k s"
| "rx_lit (x # xs) s k =
     (case s of [] \<Rightarrow> None | c # cs \<Rightarrow> if to_lower c = to_lower x then rx_lit xs cs k else None)"

text \<open>\<^verbatim>\<open>$\<close> and the lookahead \<^verbatim>\<open>(?=...)\<close>.\<close>

definition rx_end :: "'r rx" where
  "rx_end = (\<lambda>s k. if s = [] then k s else None)"

definition rx_ahead :: "unit rx \<Rightarrow> 'r rx" where
  "rx_ahead a = (\<lambda>s k. case a s (\<lambda>_. Some ()) of None \<Rightarrow> None | Some _ \<Rightarrow> k s)"

text \<open>
  A match at the start of \<open>s\<close>, as the matched text and the rest of the input; with one
  capturing group, as the text of the group and the rest.
\<close>

definition rx_whole :: "string rx \<Rightarrow> string \<Rightarrow> (string \<times> string) option" where
  "rx_whole r s =
     (case r s Some of None \<Rightarrow> None | Some rest \<Rightarrow> Some (take (length s - length rest) s, rest))"

definition rx_group :: "(string \<times> string) rx \<Rightarrow> (string \<times> string) rx \<Rightarrow> (string \<times> string) rx
    \<Rightarrow> string \<Rightarrow> (string \<times> string) option" where
  "rx_group pre grp post s =
     pre s (\<lambda>s1. grp s1 (\<lambda>s2. post s2 (\<lambda>s3. Some (take (length s1 - length s2) s1, s3))))"

text \<open>
  The \<^verbatim>\<open>g\<close> flag: the matches are looked for from left to right, each search starting
  where the last match ended, or one character further when that match was empty.
  \<open>skip\<close> counts the characters of the last match that are still to be passed over.
\<close>

fun rx_scan :: "(string \<Rightarrow> ('g \<times> string) option) \<Rightarrow> nat \<Rightarrow> string \<Rightarrow> 'g list" where
  "rx_scan m skip [] =
     (if skip = 0 then (case m [] of Some (g, _) \<Rightarrow> [g] | None \<Rightarrow> []) else [])"
| "rx_scan m skip (c # cs) =
     (if 0 < skip then rx_scan m (skip - 1) cs
      else case m (c # cs) of
        None \<Rightarrow> rx_scan m 0 cs
      | Some (g, rest) \<Rightarrow> g # rx_scan m (length (c # cs) - length rest - 1) cs)"

text \<open>\<^verbatim>\<open>s.match(/r/g) || []\<close>.\<close>

definition rx_match_all :: "string rx \<Rightarrow> string \<Rightarrow> string list" where
  "rx_match_all r s = rx_scan (rx_whole r) 0 s"

text \<open>\<^verbatim>\<open>s.match(/r/)\<close>, reduced to the matched text, and \<^verbatim>\<open>/r/.test(s)\<close>.\<close>

fun rx_search :: "string rx \<Rightarrow> string \<Rightarrow> string option" where
  "rx_search r [] = map_option fst (rx_whole r [])"
| "rx_search r (c # cs) =
     (case rx_whole r (c # cs) of Some (g, _) \<Rightarrow> Some g | None \<Rightarrow> rx_search r cs)"

definition rx_test :: "string rx \<Rightarrow> string \<Rightarrow> bool" where
  "rx_test r s = (rx_search r s \<noteq> None)"

text \<open>\<^verbatim>\<open>s.replace(/r/g, rep)\<close> for a replacement without group references.\<close>

fun rx_replace :: "string rx \<Rightarrow> string \<Rightarrow> nat \<Rightarrow> string \<Rightarrow> string" where
  "rx_replace r rep skip [] = (if skip = 0 \<and> r [] Some \<noteq> None then rep else [])"
| "rx_replace r rep skip (c # cs) =
     (if 0 < skip then rx_replace r rep (skip - 1) cs
      else case r (c # cs) Some of
        None \<Rightarrow> c # rx_replace r rep 0 cs
      | Some rest \<Rightarrow>
          (let n = length (c # cs) - length rest in
           if n = 0 then rep @ c # rx_replace r rep 0 cs
           else rep @ rx_replace r rep (n - 1) cs))"

section \<open>Extraction from the article's HTML\<close>

definition any_char :: "char \<Rightarrow> bool" where
  "any_char c = True"

definition not_gt :: "char \<Rightarrow> bool" where
  "not_gt c = (c \<noteq> CHR ''>'')"

definition is_gt :: "char \<Rightarrow> bool" where
  "is_gt c = (c = CHR ''>'')"

text \<open>\<^verbatim>\<open>stripHtml(s)\<close> is \<^verbatim>\<open>(s || "").replace(/<[^>]+>/g, "")\<close>.\<close>

definition stripHtml :: "string \<Rightarrow> string" where
  "stripHtml s = rx_replace (rx_cat [rx_chr (\<lambda>c. c = CHR ''<''), rx_plus not_gt, rx_chr is_gt]) [] 0 s"

text \<open>\<^verbatim>\<open>s.replace(/\s+/g, " ")\<close>.\<close>

definition squeeze_spaces :: "string \<Rightarrow> string" where
  "squeeze_spaces s = rx_replace rx_spaces1 '' '' 0 s"

text \<open>
  The patterns of \<^verbatim>\<open>extractTracklistFromHTML\<close>:
  \<^verbatim>\<open>/<table[^>]*class="wikitable[^"]*"[^>]*>[\s\S]*?<\/table>/gi\<close>,
  \<^verbatim>\<open>/Track listing|Track\s*list/i\<close>, \<^verbatim>\<open>/Track\s*No\.?/i\<close>,
  \<^verbatim>\<open>/<tr[\s\S]*?<\/tr>/gi\<close>, \<^verbatim>\<open>/<t[hd][^>]*>([\s\S]*?)<\/t[hd]>/gi\<close> and
  \<^verbatim>\<open>/^\d+/\<close>.
\<close>

definition table_rx :: "'r rx" where
  "table_rx =
     rx_cat [rx_lit ''<table'', rx_star not_gt, rx_lit (''class='' @ [dquote] @ ''wikitable''),
             rx_star (\<lambda>c. c \<noteq> dquote), rx_chr (\<lambda>c. c = dquote), rx_star not_gt, rx_chr is_gt,
             rx_lazy any_char, rx_lit ''</table>'']"

definition track_listing_rx :: "'r rx" where
  "track_listing_rx =
     rx_alt (rx_lit ''Track listing'') (rx_cat [rx_lit ''Track'', rx_spaces, rx_lit ''list''])"

definition track_no_rx :: "'r rx" where
  "track_no_rx = rx_cat [rx_lit ''Track'', rx_spaces, rx_lit ''No'', rx_opt (\<lambda>c. c = CHR ''.'')]"

definition tr_rx :: "'r rx" where
  "tr_rx = rx_cat [rx_lit ''<tr'', rx_lazy any_char, rx_lit ''</tr>'']"

definition is_h_or_d :: "char \<Rightarrow> bool" where
  "is_h_or_d c = (to_lower c = CHR ''h'' \<or> to_lower c = CHR ''d'')"

definition cell_match :: "string \<Rightarrow> (string \<times> string) option" where
  "cell_match =
     rx_group (rx_cat [rx_lit ''<t'', rx_chr is_h_or_d, rx_star not_gt, rx_chr is_gt])
       (rx_lazy any_char)
       (rx_cat [rx_lit ''</t'', rx_chr is_h_or_d, rx_chr is_gt])"

definition starts_with_digits :: "string \<Rightarrow> bool" where
  "starts_with_digits s = (rx_plus is_digit s Some \<noteq> None)"

text \<open>
  \<^verbatim>\<open>extractTracklistFromHTML(html, out)\<close>. \<open>row_cols\<close> is \<^verbatim>\<open>cols\<close>, \<open>push_row\<close> the
  body of the loop over the rows of one table and \<open>push_table\<close> the body of the loop over the
  tables.
\<close>

definition row_cols :: "string \<Rightarrow> string list" where
  "row_cols r = map (\<lambda>g. trim (stripHtml g)) (rx_scan cell_match 0 r)"

definition push_row :: "track list \<Rightarrow> string \<Rightarrow> track list" where
  "push_row rows r =
     (let cols = row_cols r in
      if 2 \<le> length cols \<and> starts_with_digits (cols ! 0)
      then rows @ [\<lparr> track_no = cols ! 0, track_title = cols ! 1 \<rparr>]
      else rows)"

definition is_track_table :: "string \<Rightarrow> bool" where
  "is_track_table tb = (rx_test track_listing_rx tb \<or> rx_test track_no_rx tb)"

definition push_table :: "track list \<Rightarrow> string \<Rightarrow> track list" where
  "push_table rows tb =
     (if \<not> is_track_table tb then rows else foldl push_row rows (rx_match_all tr_rx tb))"

definition track_rows :: "string \<Rightarrow> track list" where
  "track_rows html = foldl push_table [] (rx_match_all table_rx html)"

definition extractTracklistFromHTML :: "string \<Rightarrow> out_doc \<Rightarrow> out_doc" where
  "extractTracklistFromHTML html out =
     (let rows = track_rows html in
      if rows \<noteq> [] then out\<lparr>wikipedia := (wikipedia out)\<lparr>tracklist := Some rows\<rparr>\<rparr> else out)"

text \<open>
  The sections \<^verbatim>\<open>/<h2[^>]*>[\s\S]*?<\/h2>[\s\S]*?(?=<h2|$)/gi\<close> and the list items
  \<^verbatim>\<open>/<li[^>]*>([\s\S]*?)<\/li>/gi\<close> of the other extractors.
\<close>

definition section_rx :: "'r rx" where
  "section_rx =
     rx_cat [rx_lit ''<h2'', rx_star not_gt, rx_chr is_gt, rx_lazy any_char, rx_lit ''</h2>'',
             rx_lazy any_char, rx_ahead (rx_alt (rx_lit ''<h2'') rx_end)]"

definition li_rx :: "'r rx" where
  "li_rx = rx_cat [rx_lit ''<li'', rx_star not_gt, rx_chr is_gt, rx_lazy any_char, rx_lit ''</li>'']"

text \<open>
  The loops of \<^verbatim>\<open>extractPersonnelFromHTML\<close>, \<^verbatim>\<open>extractAwardsFromHTML\<close> and
  \<^verbatim>\<open>extractCertificationsFromHTML\<close> differ in the heading they look for and in how a list
  item is flattened.
\<close>

definition section_items :: "string rx \<Rightarrow> (string \<Rightarrow> string) \<Rightarrow> string \<Rightarrow> string list" where
  "section_items heading flatten html =
     foldl (\<lambda>found s.
              if \<not> rx_test heading s then found
              else foldl (\<lambda>acc li. let line = flatten li in if line \<noteq> [] then acc @ [line] else acc)
                     found (rx_match_all li_rx s))
       [] (rx_match_all section_rx html)"

definition extractPersonnelFromHTML :: "string \<Rightarrow> out_doc \<Rightarrow> out_doc" where
  "extractPersonnelFromHTML html out =
     (let found = section_items (rx_alt (rx_lit ''Personnel'') (rx_lit ''Credits''))
                    (\<lambda>li. trim (squeeze_spaces (stripHtml li))) html in
      if found \<noteq> [] then out\<lparr>wikipedia := (wikipedia out)\<lparr>wp_personnel := Some found\<rparr>\<rparr> else out)"

definition extractAwardsFromHTML :: "string \<Rightarrow> out_doc \<Rightarrow> out_doc" where
  "extractAwardsFromHTML html out =
     (let aw = section_items (rx_alt (rx_lit ''Awards'') (rx_lit ''Accolades''))
                 (\<lambda>l. trim (stripHtml l)) html in
      if aw \<noteq> [] then out\<lparr>wikipedia := (wikipedia out)\<lparr>awards := Some aw\<rparr>\<rparr> else out)"

definition extractCertificationsFromHTML :: "string \<Rightarrow> out_doc \<Rightarrow> out_doc" where
  "extractCertificationsFromHTML html out =
     (let cf = section_items (rx_lit ''Certifications'') (\<lambda>l. trim (stripHtml l)) html in
      if cf \<noteq> [] then out\<lparr>wikipedia := (wikipedia out)\<lparr>certifications := Some cf\<rparr>\<rparr> else out)"

definition landmark_patterns :: "string rx list" where
  "landmark_patterns =
     [rx_lit ''Grammy Hall of Fame'', rx_lit ''National Recording Registry'',
      rx_cat [rx_lit ''RIAA'', rx_spaces1, rx_lit ''certified''],
      rx_lit ''most influential'', rx_lit ''landmark album'']"

definition extractLandmarksFromHTML :: "string \<Rightarrow> out_doc \<Rightarrow> out_doc" where
  "extractLandmarksFromHTML html out =
     (let txt = squeeze_spaces (stripHtml html);
          hits = foldl (\<lambda>acc rx. case rx_search rx txt of Some m \<Rightarrow> acc @ [m] | None \<Rightarrow> acc)
                   [] landmark_patterns in
      if hits \<noteq> [] then out\<lparr>wikipedia := (wikipedia out)\<lparr>landmarks := Some (dedupe hits)\<rparr>\<rparr> else out)"

section \<open>The resolution stages\<close>

text \<open>
  A stage mutates the document statement by statement. \<open>steps\<close> runs such statements in
  order; the other helpers write one member of the document.
\<close>

definition steps :: "(out_doc \<Rightarrow> out_doc) list \<Rightarrow> out_doc \<Rightarrow> out_doc" where
  "steps fs out = foldl (\<lambda>d f. f d) out fs"

definition upd_canonical :: "(canonical \<Rightarrow> canonical) \<Rightarrow> out_doc \<Rightarrow> out_doc" where
  "upd_canonical f out = out\<lparr>canonical := f (canonical out)\<rparr>"

definition upd_ids :: "(ids \<Rightarrow> ids) \<Rightarrow> out_doc \<Rightarrow> out_doc" where
  "upd_ids f out = out\<lparr>ids := f (ids out)\<rparr>"

definition upd_wikipedia :: "(wikipedia \<Rightarrow> wikipedia) \<Rightarrow> out_doc \<Rightarrow> out_doc" where
  "upd_wikipedia f out = out\<lparr>wikipedia := f (wikipedia out)\<rparr>"

definition upd_wiki :: "(wiki \<Rightarrow> wiki) \<Rightarrow> out_doc \<Rightarrow> out_doc" where
  "upd_wiki f out = out\<lparr>wiki := f (wiki out)\<rparr>"

definition set_matched_on :: "string \<Rightarrow> out_doc \<Rightarrow> out_doc" where
  "set_matched_on m out = out\<lparr>diagnostics := (diagnostics out)\<lparr>matched_on := Some m\<rparr>\<rparr>"

definition mk_ref :: "string option \<Rightarrow> string \<Rightarrow> idref" where
  "mk_ref i u = \<lparr> ref_id = i, ref_url = u \<rparr>"

text \<open>\<^verbatim>\<open>x?.id\<close> as a condition, for an identifier reference \<open>x\<close>.\<close>

definition ref_truthy :: "idref option \<Rightarrow> bool" where
  "ref_truthy x = (case x of None \<Rightarrow> False | Some r \<Rightarrow> truthy (ref_id r))"

definition label_truthy :: "label_value option \<Rightarrow> bool" where
  "label_truthy l =
     (case l of None \<Rightarrow> False | Some (LabelName n) \<Rightarrow> n \<noteq> [] | Some (LabelList _) \<Rightarrow> True)"

subsection \<open>Discogs\<close>

text \<open>The separator \<^verbatim>\<open>hit.title\<close> is split at: an en dash between two spaces.\<close>

definition en_dash_sep :: string where
  "en_dash_sep = [CHR '' '', CHR 0xE2, CHR 0x80, CHR 0x93, CHR '' '']"

definition discogs_title_step :: "discogs_hit \<Rightarrow> out_doc \<Rightarrow> out_doc" where
  "discogs_title_step hit out =
     (if truthy (hit_title hit) \<and> \<not> truthy (title (canonical out)) then
        (let m = split_on en_dash_sep (the (hit_title hit)) in
         if length m = 2 then
           steps [upd_canonical (\<lambda>c. c\<lparr>artist := js_or (artist c) (Some (m ! 0))\<rparr>),
                  upd_canonical (\<lambda>c. c\<lparr>title := js_or (title c) (Some (m ! 1))\<rparr>)] out
         else upd_canonical (\<lambda>c. c\<lparr>title := js_or (title c) (hit_title hit)\<rparr>) out)
      else out)"

definition discogs_apply_hit :: "seed \<Rightarrow> discogs_hit \<Rightarrow> out_doc \<Rightarrow> out_doc" where
  "discogs_apply_hit seed hit =
     steps
       [upd_ids (\<lambda>i. i\<lparr>discogs_release_id :=
           (if truthy_nat (hit_id hit)
            then Some (mk_ref (Some (string_of_nat (the (hit_id hit))))
                   (''https://www.discogs.com/release/'' @ string_of_nat (the (hit_id hit))))
            else None)\<rparr>),
        (\<lambda>out. if truthy_nat (hit_master_id hit)
           then upd_ids (\<lambda>i. i\<lparr>discogs_master_id :=
                  Some (mk_ref (Some (string_of_nat (the (hit_master_id hit))))
                    (''https://www.discogs.com/master/'' @ string_of_nat (the (hit_master_id hit))))\<rparr>) out
           else out),
        (\<lambda>out. if truthy (hit_country hit)
           then upd_canonical (\<lambda>c. c\<lparr>country := hit_country hit\<rparr>) out else out),
        (\<lambda>out. if hit_label hit \<noteq> None \<and> \<not> label_truthy (label (canonical out))
           then upd_canonical (\<lambda>c. c\<lparr>label := map_option LabelList (hit_label hit)\<rparr>) out else out),
        (\<lambda>out. case hit_genre hit of
             Some (g # gs) \<Rightarrow> upd_canonical (\<lambda>c. c\<lparr>genre := dedupe (genre c @ g # gs)\<rparr>) out
           | _ \<Rightarrow> out),
        (\<lambda>out. case hit_style hit of
             Some (g # gs) \<Rightarrow> upd_canonical (\<lambda>c. c\<lparr>genre := dedupe (genre c @ g # gs)\<rparr>) out
           | _ \<Rightarrow> out),
        discogs_title_step hit,
        (\<lambda>out. if truthy (hit_year hit) \<and> \<not> truthy (year (canonical out))
           then upd_canonical (\<lambda>c. c\<lparr>year := hit_year hit\<rparr>) out else out),
        (\<lambda>out. if truthy (hit_thumb hit) \<and> \<not> truthy (cover_url (canonical out))
           then upd_canonical (\<lambda>c. c\<lparr>cover_url := hit_thumb hit\<rparr>) out else out),
        (\<lambda>out. if truthy (seed_upc seed)
           then upd_canonical (\<lambda>c. c\<lparr>upc := seed_upc seed\<rparr>) out else out)]"

definition resolveDiscogsByUPC :: "seed \<Rightarrow> unit prog" where
  "resolveDiscogsByUPC seed =
     (if \<not> truthy (seed_upc seed) then ret ()
      else
        bnd (GETjson ''https://api.discogs.com'' ''/database/search'' DiscogsHttp
               (urlsearchparams [(''type'', ''release''), (''barcode'', the (seed_upc seed)),
                                 (''per_page'', ''1''), (''page'', ''1'')])) (\<lambda>data.
        case data of
          None \<Rightarrow> upd (push_note ''discogs query failed or rate-limited'')
        | Some d \<Rightarrow>
            (case discogs_results d of
               Some (hit # _) \<Rightarrow> upd (discogs_apply_hit seed hit)
             | _ \<Rightarrow> ret ())))"

subsection \<open>MusicBrainz\<close>

definition hydrateMBRelease :: "string \<Rightarrow> mb_release option prog" where
  "hydrateMBRelease rid =
     (let qs = urlsearchparams [(''fmt'', ''json''),
                 (''inc'', ''url-rels+tags+artist-credits+label-info+release-group'')]
      in
      catch
        (bnd (fetch (Get (''https://musicbrainz.org/ws/2/release/'' @ rid @ ''?'' @ qs))) (\<lambda>r.
         bnd (upd (push_http MbHttp \<lparr> h_url = ''/release/'' @ rid, h_status = r_status r \<rparr>)) (\<lambda>_.
         if \<not> ok r then
           bnd (upd (push_note (''musicbrainz release detail failed with status ''
                  @ string_of_nat (r_status r)))) (\<lambda>_.
           ret None)
         else bnd (json_of r) (\<lambda>p. ret (map_option as_release p)))))
        (\<lambda>e.
         bnd (upd (push_note (''musicbrainz release fetch error: '' @ error_string e))) (\<lambda>_.
         ret None)))"

text \<open>\<^verbatim>\<open>search && search.releases && search.releases.length\<close>, and then \<^verbatim>\<open>search.releases[0]\<close>.\<close>

definition first_release :: "payload option \<Rightarrow> mb_release option" where
  "first_release search =
     (case search of
        None \<Rightarrow> None
      | Some p \<Rightarrow> (case mb_releases p of Some (r # _) \<Rightarrow> Some r | _ \<Rightarrow> None))"

text \<open>
  The search for one barcode, and the loop over the barcodes, left at the first search that
  finds a release.
\<close>

definition barcode_search :: "string \<Rightarrow> payload option prog" where
  "barcode_search bc =
     GETjson ''https://musicbrainz.org/ws/2'' ''/release/'' MbHttp
       (urlsearchparams [(''query'', ''barcode:'' @ bc), (''fmt'', ''json'')])"

fun mb_search_barcodes :: "string list \<Rightarrow> mb_release option prog" where
  "mb_search_barcodes [] = ret None"
| "mb_search_barcodes (bc # bcs) =
     bnd (barcode_search bc) (\<lambda>search.
     case first_release search of
       Some r \<Rightarrow> bnd (upd (set_matched_on ''upc'')) (\<lambda>_. ret (Some r))
     | None \<Rightarrow> mb_search_barcodes bcs)"

definition mb_search_artist_title :: "seed \<Rightarrow> mb_release option prog" where
  "mb_search_artist_title seed =
     with_doc (\<lambda>out.
       if truthy (js_or (seed_artist seed) (artist (canonical out)))
          \<and> truthy (js_or (seed_title seed) (title (canonical out)))
       then
         (let a = the (js_or (seed_artist seed) (artist (canonical out)));
              t = the (js_or (seed_title seed) (title (canonical out)))
          in
          bnd (GETjson ''https://musicbrainz.org/ws/2'' ''/release/'' MbHttp
                 (urlsearchparams [(''query'', t @ '' AND artist:'' @ a), (''fmt'', ''json'')])) (\<lambda>search.
          case first_release search of
            Some r \<Rightarrow> bnd (upd (set_matched_on ''artist+title'')) (\<lambda>_. ret (Some r))
          | None \<Rightarrow> ret None))
       else ret None)"

definition mb_apply_release :: "mb_release \<Rightarrow> out_doc \<Rightarrow> out_doc" where
  "mb_apply_release full =
     steps
       [upd_ids (\<lambda>i. i\<lparr>mb_release_mbid :=
           Some (mk_ref (rel_id full) (''https://musicbrainz.org/release/'' @ js_str (rel_id full)))\<rparr>),
        (\<lambda>out. case rel_group full of
             None \<Rightarrow> out
           | Some rg \<Rightarrow>
               upd_ids (\<lambda>i. i\<lparr>mb_release_group :=
                 Some (mk_ref (rg_id rg)
                   (''https://musicbrainz.org/release-group/'' @ js_str (rg_id rg)))\<rparr>) out),
        (\<lambda>out. case rel_artist_credit full of
             Some (ac # _) \<Rightarrow>
               if truthy (ac_artist_id ac)
               then upd_ids (\<lambda>i. i\<lparr>mb_artist_id :=
                      Some (mk_ref (ac_artist_id ac)
                        (''https://musicbrainz.org/artist/'' @ the (ac_artist_id ac)))\<rparr>) out
               else out
           | _ \<Rightarrow> out),
        (\<lambda>out. if \<not> truthy (title (canonical out))
           then upd_canonical (\<lambda>c. c\<lparr>title := js_or (rel_title full) None\<rparr>) out else out),
        (\<lambda>out. case rel_artist_credit full of
             Some (ac # acs) \<Rightarrow>
               if \<not> truthy (artist (canonical out))
               then upd_canonical (\<lambda>c. c\<lparr>artist :=
                      Some (js_join '' & '' (map ac_name (ac # acs)))\<rparr>) out
               else out
           | _ \<Rightarrow> out),
        (\<lambda>out. if truthy (rel_country full) \<and> \<not> truthy (country (canonical out))
           then upd_canonical (\<lambda>c. c\<lparr>country := rel_country full\<rparr>) out else out),
        (\<lambda>out. if truthy (rel_date full) \<and> \<not> truthy (year (canonical out))
           then upd_canonical (\<lambda>c. c\<lparr>year := Some (take 4 (the (rel_date full)))\<rparr>) out else out),
        (\<lambda>out. case rel_label_info full of
             Some (li # _) \<Rightarrow>
               steps
                 [(\<lambda>out. if truthy (li_label_name li) \<and> \<not> label_truthy (label (canonical out))
                     then upd_canonical (\<lambda>c. c\<lparr>label :=
                            Some (LabelName (the (li_label_name li)))\<rparr>) out
                     else out),
                  (\<lambda>out. if truthy (li_catalog_number li) \<and> \<not> truthy (catalog_number (canonical out))
                     then upd_canonical (\<lambda>c. c\<lparr>catalog_number := li_catalog_number li\<rparr>) out
                     else out)] out
           | _ \<Rightarrow> out),
        (\<lambda>out. case rel_tags full of
             Some (t # ts) \<Rightarrow>
               upd_canonical (\<lambda>c. c\<lparr>genre := dedupe (genre c @ map titleCase (t # ts))\<rparr>) out
           | _ \<Rightarrow> out)]"

text \<open>
  \<^verbatim>\<open>u.split(sep)[1]?.split(/[?#]/)[0]\<close>, the identifier that follows \<open>sep\<close> in a
  relation's address.
\<close>

definition id_after :: "string \<Rightarrow> string \<Rightarrow> string option" where
  "id_after sep u =
     (case nth_opt (split_on sep u) 1 of
        None \<Rightarrow> None
      | Some t \<Rightarrow> nth_opt (split_chars (\<lambda>c. c = CHR ''?'' \<or> c = CHR ''#'') t) 0)"

text \<open>The body of the loop over \<^verbatim>\<open>full.relations\<close>, for a relation with the address \<open>u\<close>.\<close>

definition relation_step :: "string \<Rightarrow> unit prog" where
  "relation_step u =
     bnd (upd (\<lambda>out.
            if js_includes u ''discogs.com/release/'' \<and> discogs_release_id (ids out) = None
               \<and> truthy (id_after ''/release/'' u)
            then upd_ids (\<lambda>i. i\<lparr>discogs_release_id :=
                   Some (mk_ref (id_after ''/release/'' u)
                     (''https://www.discogs.com/release/'' @ the (id_after ''/release/'' u)))\<rparr>) out
            else out)) (\<lambda>_.
     bnd (upd (\<lambda>out.
            if js_includes u ''wikidata.org/wiki/Q'' \<and> truthy (id_after ''/wiki/'' u)
               \<and> wikidata_qid (ids out) = None
            then upd_ids (\<lambda>i. i\<lparr>wikidata_qid :=
                   Some (mk_ref (id_after ''/wiki/'' u)
                     (''https://www.wikidata.org/wiki/'' @ the (id_after ''/wiki/'' u)))\<rparr>) out
            else out)) (\<lambda>_.
     with_doc (\<lambda>out.
       if js_includes u ''en.wikipedia.org/wiki/'' \<and> wikipedia_title (ids out) = None then
         (case decodeURIComponent (js_str (nth_opt (split_on ''/wiki/'' u) 1)) of
            None \<Rightarrow> throw (JsError ''URIError'' ''URI malformed'')
          | Some t \<Rightarrow>
              upd (upd_ids (\<lambda>i. i\<lparr>wikipedia_title :=
                Some (mk_ref (Some t) (''https://en.wikipedia.org/wiki/'' @ t))\<rparr>)))
       else ret ())))"

fun scan_relations :: "string option list \<Rightarrow> unit prog" where
  "scan_relations [] = ret ()"
| "scan_relations (rel # rels) =
     (if \<not> truthy rel then scan_relations rels
      else bnd (relation_step (the rel)) (\<lambda>_. scan_relations rels))"

definition warm_cache :: "unit prog" where
  "warm_cache =
     bnd (with_doc (\<lambda>out.
            if ref_truthy (mb_release_group (ids out))
            then bnd (GETjson ''https://musicbrainz.org/ws/2''
                        (''/release-group/'' @ the (ref_id (the (mb_release_group (ids out)))))
                        MbHttp ''fmt=json'') (\<lambda>_. ret ())
            else ret ())) (\<lambda>_.
     with_doc (\<lambda>out.
       if ref_truthy (mb_artist_id (ids out))
       then bnd (GETjson ''https://musicbrainz.org/ws/2''
                   (''/artist/'' @ the (ref_id (the (mb_artist_id (ids out)))))
                   MbHttp ''fmt=json'') (\<lambda>_. ret ())
       else ret ()))"

text \<open>
  \<^verbatim>\<open>resolveMusicBrainz(seed, out)\<close>: \<open>mb_use_candidate\<close> is what follows the loop over the
  barcodes, with \<open>r1\<close> for \<^verbatim>\<open>mbRel\<close> as the loop left it.
\<close>

definition mb_use_candidate :: "seed \<Rightarrow> mb_release option \<Rightarrow> unit prog" where
  "mb_use_candidate seed r1 =
     bnd (if r1 = None \<and> truthy (seed_mbid seed) then hydrateMBRelease (the (seed_mbid seed))
          else ret r1) (\<lambda>r2.
     bnd (if r2 = None \<and> truthy (seed_mb_release_mbid seed)
          then hydrateMBRelease (the (seed_mb_release_mbid seed))
          else ret r2) (\<lambda>r3.
     bnd (if r3 = None then mb_search_artist_title seed else ret r3) (\<lambda>mbRel.
     case mbRel of
       None \<Rightarrow> ret ()
     | Some rel \<Rightarrow>
         bnd (hydrateMBRelease (js_str (rel_id rel))) (\<lambda>full.
         case full of
           None \<Rightarrow> ret ()
         | Some f \<Rightarrow>
             bnd (upd (mb_apply_release f)) (\<lambda>_.
             bnd (case rel_relations f of
                    Some (r # rs) \<Rightarrow> scan_relations (r # rs)
                  | _ \<Rightarrow> ret ()) (\<lambda>_.
             warm_cache))))))"

definition resolveMusicBrainz :: "seed \<Rightarrow> unit prog" where
  "resolveMusicBrainz seed =
     bnd (if truthy (seed_upc seed) then with_doc (\<lambda>out. mb_search_barcodes (mb_barcodes out))
          else ret None) (\<lambda>r1.
     mb_use_candidate seed r1)"

subsection \<open>Wikidata\<close>

definition nl :: string where
  "nl = [CHR 0x0A]"

definition sparql_first :: "string \<Rightarrow> string \<Rightarrow> string option prog" where
  "sparql_first body tag =
     bnd (fetch (Post ''https://query.wikidata.org/sparql'' body)) (\<lambda>r.
     bnd (upd (push_http WdHttp \<lparr> h_url = tag, h_status = r_status r \<rparr>)) (\<lambda>_.
     if \<not> ok r then ret None
     else
       bnd (json_of r) (\<lambda>j.
       case (case j of None \<Rightarrow> None | Some p \<Rightarrow> sparql_first_item p) of
         None \<Rightarrow> ret None
       | Some b \<Rightarrow>
           if b = [] then ret None
           else ret (Some (last (split_chars (\<lambda>c. c = CHR ''/'') b))))))"

definition sparqlFirstQIDForMBRG :: "string \<Rightarrow> string option prog" where
  "sparqlFirstQIDForMBRG mbRGid =
     sparql_first
       (nl @ ''SELECT ?item WHERE {'' @ nl @ ''  ?item wdt:P436 ?mbRG .'' @ nl
        @ ''  FILTER(?mbRG = '' @ [dquote] @ mbRGid @ [dquote] @ '')'' @ nl @ ''} LIMIT 1'')
       ''SPARQL:MBRG->Q''"

text \<open>\<^verbatim>\<open>s.replace(/"/g, '\\"')\<close>.\<close>

definition escape_quotes :: "string \<Rightarrow> string" where
  "escape_quotes s = concat (map (\<lambda>c. if c = dquote then [CHR 0x5C, dquote] else [c]) s)"

definition sparqlFirstQIDByTitleArtist :: "string \<Rightarrow> string \<Rightarrow> string option prog" where
  "sparqlFirstQIDByTitleArtist t a =
     sparql_first
       (nl @ ''SELECT ?item WHERE {'' @ nl
        @ ''  ?item rdfs:label '' @ [dquote] @ escape_quotes t @ [dquote] @ ''@en;'' @ nl
        @ ''        wdt:P175 ?a.'' @ nl
        @ ''  ?a rdfs:label '' @ [dquote] @ escape_quotes a @ [dquote] @ ''@en.'' @ nl
        @ ''} LIMIT 1'')
       ''SPARQL:title+artist->Q''"

definition sparqlFirstArtistQIDByMBArtist :: "string \<Rightarrow> string option prog" where
  "sparqlFirstArtistQIDByMBArtist mbArtistId =
     sparql_first
       (nl @ ''SELECT ?item WHERE {'' @ nl
        @ ''  ?item wdt:P434 '' @ [dquote] @ mbArtistId @ [dquote] @ '' .'' @ nl @ ''} LIMIT 1'')
       ''SPARQL:MBArtist->Q''"

definition fetchWikidataEntity :: "string \<Rightarrow> wd_entity option prog" where
  "fetchWikidataEntity q =
     bnd (GETjson ''https://www.wikidata.org/wiki/Special:EntityData'' (''/'' @ q @ ''.json'')
            WdHttp []) (\<lambda>data.
     ret (case data of None \<Rightarrow> None | Some p \<Rightarrow> entity_of p q))"

definition claim_id :: "snak_value option \<Rightarrow> string option" where
  "claim_id v = (case v of Some (ObjVal i) \<Rightarrow> i | _ \<Rightarrow> None)"

definition pickClaimId :: "wd_entity option \<Rightarrow> string \<Rightarrow> string option" where
  "pickClaimId entity p =
     (case entity of
        None \<Rightarrow> None
      | Some e \<Rightarrow>
          (case map_of (ent_claims e) p of
             None \<Rightarrow> None
           | Some c \<Rightarrow> (case filter truthy (map claim_id c) of [] \<Rightarrow> None | i # _ \<Rightarrow> i)))"

definition wd_ref :: "string \<Rightarrow> idref" where
  "wd_ref q = mk_ref (Some q) (''https://www.wikidata.org/wiki/'' @ q)"

definition resolve_album_qid :: "unit prog" where
  "resolve_album_qid =
     with_doc (\<lambda>out.
       if wikidata_qid (ids out) = None then
         bnd (if ref_truthy (mb_release_group (ids out)) then
                bnd (sparqlFirstQIDForMBRG (the (ref_id (the (mb_release_group (ids out)))))) (\<lambda>q.
                if truthy q then upd (upd_ids (\<lambda>i. i\<lparr>wikidata_qid := Some (wd_ref (the q))\<rparr>))
                else ret ())
              else ret ()) (\<lambda>_.
         with_doc (\<lambda>out.
           if wikidata_qid (ids out) = None \<and> truthy (title (canonical out))
              \<and> truthy (artist (canonical out))
           then
             bnd (sparqlFirstQIDByTitleArtist (the (title (canonical out)))
                    (the (artist (canonical out)))) (\<lambda>q.
             if truthy q then upd (upd_ids (\<lambda>i. i\<lparr>wikidata_qid := Some (wd_ref (the q))\<rparr>))
             else ret ())
           else ret ()))
       else ret ())"

definition resolve_artist_qid :: "unit prog" where
  "resolve_artist_qid =
     with_doc (\<lambda>out.
       if artist_wikidata_qid (ids out) = None then
         bnd (if ref_truthy (mb_artist_id (ids out)) then
                bnd (sparqlFirstArtistQIDByMBArtist (the (ref_id (the (mb_artist_id (ids out)))))) (\<lambda>qa.
                if truthy qa
                then upd (upd_ids (\<lambda>i. i\<lparr>artist_wikidata_qid := Some (wd_ref (the qa))\<rparr>))
                else ret ())
              else ret ()) (\<lambda>_.
         with_doc (\<lambda>out.
           if artist_wikidata_qid (ids out) = None \<and> ref_truthy (wikidata_qid (ids out)) then
             bnd (fetchWikidataEntity (the (ref_id (the (wikidata_qid (ids out)))))) (\<lambda>entity.
             let performer = pickClaimId entity ''P175'' in
             if truthy performer
             then upd (upd_ids (\<lambda>i. i\<lparr>artist_wikidata_qid := Some (wd_ref (the performer))\<rparr>))
             else ret ())
           else ret ()))
       else ret ())"

definition resolve_enwiki_title :: "unit prog" where
  "resolve_enwiki_title =
     with_doc (\<lambda>out.
       if wikipedia_title (ids out) = None \<and> ref_truthy (wikidata_qid (ids out)) then
         bnd (fetchWikidataEntity (the (ref_id (the (wikidata_qid (ids out)))))) (\<lambda>entity.
         let enTitle = (case entity of None \<Rightarrow> None | Some e \<Rightarrow> ent_enwiki_title e) in
         if truthy enTitle
         then upd (upd_ids (\<lambda>i. i\<lparr>wikipedia_title :=
                Some (mk_ref enTitle
                  (''https://en.wikipedia.org/wiki/'' @ encodeURIComponent (the enTitle)))\<rparr>))
         else ret ())
       else ret ())"

definition resolveWikidataAndWikipedia :: "seed \<Rightarrow> unit prog" where
  "resolveWikidataAndWikipedia seed =
     with_doc (\<lambda>out.
       if wikidata_qid (ids out) \<noteq> None \<and> artist_wikidata_qid (ids out) \<noteq> None
          \<and> wikipedia_title (ids out) \<noteq> None
       then ret ()
       else bnd resolve_album_qid (\<lambda>_. bnd resolve_artist_qid (\<lambda>_. resolve_enwiki_title)))"

subsection \<open>Wikipedia\<close>

definition pickLargestSrc :: "string option list option \<Rightarrow> string option" where
  "pickLargestSrc srcset =
     (case srcset of
        None \<Rightarrow> None
      | Some [] \<Rightarrow> None
      | Some (x # xs) \<Rightarrow>
          (let cand = last (x # xs) in
           if \<not> truthy cand then None
           else if starts_with (the cand) ''//'' then Some (''https:'' @ the cand)
           else cand))"

definition push_media_item :: "out_doc \<Rightarrow> media_item \<Rightarrow> out_doc" where
  "push_media_item out it =
     (if \<not> truthy (mi_title it) \<or> mi_srcset it = None then out
      else
        (let best = pickLargestSrc (mi_srcset it) in
         if truthy best then
           upd_wiki (\<lambda>w. w\<lparr>article_gallery := article_gallery w @
             [\<lparr> gi_source = ''enwiki:media-list'', gi_role = ''gallery'', gi_title = the (mi_title it),
                gi_url = best, gi_width = None, gi_height = None, gi_mime = None,
                gi_credit = None \<rparr>]\<rparr>) out
         else out))"

definition wp_page :: string where
  "wp_page = ''https://en.wikipedia.org/api/rest_v1/page''"

definition enrichFromWikipedia :: "seed \<Rightarrow> unit prog" where
  "enrichFromWikipedia seed =
     with_doc (\<lambda>out.
       if \<not> ref_truthy (wikipedia_title (ids out)) then ret ()
       else
         (let t = the (ref_id (the (wikipedia_title (ids out)))) in
          bnd (GETjson wp_page (''/summary/'' @ encodeURIComponent t) WikiHttp []) (\<lambda>sm.
          bnd (case sm of
                 None \<Rightarrow> ret ()
               | Some p \<Rightarrow>
                   if truthy (sum_title (as_summary p)) then
                     upd (steps
                       [upd_wikipedia (\<lambda>w. w\<lparr>wp_title := sum_title (as_summary p)\<rparr>),
                        upd_wikipedia (\<lambda>w. w\<lparr>wp_summary :=
                          js_or (sum_extract (as_summary p)) (Some [])\<rparr>),
                        (\<lambda>out. if truthy (sum_thumbnail_source (as_summary p))
                                   \<and> \<not> truthy (cover_url (canonical out))
                           then upd_canonical (\<lambda>c. c\<lparr>cover_url :=
                                  sum_thumbnail_source (as_summary p)\<rparr>) out
                           else out)])
                   else ret ()) (\<lambda>_.
          bnd (GETjson wp_page (''/infobox/'' @ encodeURIComponent t) WikiHttp []) (\<lambda>info.
          bnd (case info of
                 None \<Rightarrow> ret ()
               | Some p \<Rightarrow>
                   if is_object p then upd (upd_wikipedia (\<lambda>w. w\<lparr>infobox := Some p\<rparr>))
                   else ret ()) (\<lambda>_.
          bnd (GETjson wp_page (''/media-list/'' @ encodeURIComponent t) WikiHttp []) (\<lambda>mediaList.
          bnd (case (case mediaList of None \<Rightarrow> None | Some p \<Rightarrow> media_items p) of
                 None \<Rightarrow> ret ()
               | Some its \<Rightarrow> upd (\<lambda>out. foldl push_media_item out its)) (\<lambda>_.
          bnd (fetch (Get (''https://en.wikipedia.org/api/rest_v1/page/html/''
                 @ encodeURIComponent t))) (\<lambda>html.
          bnd (upd (push_http WikiHttp \<lparr> h_url = ''/html/'' @ t, h_status = r_status html \<rparr>)) (\<lambda>_.
          if ok html then
            upd (steps
              [extractTracklistFromHTML (r_text html),
               extractPersonnelFromHTML (r_text html),
               extractAwardsFromHTML (r_text html),
               extractLandmarksFromHTML (r_text html),
               extractCertificationsFromHTML (r_text html)])
          else ret ()))))))))))"

subsection \<open>Image galleries\<close>

record file_info =
  fi_url :: "string option"
  fi_width :: "nat option"
  fi_height :: "nat option"
  fi_mime :: "string option"
  fi_license :: string
  fi_artist :: string
  fi_credit :: string
  fi_attributionRequired :: bool
  fi_creditLine :: string
  fi_description :: string
  fi_title :: string

text \<open>\<^verbatim>\<open>v ? stripHtml(v) : ""\<close> and \<^verbatim>\<open>v || ""\<close>.\<close>

definition stripped_or_empty :: "string option \<Rightarrow> string" where
  "stripped_or_empty v = (if truthy v then stripHtml (the v) else [])"

definition or_empty :: "string option \<Rightarrow> string" where
  "or_empty v = (if truthy v then the v else [])"

definition commonsImageInfo :: "string \<Rightarrow> file_info option prog" where
  "commonsImageInfo filename =
     (let qs = urlsearchparams
            [(''action'', ''query''), (''titles'', ''File:'' @ filename), (''prop'', ''imageinfo''),
             (''iiprop'', ''url|user|extmetadata|size|mime''), (''format'', ''json''),
             (''origin'', ''*'')]
      in
      bnd (fetch (Get (''https://commons.wikimedia.org/w/api.php'' @ ''?'' @ qs))) (\<lambda>r.
      bnd (upd (push_http WikiHttp \<lparr> h_url = ''/commons:imageinfo'', h_status = r_status r \<rparr>)) (\<lambda>_.
      if \<not> ok r then ret None
      else
        bnd (json_of r) (\<lambda>j.
        let first = (case j of None \<Rightarrow> None | Some p \<Rightarrow> commons_first_page p) in
        case (case first of None \<Rightarrow> None | Some pg \<Rightarrow> pg_imageinfo pg) of
          None \<Rightarrow> ret None
        | Some ii \<Rightarrow>
            ret (Some
              \<lparr> fi_url = ii_url ii, fi_width = ii_width ii, fi_height = ii_height ii,
                fi_mime = ii_mime ii,
                fi_license = or_empty (js_or (ii_meta_LicenseShortName ii) (ii_meta_License ii)),
                fi_artist = stripped_or_empty (ii_meta_Artist ii),
                fi_credit = stripped_or_empty (ii_meta_Credit ii),
                fi_attributionRequired = (ii_meta_AttributionRequired ii = Some ''true''),
                fi_creditLine = stripped_or_empty (ii_meta_Credit ii),
                fi_description = stripped_or_empty (ii_meta_ImageDescription ii),
                fi_title = or_empty (case first of None \<Rightarrow> None | Some pg \<Rightarrow> pg_title pg) \<rparr>)))))"

definition buildImageCredit :: "file_info \<Rightarrow> image_credit" where
  "buildImageCredit fi =
     \<lparr> cr_license = fi_license fi, cr_artist = fi_artist fi, cr_caption = fi_description fi \<rparr>"

text \<open>
  The values of the image claims that are truthy, as \<^verbatim>\<open>`${f}`\<close> prints them, and the loop
  over the first \<^verbatim>\<open>max_images\<close> of them.
\<close>

definition file_names :: "snak_value option list \<Rightarrow> string list" where
  "file_names p18 =
     concat (map (\<lambda>v. case v of
                     None \<Rightarrow> []
                   | Some (StrVal f) \<Rightarrow> if f \<noteq> [] then [f] else []
                   | Some (ObjVal _) \<Rightarrow> [''[object Object]'']) p18)"

fun push_artist_images :: "string list \<Rightarrow> unit prog" where
  "push_artist_images [] = ret ()"
| "push_artist_images (f # fs) =
     bnd (commonsImageInfo f) (\<lambda>fi.
     bnd (case fi of
            None \<Rightarrow> ret ()
          | Some i \<Rightarrow>
              if truthy (fi_url i) then
                upd (upd_wiki (\<lambda>w. w\<lparr>artist_gallery := artist_gallery w @
                  [\<lparr> gi_source = ''wikidata:P18'', gi_role = ''image'', gi_title = ''File:'' @ f,
                     gi_url = fi_url i, gi_width = fi_width i, gi_height = fi_height i,
                     gi_mime = fi_mime i, gi_credit = Some (buildImageCredit i) \<rparr>]\<rparr>))
              else ret ()) (\<lambda>_.
     push_artist_images fs))"

definition buildImageGalleries :: "seed \<Rightarrow> unit prog" where
  "buildImageGalleries seed =
     with_doc (\<lambda>out.
       if ref_truthy (artist_wikidata_qid (ids out)) then
         bnd (fetchWikidataEntity (the (ref_id (the (artist_wikidata_qid (ids out)))))) (\<lambda>ent.
         let p18 = (case ent of
                      None \<Rightarrow> []
                    | Some e \<Rightarrow> (case map_of (ent_claims e) ''P18'' of None \<Rightarrow> [] | Some c \<Rightarrow> c))
         in with_doc (\<lambda>out. push_artist_images (take (max_images (out_flags out)) (file_names p18))))
       else ret ())"

section \<open>The pipeline\<close>

text \<open>
  The body of the \<^verbatim>\<open>try\<close> block of the request handler, from the parsed seed on, and the
  handler around it, which logs an exception as a fatal note and answers with the document as
  it then is.
\<close>

definition pipeline :: "seed \<Rightarrow> unit prog" where
  "pipeline seed0 =
     bnd (\<lambda>s. case normalizeSeed seed0 (doc s) of (seed1, out1) \<Rightarrow> (Inr seed1, s\<lparr>doc := out1\<rparr>)) (\<lambda>seed.
     bnd (if truthy (seed_upc seed) then resolveDiscogsByUPC seed else ret ()) (\<lambda>_.
     bnd (resolveMusicBrainz seed) (\<lambda>_.
     bnd (resolveWikidataAndWikipedia seed) (\<lambda>_.
     bnd (enrichFromWikipedia seed) (\<lambda>_.
     bnd (with_doc (\<lambda>out. if flag_images (out_flags out) \<noteq> ''none''
                           then buildImageGalleries seed else ret ())) (\<lambda>_.
     bnd (upd finalizeCanonical) (\<lambda>_.
     bnd (upd aggregateDownloadList) (\<lambda>_.
     upd (stamp ''done'')))))))))"

definition run :: "flags \<Rightarrow> seed \<Rightarrow> world \<Rightarrow> (js_error + unit) \<times> out_doc \<times> world" where
  "run fl seed w =
     (case pipeline seed \<lparr> doc = stamp ''start'' (initOut fl), net = w \<rparr> of
        (Inr u, s) \<Rightarrow> (Inr u, doc s, net s)
      | (Inl e, s) \<Rightarrow> (Inl e, push_note (''fatal:'' @ fatal_text e) (doc s), net s))"

section \<open>Example inputs\<close>

definition default_flags :: flags where
  "default_flags = \<lparr> flag_all = False, flag_images = ''both'', flag_lang = ''en'', max_images = 12 \<rparr>"

definition empty_seed :: seed where
  "empty_seed =
     \<lparr> seed_upc = None, seed_mbid = None, seed_mb_release_mbid = None,
       seed_mb_release_group = None, seed_mb_artist_id = None, seed_discogs = None,
       seed_discogs_master_id = None, seed_qid = None, seed_title = None, seed_artist = None \<rparr>"

definition url_item :: "string option \<Rightarrow> gallery_item" where
  "url_item u =
     \<lparr> gi_source = ''enwiki:media-list'', gi_role = ''gallery'', gi_title = ''File'', gi_url = u,
       gi_width = None, gi_height = None, gi_mime = None, gi_credit = None \<rparr>"

definition example_galleries :: out_doc where
  "example_galleries =
     (initOut default_flags)\<lparr>wiki :=
        \<lparr> article_gallery = [url_item (Some ''a''), url_item None, url_item (Some ''b''), url_item (Some ''a'')],
          album_gallery = [url_item (Some ''c''), url_item (Some ''b'')],
          artist_gallery = [url_item (Some []), url_item (Some ''d''), url_item (Some ''c'')] \<rparr>\<rparr>"

definition status_only :: "nat \<Rightarrow> response" where
  "status_only n = \<lparr> r_status = n, r_body = NotJson, r_text = [] \<rparr>"

definition start_sys :: "fetch_result list \<Rightarrow> sys" where
  "start_sys script = \<lparr> doc = initOut default_flags, net = \<lparr> pending = script, trace = [] \<rparr> \<rparr>"

text \<open>
  An article's table with a header row, a row whose first cell is a number within white
  space, a row whose first cell is a number behind a no-break space (U+00A0, the bytes C2 A0),
  and a row of one cell; the caption has a no-break space between its two words.
\<close>

definition nbsp :: string where
  "nbsp = [CHR 0xC2, CHR 0xA0]"

definition nbsp_row :: string where
  "nbsp_row = ''<tr><td>'' @ nbsp @ ''3</td><td>Blue in Green</td></tr>''"

definition track_table :: string where
  \<open>track_table =
     ''<table class="wikitable"><caption>Track'' @ nbsp @ ''listing</caption>''
     @ ''<tr><th>No.</th><th>Title</th></tr><tr><td> 2. </td><td><i>So What</i></td></tr>''
     @ nbsp_row @ ''<tr><td>4</td></tr></table>''\<close>

section \<open>What a stage leaves alone\<close>

text \<open>
  \<open>kept d d'\<close>: from the document \<open>d\<close> to the document \<open>d'\<close> the canonical format was not
  written, the canonical title was not written if it was set (not empty) in \<open>d\<close>, and the
  canonical genres are free of duplicates if they were in \<open>d\<close>.
  \<open>stable\<close> says that a computation relates the document it starts on to the document it
  ends on, whether it returns or throws.
\<close>

definition kept :: "out_doc \<Rightarrow> out_doc \<Rightarrow> bool" where
  "kept d d' =
     (format (canonical d') = format (canonical d)
      \<and> (truthy (title (canonical d)) \<longrightarrow> title (canonical d') = title (canonical d))
      \<and> (distinct (genre (canonical d)) \<longrightarrow> distinct (genre (canonical d'))))"

text \<open>\<open>genres_distinct d d'\<close> is the last part of it alone.\<close>

definition genres_distinct :: "out_doc \<Rightarrow> out_doc \<Rightarrow> bool" where
  "genres_distinct d d' = (distinct (genre (canonical d)) \<longrightarrow> distinct (genre (canonical d')))"

definition stable :: "(out_doc \<Rightarrow> out_doc \<Rightarrow> bool) \<Rightarrow> 'a prog \<Rightarrow> bool" where
  "stable R m = (\<forall>s. R (doc s) (doc (snd (m s))))"

text \<open>
  \<open>ensures P m Q\<close>: when \<open>m\<close> starts on a document with \<open>P\<close> and returns, it ends on a
  document with \<open>Q\<close>.
\<close>

definition ensures :: "(out_doc \<Rightarrow> bool) \<Rightarrow> 'a prog \<Rightarrow> (out_doc \<Rightarrow> bool) \<Rightarrow> bool" where
  "ensures P m Q = (\<forall>s r s'. P (doc s) \<longrightarrow> m s = (Inr r, s') \<longrightarrow> Q (doc s'))"

text \<open>A state in which an earlier stage has set the canonical title, and answers that offer another.\<close>

definition other_hit :: discogs_hit where
  "other_hit =
     \<lparr> hit_id = Some 42, hit_master_id = None, hit_country = None, hit_label = None,
       hit_genre = None, hit_style = None, hit_title = Some ''Somebody - Something Else'',
       hit_year = None, hit_thumb = None \<rparr>"

definition other_release :: mb_release where
  "other_release = no_release\<lparr>rel_id := Some ''r1'', rel_title := Some ''Something Else''\<rparr>"

definition json_response :: "payload \<Rightarrow> fetch_result" where
  "json_response p = Response \<lparr> r_status = 200, r_body = Json (Some p), r_text = [] \<rparr>"

definition titled_sys :: "fetch_result list \<Rightarrow> sys" where
  "titled_sys script =
     \<lparr> doc = upd_canonical (\<lambda>c. c\<lparr>title := Some ''Kind of Blue''\<rparr>) (initOut default_flags),
       net = \<lparr> pending = script, trace = [] \<rparr> \<rparr>"

text \<open>The members of the seed that some stage reads.\<close>

definition used_fields :: "seed \<Rightarrow> string option \<times> string option \<times> string option \<times> string option \<times> string option" where
  "used_fields seed =
     (seed_upc seed, seed_mbid seed, seed_mb_release_mbid seed, seed_title seed, seed_artist seed)"

text \<open>\<open>tag_same d d'\<close>: from \<open>d\<close> to \<open>d'\<close> the provenance tag was not written.\<close>

definition tag_same :: "out_doc \<Rightarrow> out_doc \<Rightarrow> bool" where
  "tag_same d d' = (matched_on (diagnostics d') = matched_on (diagnostics d))"

text \<open>A release as MusicBrainz describes it, for the examples.\<close>

definition kind_of_blue :: mb_release where
  "kind_of_blue =
     no_release\<lparr>rel_id := Some ''r1'', rel_title := Some ''Kind of Blue'',
       rel_artist_credit := Some [\<lparr> ac_name = Some ''Miles Davis'', ac_artist_id = None \<rparr>]\<rparr>"

section \<open>The barcode searches of a run\<close>

text \<open>
  \<open>tried_same d d'\<close>: from \<open>d\<close> to \<open>d'\<close> the list of barcode variants was not written.
  \<open>appends m\<close>: the computation \<open>m\<close> only adds events at the end of the trace.
\<close>

definition tried_same :: "out_doc \<Rightarrow> out_doc \<Rightarrow> bool" where
  "tried_same d d' = (tried_barcodes (diagnostics d') = tried_barcodes (diagnostics d))"

definition appends :: "'a prog \<Rightarrow> bool" where
  "appends m = (\<forall>s. \<exists>evs. trace (net (snd (m s))) = trace (net s) @ evs)"

text \<open>The address at which MusicBrainz is searched for the barcode \<open>bc\<close>, a string of digits.\<close>

definition barcode_search_url :: "string \<Rightarrow> string" where
  "barcode_search_url bc = ''https://musicbrainz.org/ws/2/release/?query=barcode%3A'' @ bc @ ''&fmt=json''"

text \<open>
  The first two stages of \<open>pipeline\<close>, run on the seed \<open>seed0\<close>, the document \<open>d0\<close> and the
  world \<open>w\<close>. When they return, the result is the normalised seed, and the state is the one
  in which \<open>resolveMusicBrainz\<close> starts.
\<close>

definition before_musicbrainz :: "seed \<Rightarrow> out_doc \<Rightarrow> world \<Rightarrow> (js_error + seed) \<times> sys" where
  "before_musicbrainz seed0 d0 w =
     bnd (\<lambda>s. case normalizeSeed seed0 (doc s) of (seed1, out1) \<Rightarrow> (Inr seed1, s\<lparr>doc := out1\<rparr>)) (\<lambda>seed.
     bnd (if truthy (seed_upc seed) then resolveDiscogsByUPC seed else ret ()) (\<lambda>_.
     ret seed)) \<lparr> doc = d0, net = w \<rparr>"

text \<open>
  \<open>searched bc s s1\<close>: from the state \<open>s\<close> to the state \<open>s1\<close> the trace grew by the request
  of the search for \<open>bc\<close>, sent once, or twice with a wait of 2000 ms in between.
  \<open>next_request seed s s1 url\<close>: in the trace \<open>resolveMusicBrainz seed\<close> leaves when started
  in \<open>s\<close>, the trace of \<open>s1\<close> is followed by the request of \<open>url\<close>; with \<open>s\<close> for \<open>s1\<close>,
  the stage begins with that request.
  \<open>stage_in_run seed0 d0 w seed s\<close>: the trace \<open>resolveMusicBrainz seed\<close> leaves when started
  in \<open>s\<close> is the beginning of the trace of the whole run.
\<close>

definition searched :: "string \<Rightarrow> sys \<Rightarrow> sys \<Rightarrow> bool" where
  "searched bc s s1 =
     (trace (net s1) = trace (net s) @ [Get (barcode_search_url bc)]
      \<or> trace (net s1)
          = trace (net s) @ [Get (barcode_search_url bc), Sleep 2000, Get (barcode_search_url bc)])"

definition next_request :: "seed \<Rightarrow> sys \<Rightarrow> sys \<Rightarrow> string \<Rightarrow> bool" where
  "next_request seed s s1 url =
     (take (Suc (length (trace (net s1)))) (trace (net (snd (resolveMusicBrainz seed s))))
        = trace (net s1) @ [Get url])"

definition stage_in_run :: "seed \<Rightarrow> out_doc \<Rightarrow> world \<Rightarrow> seed \<Rightarrow> sys \<Rightarrow> bool" where
  "stage_in_run seed0 d0 w seed s =
     (take (length (trace (net (snd (resolveMusicBrainz seed s)))))
        (trace (net (snd (pipeline seed0 \<lparr> doc = d0, net = w \<rparr>))))
      = trace (net (snd (resolveMusicBrainz seed s))))"

text \<open>
  \<open>searches seed s s1 bcs\<close>: \<open>resolveMusicBrainz seed\<close>, started in \<open>s\<close>, has come to \<open>s1\<close>
  and goes on from there with the searches for the barcodes \<open>bcs\<close>, in this order and one
  after the other, and with no other barcode search. The next request is the search for the
  first of \<open>bcs\<close>. If that search throws, the stage throws; if it finds a release \<open>r\<close>, the
  stage records the match and goes on after its loop with \<open>r\<close>, so that the other barcodes are
  not searched for; if it finds none, the stage goes on with the searches for the rest of
  \<open>bcs\<close>. When no barcode is left, the stage goes on after its loop without a release.
\<close>

fun searches :: "seed \<Rightarrow> sys \<Rightarrow> sys \<Rightarrow> string list \<Rightarrow> bool" where
  "searches seed s s1 [] = (resolveMusicBrainz seed s = mb_use_candidate seed None s1)"
| "searches seed s s1 (bc # bcs) =
     (next_request seed s s1 (barcode_search_url bc)
      \<and> (case barcode_search bc s1 of
           (Inl e, s2) \<Rightarrow> searched bc s1 s2 \<and> resolveMusicBrainz seed s = (Inl e, s2)
         | (Inr search, s2) \<Rightarrow>
             searched bc s1 s2
             \<and> (case first_release search of
                  Some r \<Rightarrow>
                    resolveMusicBrainz seed s
                      = mb_use_candidate seed (Some r) (s2\<lparr>doc := set_matched_on ''upc'' (doc s2)\<rparr>)
                | None \<Rightarrow> searches seed s s2 bcs)))"

text \<open>
  Two runs on a barcode. In both Discogs answers with status 404. In the first the search
  for the first variant finds nothing and the search for the second finds a release; in the
  second the only search finds nothing.
\<close>

definition barcode_seed :: "string \<Rightarrow> seed" where
  "barcode_seed b = empty_seed\<lparr>seed_upc := Some b\<rparr>"

definition start_doc :: out_doc where
  "start_doc = stamp ''start'' (initOut default_flags)"

definition second_hit_world :: world where
  "second_hit_world =
     \<lparr> pending = [Response (status_only 404), json_response (PMbSearch (Some [])),
                  json_response (PMbSearch (Some [kind_of_blue])),
                  json_response (PMbRelease kind_of_blue), Response (status_only 500)],
       trace = [] \<rparr>"

definition no_hit_world :: world where
  "no_hit_world =
     \<lparr> pending = [Response (status_only 404), json_response (PMbSearch (Some []))], trace = [] \<rparr>"

section \<open>Barcode canonicalisation\<close>

lemma normalizeBarcode_Some:
  "normalizeBarcode (Some s) =
     (let digits = filter is_digit s in
        if digits = [] then None
        else if length digits = 12 \<or> length digits = 13 then Some digits
        else if strip_leading_zeros digits \<noteq> [] then Some (strip_leading_zeros digits)
        else Some digits)"
  by (cases s) (simp_all add: normalizeBarcode_def truthy_def Let_def)

lemma normalizeBarcode_None: "normalizeBarcode None = None"
  by (simp add: normalizeBarcode_def truthy_def)

lemma filter_digit_strip:
  "filter is_digit (strip_leading_zeros (filter is_digit s)) = strip_leading_zeros (filter is_digit s)"
  unfolding strip_leading_zeros_def
  by (rule filter_True) (auto dest: set_dropWhileD)

lemma strip_strip: "strip_leading_zeros (strip_leading_zeros s) = strip_leading_zeros s"
  by (simp add: strip_leading_zeros_def)

lemma normalizeBarcode_fixed:
  assumes "normalizeBarcode b = Some t"
  shows "normalizeBarcode (Some t) = Some t"
proof (cases b)
  case None
  with assms show ?thesis by (simp add: normalizeBarcode_None)
next
  case (Some s)
  let ?d = "filter is_digit s"
  from assms Some have ne: "?d \<noteq> []"
    by (auto simp: normalizeBarcode_Some Let_def split: if_splits)
  consider (keep) "length ?d = 12 \<or> length ?d = 13"
    | (strip) "\<not> (length ?d = 12 \<or> length ?d = 13)" "strip_leading_zeros ?d \<noteq> []"
    | (zeros) "\<not> (length ?d = 12 \<or> length ?d = 13)" "strip_leading_zeros ?d = []"
    by blast
  then show ?thesis
  proof cases
    case keep
    with assms Some ne have t: "t = ?d" by (auto simp: normalizeBarcode_Some Let_def)
    with keep ne show ?thesis by (auto simp: normalizeBarcode_Some Let_def)
  next
    case strip
    with assms Some ne have t: "t = strip_leading_zeros ?d"
      by (auto simp: normalizeBarcode_Some Let_def)
    with strip show ?thesis
      by (simp add: normalizeBarcode_Some Let_def filter_digit_strip strip_strip)
  next
    case zeros
    with assms Some ne have t: "t = ?d" by (auto simp: normalizeBarcode_Some Let_def)
    with zeros ne show ?thesis by (auto simp: normalizeBarcode_Some Let_def)
  qed
qed

text \<open>
  C9. Barcode canonicalisation is idempotent. A string of exactly 12 or exactly 13 digits is
  returned unchanged, and applying \<open>normalizeBarcode\<close> twice to any input equals applying it
  once. For any other non-empty digit result the leading zeros are stripped, falling back to
  the digit string itself when stripping leaves nothing; an input with no digits yields null.
\<close>

theorem normalizeBarcode_idempotent:
  "((\<forall>c \<in> set s. is_digit c) \<and> (length s = 12 \<or> length s = 13) \<longrightarrow>
      normalizeBarcode (Some s) = Some s)
   \<and> normalizeBarcode (normalizeBarcode b) = normalizeBarcode b
   \<and> (filter is_digit s \<noteq> [] \<and> length (filter is_digit s) \<noteq> 12 \<and> length (filter is_digit s) \<noteq> 13 \<longrightarrow>
      normalizeBarcode (Some s) =
        Some (if strip_leading_zeros (filter is_digit s) = [] then filter is_digit s
              else strip_leading_zeros (filter is_digit s)))
   \<and> (filter is_digit s = [] \<longrightarrow> normalizeBarcode (Some s) = None)"
proof (intro conjI impI)
  assume a: "(\<forall>c \<in> set s. is_digit c) \<and> (length s = 12 \<or> length s = 13)"
  then have "filter is_digit s = s" by (simp add: filter_True)
  with a show "normalizeBarcode (Some s) = Some s"
    by (auto simp: normalizeBarcode_Some Let_def)
next
  show "normalizeBarcode (normalizeBarcode b) = normalizeBarcode b"
  proof (cases "normalizeBarcode b")
    case None
    then show ?thesis by (simp add: normalizeBarcode_None)
  next
    case (Some t)
    then show ?thesis by (simp add: normalizeBarcode_fixed)
  qed
next
  assume "filter is_digit s \<noteq> [] \<and> length (filter is_digit s) \<noteq> 12 \<and> length (filter is_digit s) \<noteq> 13"
  then show "normalizeBarcode (Some s) =
        Some (if strip_leading_zeros (filter is_digit s) = [] then filter is_digit s
              else strip_leading_zeros (filter is_digit s))"
    by (simp add: normalizeBarcode_Some Let_def)
next
  assume "filter is_digit s = []"
  then show "normalizeBarcode (Some s) = None"
    by (simp add: normalizeBarcode_Some)
qed

theorem normalizeBarcode_idempotent_witness:
  "normalizeBarcode (Some ''888751119215'') = Some ''888751119215''
   \<and> normalizeBarcode (Some ''0888751119215'') = Some ''0888751119215''
   \<and> normalizeBarcode (normalizeBarcode (Some ''EAN 0012-34'')) = normalizeBarcode (Some ''EAN 0012-34'')
   \<and> normalizeBarcode (Some ''EAN 0012-34'') = Some ''1234''
   \<and> normalizeBarcode (Some ''00-00'') = Some ''0000''
   \<and> normalizeBarcode (Some ''n/a'') = None"
proof -
  have a: "normalizeBarcode (Some ''888751119215'') = Some ''888751119215''"
    using normalizeBarcode_idempotent[of "''888751119215''"] by (simp add: is_digit_def)
  have b: "normalizeBarcode (Some ''0888751119215'') = Some ''0888751119215''"
    using normalizeBarcode_idempotent[of "''0888751119215''"] by (simp add: is_digit_def)
  have c: "normalizeBarcode (normalizeBarcode (Some ''EAN 0012-34'')) = normalizeBarcode (Some ''EAN 0012-34'')"
    using normalizeBarcode_idempotent[where b = "Some ''EAN 0012-34''"] by blast
  have d: "normalizeBarcode (Some ''EAN 0012-34'') = Some ''1234''"
    using normalizeBarcode_idempotent[of "''EAN 0012-34''"]
    by (simp add: is_digit_def strip_leading_zeros_def)
  have e: "normalizeBarcode (Some ''00-00'') = Some ''0000''"
    using normalizeBarcode_idempotent[of "''00-00''"]
    by (simp add: is_digit_def strip_leading_zeros_def)
  have f: "normalizeBarcode (Some ''n/a'') = None"
    using normalizeBarcode_idempotent[of "''n/a''"] by (simp add: is_digit_def)
  from a b c d e f show ?thesis by blast
qed

section \<open>The download list\<close>

lemma foldl_set_add_distinct: "distinct acc \<Longrightarrow> distinct (foldl set_add acc xs)"
  by (induction xs arbitrary: acc) (auto simp: set_add_def)

lemma foldl_set_add_set: "set (foldl set_add acc xs) = set acc \<union> set xs"
  by (induction xs arbitrary: acc) (auto simp: set_add_def)

lemma foldl_set_add_prefix: "\<exists>r. foldl set_add acc xs = acc @ r"
proof (induction xs arbitrary: acc)
  case Nil
  then show ?case by simp
next
  case (Cons x xs)
  obtain r where r: "foldl set_add (set_add acc x) xs = set_add acc x @ r"
    using Cons.IH by blast
  obtain r0 where "set_add acc x = acc @ r0"
    by (cases "x \<in> set acc") (simp_all add: set_add_def)
  with r show ?case by simp
qed

lemma dedupe_distinct: "distinct (dedupe xs)"
  by (simp add: dedupe_def foldl_set_add_distinct)

lemma dedupe_set: "set (dedupe xs) = {x \<in> set xs. x \<noteq> []}"
  by (auto simp: dedupe_def foldl_set_add_set)

lemma dedupe_append: "\<exists>r. dedupe (xs @ ys) = dedupe xs @ r"
  by (simp add: dedupe_def foldl_set_add_prefix)

lemma push_urls_eq:
  "push_urls urls g = urls @ map (\<lambda>it. the (gi_url it)) (filter (\<lambda>it. truthy (gi_url it)) g)"
  unfolding push_urls_def
  by (induction g arbitrary: urls) auto

lemma item_urls_append: "item_urls (a @ b) = item_urls a @ item_urls b"
  by (simp add: item_urls_def)

lemma truthy_Some: "truthy v \<longleftrightarrow> (\<exists>u. v = Some u \<and> u \<noteq> [])"
  by (cases v) (simp_all add: truthy_def)

lemma set_item_urls: "set (item_urls g) = {u. u \<noteq> [] \<and> Some u \<in> gi_url ` set g}"
proof (intro set_eqI iffI)
  fix u
  assume "u \<in> set (item_urls g)"
  then obtain it where it: "it \<in> set g" "truthy (gi_url it)" "u = the (gi_url it)"
    by (auto simp: item_urls_def)
  from it(2) obtain w where w: "gi_url it = Some w" "w \<noteq> []"
    by (auto simp: truthy_Some)
  with it have "u \<noteq> []" "Some u = gi_url it" by simp_all
  with it(1) show "u \<in> {u. u \<noteq> [] \<and> Some u \<in> gi_url ` set g}" by blast
next
  fix u
  assume "u \<in> {u. u \<noteq> [] \<and> Some u \<in> gi_url ` set g}"
  then obtain it where it: "it \<in> set g" "gi_url it = Some u" "u \<noteq> []"
    by (auto simp: image_iff)
  then have "truthy (gi_url it)" "the (gi_url it) = u" by (simp_all add: truthy_Some)
  with it(1) show "u \<in> set (item_urls g)"
    unfolding item_urls_def set_map set_filter by blast
qed

lemma aggregate_urls:
  "image_urls (downloads (aggregateDownloadList out)) =
     dedupe (item_urls (article_gallery (wiki out) @ album_gallery (wiki out) @ artist_gallery (wiki out)))"
  by (simp add: aggregateDownloadList_def Let_def push_urls_eq item_urls_def)

text \<open>
  C6. Whatever the article, album and artist galleries hold, the aggregated download list has
  no duplicate and no empty URL, holds exactly the non-empty URLs of the gallery items, and
  lists them in first-seen order of the traversal article gallery, album gallery, artist
  gallery: a URL seen in an initial part of the traversal comes before every URL not seen in
  that part.
\<close>

theorem aggregateDownloadList_first_seen:
  "let items = article_gallery (wiki out) @ album_gallery (wiki out) @ artist_gallery (wiki out);
       res = image_urls (downloads (aggregateDownloadList out))
   in distinct res \<and> [] \<notin> set res
      \<and> set res = {u. u \<noteq> [] \<and> Some u \<in> gi_url ` set items}
      \<and> (\<forall>pre post u v.
            items = pre @ post \<and> u \<noteq> [] \<and> Some u \<in> gi_url ` set pre
              \<and> Some v \<notin> gi_url ` set pre \<and> v \<in> set res
            \<longrightarrow> (\<exists>a b c. res = a @ u # b @ v # c))"
proof -
  define items where "items = article_gallery (wiki out) @ album_gallery (wiki out) @ artist_gallery (wiki out)"
  define res where "res = image_urls (downloads (aggregateDownloadList out))"
  have res: "res = dedupe (item_urls items)"
    by (simp add: res_def items_def aggregate_urls)
  have d: "distinct res" by (simp add: res dedupe_distinct)
  have s: "set res = {u. u \<noteq> [] \<and> Some u \<in> gi_url ` set items}"
    by (auto simp: res dedupe_set set_item_urls)
  have ord: "\<exists>a b c. res = a @ u # b @ v # c"
    if h: "items = pre @ post" "u \<noteq> []" "Some u \<in> gi_url ` set pre"
          "Some v \<notin> gi_url ` set pre" "v \<in> set res" for pre post u v
  proof -
    obtain r where r: "res = dedupe (item_urls pre) @ r"
      using dedupe_append[of "item_urls pre" "item_urls post"] by (auto simp: res h(1) item_urls_append)
    have u: "u \<in> set (dedupe (item_urls pre))"
      using h(2,3) by (simp add: dedupe_set set_item_urls)
    have "v \<notin> set (dedupe (item_urls pre))"
      using h(4) by (simp add: dedupe_set set_item_urls)
    with h(5) r have v: "v \<in> set r" by auto
    from u obtain a b where ab: "dedupe (item_urls pre) = a @ u # b" by (meson split_list)
    from v obtain b' c where bc: "r = b' @ v # c" by (meson split_list)
    have "res = a @ u # (b @ b') @ v # c" by (simp add: r ab bc)
    then show ?thesis by blast
  qed
  show ?thesis
    unfolding Let_def items_def[symmetric] res_def[symmetric]
  proof (intro conjI allI impI)
    show "distinct res" by (rule d)
    show "[] \<notin> set res" by (simp add: s)
    show "set res = {u. u \<noteq> [] \<and> Some u \<in> gi_url ` set items}" by (rule s)
  next
    fix pre post u v
    assume "items = pre @ post \<and> u \<noteq> [] \<and> Some u \<in> gi_url ` set pre
              \<and> Some v \<notin> gi_url ` set pre \<and> v \<in> set res"
    then show "\<exists>a b c. res = a @ u # b @ v # c"
      using ord[of pre post u v] by blast
  qed
qed

theorem aggregateDownloadList_first_seen_witness:
  "distinct (image_urls (downloads (aggregateDownloadList example_galleries)))
   \<and> set (image_urls (downloads (aggregateDownloadList example_galleries))) = {''a'', ''b'', ''c'', ''d''}
   \<and> (\<exists>x y z. image_urls (downloads (aggregateDownloadList example_galleries)) = x @ ''b'' # y @ ''c'' # z)"
proof -
  let ?res = "image_urls (downloads (aggregateDownloadList example_galleries))"
  let ?pre = "[url_item (Some ''a''), url_item None, url_item (Some ''b''), url_item (Some ''a'')]"
  let ?post = "[url_item (Some ''c''), url_item (Some ''b''), url_item (Some []), url_item (Some ''d''),
                url_item (Some ''c'')]"
  have items: "article_gallery (wiki example_galleries) @ album_gallery (wiki example_galleries)
      @ artist_gallery (wiki example_galleries) = ?pre @ ?post"
    by (simp add: example_galleries_def)
  note th = aggregateDownloadList_first_seen[of example_galleries, unfolded Let_def items]
  from th have d: "distinct ?res" by blast
  from th have "set ?res = {u. u \<noteq> [] \<and> Some u \<in> gi_url ` set (?pre @ ?post)}" by blast
  then have s: "set ?res = {''a'', ''b'', ''c'', ''d''}"
    by (auto simp: url_item_def)
  from th have "?pre @ ?post = ?pre @ ?post \<and> ''b'' \<noteq> [] \<and> Some ''b'' \<in> gi_url ` set ?pre
      \<and> Some ''c'' \<notin> gi_url ` set ?pre \<and> ''c'' \<in> set ?res
      \<longrightarrow> (\<exists>x y z. ?res = x @ ''b'' # y @ ''c'' # z)"
    by blast
  then have "\<exists>x y z. ?res = x @ ''b'' # y @ ''c'' # z"
    by (simp add: s url_item_def)
  with d s show ?thesis by blast
qed

section \<open>The JSON fetch helper\<close>

lemma log_of_push_http:
  "log_of l (push_http l' e out) = (if l = l' then log_of l out @ [e] else log_of l out)"
  by (cases l; cases l') (simp_all add: log_of_def push_http_def Let_def)

text \<open>
  C4. When the first attempt of \<^verbatim>\<open>GETjson\<close> is answered with status 429, exactly one retry
  of the same request is issued, after one wait of 2000 ms. When the retry is answered with a
  status that is not a success, the call returns null and exactly two entries were appended to
  the log the caller supplied: the first attempt and the retry, in this order, each with the
  path and the status. On a status other than 429 that is not a success there is no retry,
  and the call returns null.
\<close>

theorem GETjson_retry_once:
  assumes "pending (net s) = Response r1 # rest"
  shows "(r_status r1 = 429 \<longrightarrow>
            trace (net (snd (GETjson base path l qs s)))
              = trace (net s) @ [Get (request_url base path qs), Sleep 2000, Get (request_url base path qs)]
          \<and> (\<forall>r2 rest'. rest = Response r2 # rest' \<and> \<not> ok r2 \<longrightarrow>
                fst (GETjson base path l qs s) = Inr None
              \<and> log_of l (doc (snd (GETjson base path l qs s)))
                  = log_of l (doc s)
                    @ [\<lparr> h_url = path @ (if qs \<noteq> [] then ''?'' @ qs else []), h_status = r_status r1 \<rparr>,
                       \<lparr> h_url = path @ '' (retry)'', h_status = r_status r2 \<rparr>]))
       \<and> (r_status r1 \<noteq> 429 \<and> \<not> ok r1 \<longrightarrow>
            fst (GETjson base path l qs s) = Inr None
          \<and> trace (net (snd (GETjson base path l qs s))) = trace (net s) @ [Get (request_url base path qs)]
          \<and> log_of l (doc (snd (GETjson base path l qs s)))
              = log_of l (doc s)
                @ [\<lparr> h_url = path @ (if qs \<noteq> [] then ''?'' @ qs else []), h_status = r_status r1 \<rparr>])"
proof (intro conjI impI allI)
  assume "r_status r1 = 429"
  with assms show "trace (net (snd (GETjson base path l qs s)))
              = trace (net s) @ [Get (request_url base path qs), Sleep 2000, Get (request_url base path qs)]"
    by (simp add: GETjson_def Let_def bnd_def fetch_def upd_def sleep_def ret_def json_of_def throw_def
          split: list.splits fetch_result.splits json_body.splits)
next
  fix r2 rest'
  assume a: "r_status r1 = 429" "rest = Response r2 # rest' \<and> \<not> ok r2"
  with assms show "fst (GETjson base path l qs s) = Inr None"
    by (simp add: GETjson_def Let_def bnd_def fetch_def upd_def sleep_def ret_def)
  from a assms show "log_of l (doc (snd (GETjson base path l qs s)))
                  = log_of l (doc s)
                    @ [\<lparr> h_url = path @ (if qs \<noteq> [] then ''?'' @ qs else []), h_status = r_status r1 \<rparr>,
                       \<lparr> h_url = path @ '' (retry)'', h_status = r_status r2 \<rparr>]"
    by (simp add: GETjson_def Let_def bnd_def fetch_def upd_def sleep_def ret_def log_of_push_http)
next
  assume a: "r_status r1 \<noteq> 429 \<and> \<not> ok r1"
  with assms show "fst (GETjson base path l qs s) = Inr None"
    by (simp add: GETjson_def Let_def bnd_def fetch_def upd_def sleep_def ret_def)
  from a assms show "trace (net (snd (GETjson base path l qs s))) = trace (net s) @ [Get (request_url base path qs)]"
    by (simp add: GETjson_def Let_def bnd_def fetch_def upd_def sleep_def ret_def)
  from a assms show "log_of l (doc (snd (GETjson base path l qs s)))
              = log_of l (doc s)
                @ [\<lparr> h_url = path @ (if qs \<noteq> [] then ''?'' @ qs else []), h_status = r_status r1 \<rparr>]"
    by (simp add: GETjson_def Let_def bnd_def fetch_def upd_def sleep_def ret_def log_of_push_http)
qed

theorem GETjson_retry_once_witness:
  "fst (GETjson ''https://api.discogs.com'' ''/database/search'' DiscogsHttp ''barcode=1''
          (start_sys [Response (status_only 429), Response (status_only 503)])) = Inr None
   \<and> log_of DiscogsHttp (doc (snd (GETjson ''https://api.discogs.com'' ''/database/search'' DiscogsHttp
          ''barcode=1'' (start_sys [Response (status_only 429), Response (status_only 503)]))))
       = [\<lparr> h_url = ''/database/search?barcode=1'', h_status = 429 \<rparr>,
          \<lparr> h_url = ''/database/search (retry)'', h_status = 503 \<rparr>]
   \<and> trace (net (snd (GETjson ''https://api.discogs.com'' ''/database/search'' DiscogsHttp
          ''barcode=1'' (start_sys [Response (status_only 429), Response (status_only 503)]))))
       = [Get ''https://api.discogs.com/database/search?barcode=1'', Sleep 2000,
          Get ''https://api.discogs.com/database/search?barcode=1'']
   \<and> fst (GETjson ''https://api.discogs.com'' ''/database/search'' DiscogsHttp ''barcode=1''
          (start_sys [Response (status_only 500)])) = Inr None
   \<and> trace (net (snd (GETjson ''https://api.discogs.com'' ''/database/search'' DiscogsHttp
          ''barcode=1'' (start_sys [Response (status_only 500)]))))
       = [Get ''https://api.discogs.com/database/search?barcode=1'']"
proof -
  have a: "pending (net (start_sys [Response (status_only 429), Response (status_only 503)]))
      = Response (status_only 429) # [Response (status_only 503)]"
    by (simp add: start_sys_def)
  have b: "pending (net (start_sys [Response (status_only 500)])) = Response (status_only 500) # []"
    by (simp add: start_sys_def)
  show ?thesis
    using GETjson_retry_once[OF a, of "''https://api.discogs.com''" "''/database/search''" DiscogsHttp "''barcode=1''"]
      GETjson_retry_once[OF b, of "''https://api.discogs.com''" "''/database/search''" DiscogsHttp "''barcode=1''"]
    by (simp add: status_only_def ok_def start_sys_def initOut_def log_of_def request_url_def starts_with_def)
qed

section \<open>The command string\<close>

text \<open>
  A token with a recognised key overwrites what earlier tokens stored under that key, so the
  last occurrence wins; shown here for the artist and the title.
\<close>

lemma apply_token_artist:
  "seed_artist (apply_token seed p) =
     (case match_key_value p of
        None \<Rightarrow> seed_artist seed
      | Some (k, v) \<Rightarrow> if map to_lower k = ''artist'' then Some (unquote v) else seed_artist seed)"
  by (simp add: apply_token_def Let_def split: option.splits)

lemma apply_token_title:
  "seed_title (apply_token seed p) =
     (case match_key_value p of
        None \<Rightarrow> seed_title seed
      | Some (k, v) \<Rightarrow> if map to_lower k = ''title'' then Some (unquote v) else seed_title seed)"
  by (simp add: apply_token_def Let_def split: option.splits)

lemma last_artist_token_wins:
  "match_key_value p = Some (k, v) \<Longrightarrow> map to_lower k = ''artist'' \<Longrightarrow>
     seed_artist (foldl apply_token seed (ts @ [p])) = Some (unquote v)"
  by (simp add: apply_token_artist)

lemma later_tokens_keep_artist:
  "\<forall>t \<in> set ts. (case match_key_value t of None \<Rightarrow> True | Some (k, v) \<Rightarrow> map to_lower k \<noteq> ''artist'') \<Longrightarrow>
     seed_artist (foldl apply_token seed ts) = seed_artist seed"
  by (induction ts arbitrary: seed) (auto simp: apply_token_artist split: option.splits)

text \<open>
  C7. The claim is that a quoted value with an embedded space, as in \<^verbatim>\<open>artist:"Miles Davis"\<close>,
  is parsed into the artist \<^verbatim>\<open>Miles Davis\<close>. The command is split at white space before
  any token is read, so the value stops at the space and keeps its opening quote.
\<close>

theorem parseSeed_quoted_value_is_cut:
  \<open>seed_artist (parseSeed [] (Some ''enrich -all artist:"Miles Davis"'')) = Some ''"Miles''
   \<and> seed_artist (parseSeed [] (Some ''enrich -all artist:"Miles Davis"'')) \<noteq> Some ''Miles Davis''\<close>
  by code_simp

section \<open>Stages relate the document before to the document after\<close>

lemma kept_refl: "kept d d"
  by (simp add: kept_def)

lemma kept_trans: "kept a b \<Longrightarrow> kept b c \<Longrightarrow> kept a c"
  by (auto simp: kept_def)

lemma kept_reflp: "reflp kept"
  by (simp add: reflp_def kept_refl)

lemma kept_transp: "transp kept"
  unfolding transp_def by (blast intro: kept_trans)

lemma stable_ret: "reflp R \<Longrightarrow> stable R (ret x)"
  by (simp add: stable_def ret_def reflp_def)

lemma stable_throw: "reflp R \<Longrightarrow> stable R (throw e)"
  by (simp add: stable_def throw_def reflp_def)

lemma stable_bnd:
  assumes "transp R" and "stable R m" and "\<And>x. stable R (f x)"
  shows "stable R (bnd m f)"
  unfolding stable_def
proof
  fix s
  obtain r s1 where ms: "m s = (r, s1)" by (cases "m s")
  from assms(2) ms have a: "R (doc s) (doc s1)" by (auto simp: stable_def dest: spec[of _ s])
  show "R (doc s) (doc (snd (bnd m f s)))"
  proof (cases r)
    case (Inl e)
    with ms a show ?thesis by (simp add: bnd_def)
  next
    case (Inr x)
    from assms(3)[of x] have "R (doc s1) (doc (snd (f x s1)))" by (simp add: stable_def)
    with a assms(1) have "R (doc s) (doc (snd (f x s1)))" by (blast dest: transpD)
    with ms Inr show ?thesis by (simp add: bnd_def)
  qed
qed

lemma stable_catch:
  assumes "transp R" and "stable R m" and "\<And>e. stable R (h e)"
  shows "stable R (catch m h)"
  unfolding stable_def
proof
  fix s
  obtain r s1 where ms: "m s = (r, s1)" by (cases "m s")
  from assms(2) ms have a: "R (doc s) (doc s1)" by (auto simp: stable_def dest: spec[of _ s])
  show "R (doc s) (doc (snd (catch m h s)))"
  proof (cases r)
    case (Inr x)
    with ms a show ?thesis by (simp add: catch_def)
  next
    case (Inl e)
    from assms(3)[of e] have "R (doc s1) (doc (snd (h e s1)))" by (simp add: stable_def)
    with a assms(1) have "R (doc s) (doc (snd (h e s1)))" by (blast dest: transpD)
    with ms Inl show ?thesis by (simp add: catch_def)
  qed
qed

lemma stable_upd: "(\<And>d. R d (f d)) \<Longrightarrow> stable R (upd f)"
  by (simp add: stable_def upd_def)

lemma stable_with_doc: "(\<And>d. stable R (f d)) \<Longrightarrow> stable R (with_doc f)"
  by (simp add: stable_def with_doc_def)

lemma stable_fetch: "reflp R \<Longrightarrow> stable R (fetch ev)"
  by (simp add: stable_def fetch_def Let_def reflp_def split: list.splits fetch_result.splits)

lemma stable_sleep: "reflp R \<Longrightarrow> stable R (sleep n)"
  by (simp add: stable_def sleep_def reflp_def)

lemma stable_json_of: "reflp R \<Longrightarrow> stable R (json_of r)"
  by (simp add: json_of_def stable_ret stable_throw split: json_body.splits)

lemma stable_if: "stable R a \<Longrightarrow> stable R b \<Longrightarrow> stable R (if c then a else b)"
  by simp

lemma stable_GETjson:
  assumes "reflp R" and "transp R" and "\<And>d e. R d (push_http l e d)"
  shows "stable R (GETjson base path l qs)"
  unfolding GETjson_def Let_def
  by (intro stable_bnd[OF assms(2)] stable_fetch[OF assms(1)] stable_upd assms(3) stable_if
        stable_sleep[OF assms(1)] stable_ret[OF assms(1)] stable_json_of[OF assms(1)])

lemma kept_steps: "(\<And>f d. f \<in> set fs \<Longrightarrow> kept d (f d)) \<Longrightarrow> kept d (steps fs d)"
proof (induction fs arbitrary: d)
  case Nil
  then show ?case by (simp add: steps_def kept_refl)
next
  case (Cons f fs)
  have a: "kept d (f d)" using Cons.prems by simp
  have "kept (f d) (steps fs (f d))" using Cons.IH Cons.prems by simp
  with a show ?case by (auto simp: steps_def intro: kept_trans)
qed

lemma kept_push_http: "kept d (push_http l e d)"
  by (cases l) (simp_all add: kept_def push_http_def Let_def)

lemma kept_push_note: "kept d (push_note n d)"
  by (simp add: kept_def push_note_def)

lemma kept_set_matched_on: "kept d (set_matched_on m d)"
  by (simp add: kept_def set_matched_on_def)

lemma kept_upd_ids: "kept d (upd_ids f d)"
  by (simp add: kept_def upd_ids_def)

lemma kept_upd_wikipedia: "kept d (upd_wikipedia f d)"
  by (simp add: kept_def upd_wikipedia_def)

lemma kept_upd_wiki: "kept d (upd_wiki f d)"
  by (simp add: kept_def upd_wiki_def)

lemmas stable_intros = stable_bnd[OF kept_transp] stable_catch[OF kept_transp] stable_with_doc
  stable_if stable_ret[OF kept_reflp] stable_throw[OF kept_reflp] stable_fetch[OF kept_reflp]
  stable_sleep[OF kept_reflp] stable_json_of[OF kept_reflp]
  stable_GETjson[OF kept_reflp kept_transp kept_push_http] stable_upd

lemma kept_upd_canonical_iff:
  "kept d (upd_canonical f d) \<longleftrightarrow>
     format (f (canonical d)) = format (canonical d)
     \<and> (truthy (title (canonical d)) \<longrightarrow> title (f (canonical d)) = title (canonical d))
     \<and> (distinct (genre (canonical d)) \<longrightarrow> distinct (genre (f (canonical d))))"
  by (simp add: kept_def upd_canonical_def)

lemma kept_discogs_title_step: "kept d (discogs_title_step hit d)"
  unfolding discogs_title_step_def Let_def
  by (auto intro!: kept_steps simp: kept_refl kept_upd_canonical_iff js_or_def)

lemma kept_discogs_apply_hit: "kept d (discogs_apply_hit seed hit d)"
  unfolding discogs_apply_hit_def
  by (rule kept_steps)
     (auto simp: kept_refl kept_upd_ids kept_upd_canonical_iff kept_discogs_title_step
           dedupe_distinct split: option.splits list.splits)

lemma stable_resolveDiscogsByUPC: "stable kept (resolveDiscogsByUPC seed)"
  unfolding resolveDiscogsByUPC_def
  by (auto intro!: stable_intros kept_push_note kept_discogs_apply_hit split: option.splits list.splits)

lemma kept_mb_apply_release: "kept d (mb_apply_release full d)"
  unfolding mb_apply_release_def
  by (rule kept_steps)
     (auto intro!: kept_steps simp: kept_refl kept_upd_ids kept_upd_canonical_iff
           dedupe_distinct split: option.splits list.splits)

lemma stable_hydrateMBRelease: "stable kept (hydrateMBRelease rid)"
  unfolding hydrateMBRelease_def Let_def
  by (intro stable_intros kept_push_http kept_push_note)

lemma stable_mb_search_barcodes: "stable kept (mb_search_barcodes bcs)"
  by (induction bcs)
     (auto intro!: stable_intros kept_set_matched_on simp: barcode_search_def split: option.splits)

lemma stable_mb_search_artist_title: "stable kept (mb_search_artist_title seed)"
  unfolding mb_search_artist_title_def Let_def
  by (auto intro!: stable_intros kept_set_matched_on split: option.splits)

lemma stable_relation_step: "stable kept (relation_step u)"
  unfolding relation_step_def
  by (auto intro!: stable_intros simp: kept_refl kept_upd_ids split: option.splits)

lemma stable_scan_relations: "stable kept (scan_relations rels)"
  by (induction rels) (auto intro!: stable_intros stable_relation_step)

lemma stable_warm_cache: "stable kept warm_cache"
  unfolding warm_cache_def
  by (auto intro!: stable_intros)

lemma stable_resolveMusicBrainz: "stable kept (resolveMusicBrainz seed)"
  unfolding resolveMusicBrainz_def mb_use_candidate_def
  by (auto intro!: stable_intros stable_mb_search_barcodes stable_hydrateMBRelease
        stable_mb_search_artist_title kept_mb_apply_release stable_scan_relations stable_warm_cache
        simp del: scan_relations.simps split: option.splits list.splits)


lemma stable_sparql_first: "stable kept (sparql_first body tag)"
  unfolding sparql_first_def
  by (auto intro!: stable_intros kept_push_http split: option.splits)

lemma stable_fetchWikidataEntity: "stable kept (fetchWikidataEntity q)"
  unfolding fetchWikidataEntity_def
  by (intro stable_intros)

lemma stable_resolve_album_qid: "stable kept resolve_album_qid"
  unfolding resolve_album_qid_def sparqlFirstQIDForMBRG_def sparqlFirstQIDByTitleArtist_def
  by (auto intro!: stable_intros stable_sparql_first kept_upd_ids)

lemma stable_resolve_artist_qid: "stable kept resolve_artist_qid"
  unfolding resolve_artist_qid_def sparqlFirstArtistQIDByMBArtist_def Let_def
  by (auto intro!: stable_intros stable_sparql_first stable_fetchWikidataEntity kept_upd_ids)

lemma stable_resolve_enwiki_title: "stable kept resolve_enwiki_title"
  unfolding resolve_enwiki_title_def Let_def
  by (auto intro!: stable_intros stable_fetchWikidataEntity kept_upd_ids)

lemma stable_resolveWikidataAndWikipedia: "stable kept (resolveWikidataAndWikipedia seed)"
  unfolding resolveWikidataAndWikipedia_def
  by (auto intro!: stable_intros stable_resolve_album_qid stable_resolve_artist_qid
        stable_resolve_enwiki_title)

lemma kept_push_media_item: "kept d (push_media_item d it)"
  by (simp add: push_media_item_def Let_def kept_refl kept_upd_wiki)

lemma kept_foldl_push_media_item: "kept d (foldl push_media_item d its)"
proof (induction its arbitrary: d)
  case Nil
  show ?case by (simp add: kept_refl)
next
  case (Cons it its)
  have "kept d (push_media_item d it)" by (rule kept_push_media_item)
  moreover have "kept (push_media_item d it) (foldl push_media_item (push_media_item d it) its)"
    by (rule Cons.IH)
  ultimately show ?case by (auto intro: kept_trans)
qed

lemma kept_extractors:
  "kept d (extractTracklistFromHTML html d)"
  "kept d (extractPersonnelFromHTML html d)"
  "kept d (extractAwardsFromHTML html d)"
  "kept d (extractLandmarksFromHTML html d)"
  "kept d (extractCertificationsFromHTML html d)"
  by (simp_all add: extractTracklistFromHTML_def extractPersonnelFromHTML_def
        extractAwardsFromHTML_def extractLandmarksFromHTML_def extractCertificationsFromHTML_def
        Let_def kept_def)

lemma stable_enrichFromWikipedia: "stable kept (enrichFromWikipedia seed)"
  unfolding enrichFromWikipedia_def Let_def
  by (auto intro!: stable_intros kept_steps kept_push_http kept_foldl_push_media_item
        simp: kept_upd_wikipedia kept_upd_canonical_iff kept_refl kept_extractors
        split: option.splits)

lemma stable_commonsImageInfo: "stable kept (commonsImageInfo f)"
  unfolding commonsImageInfo_def Let_def
  by (auto intro!: stable_intros kept_push_http split: option.splits)

lemma stable_push_artist_images: "stable kept (push_artist_images fs)"
  by (induction fs)
     (auto intro!: stable_intros stable_commonsImageInfo kept_upd_wiki split: option.splits)

lemma stable_buildImageGalleries: "stable kept (buildImageGalleries seed)"
  unfolding buildImageGalleries_def Let_def
  by (auto intro!: stable_intros stable_fetchWikidataEntity stable_push_artist_images)

lemma kept_aggregateDownloadList: "kept d (aggregateDownloadList d)"
  by (simp add: aggregateDownloadList_def Let_def kept_def)

lemma kept_stamp: "kept d (stamp n d)"
  by (simp add: stamp_def kept_def)

lemma kept_normalizeSeed: "kept d (snd (normalizeSeed seed d))"
  by (simp add: normalizeSeed_def Let_def kept_def push_tried_def)

lemma finalizeCanonical_title: "title (canonical (finalizeCanonical d)) = title (canonical d)"
  by (simp add: finalizeCanonical_def)

section \<open>The canonical title\<close>

lemma stable_kept_title:
  "stable kept m \<Longrightarrow> truthy (title (canonical (doc s))) \<Longrightarrow>
     title (canonical (doc (snd (m s)))) = title (canonical (doc s))"
  by (simp add: stable_def kept_def)

text \<open>
  C1. The canonical title is written once. On a document whose canonical title is set (not
  empty), none of the stages (Discogs, MusicBrainz, Wikidata, Wikipedia enrichment, image
  galleries, finalisation, aggregation of the download list) changes the title, whatever the
  seed and the answers of the providers are, and whether the stage returns or throws. The
  stages may therefore run in any order: each write of the title is guarded by the title
  being empty.
\<close>

theorem canonical_title_write_once:
  assumes "truthy (title (canonical (doc s)))"
  shows "title (canonical (doc (snd (resolveDiscogsByUPC seed s)))) = title (canonical (doc s))
       \<and> title (canonical (doc (snd (resolveMusicBrainz seed s)))) = title (canonical (doc s))
       \<and> title (canonical (doc (snd (resolveWikidataAndWikipedia seed s)))) = title (canonical (doc s))
       \<and> title (canonical (doc (snd (enrichFromWikipedia seed s)))) = title (canonical (doc s))
       \<and> title (canonical (doc (snd (buildImageGalleries seed s)))) = title (canonical (doc s))
       \<and> title (canonical (finalizeCanonical (doc s))) = title (canonical (doc s))
       \<and> title (canonical (aggregateDownloadList (doc s))) = title (canonical (doc s))"
  using assms
  by (simp add: stable_kept_title stable_resolveDiscogsByUPC stable_resolveMusicBrainz
        stable_resolveWikidataAndWikipedia stable_enrichFromWikipedia stable_buildImageGalleries
        finalizeCanonical_title aggregateDownloadList_def Let_def)

theorem canonical_title_write_once_witness:
  "title (canonical (doc (snd (resolveDiscogsByUPC (empty_seed\<lparr>seed_upc := Some ''888751119215''\<rparr>)
      (titled_sys [json_response (PDiscogs (Some [other_hit]))])))))
     = Some ''Kind of Blue''
   \<and> title (canonical (doc (snd (resolveMusicBrainz (empty_seed\<lparr>seed_mbid := Some ''r1''\<rparr>)
      (titled_sys [json_response (PMbRelease other_release), json_response (PMbRelease other_release)])))))
     = Some ''Kind of Blue''"
proof -
  have t: "truthy (title (canonical (doc (titled_sys script))))" for script
    by (simp add: titled_sys_def upd_canonical_def truthy_def)
  have v: "title (canonical (doc (titled_sys script))) = Some ''Kind of Blue''" for script
    by (simp add: titled_sys_def upd_canonical_def)
  show ?thesis
    using canonical_title_write_once[OF t, of "empty_seed\<lparr>seed_upc := Some ''888751119215''\<rparr>"
        "[json_response (PDiscogs (Some [other_hit]))]"]
      canonical_title_write_once[OF t, of "empty_seed\<lparr>seed_mbid := Some ''r1''\<rparr>"
        "[json_response (PMbRelease other_release), json_response (PMbRelease other_release)]"]
    by (simp add: v)
qed

section \<open>The canonical format\<close>

lemma ensures_bnd:
  assumes "ensures P m Q" and "\<And>x. ensures Q (f x) R"
  shows "ensures P (bnd m f) R"
  unfolding ensures_def
proof (intro allI impI)
  fix s r s'
  assume p: "P (doc s)" and b: "bnd m f s = (Inr r, s')"
  obtain r1 s1 where ms: "m s = (r1, s1)" by (cases "m s")
  with b obtain x where x: "r1 = Inr x" "f x s1 = (Inr r, s')"
    by (cases r1) (auto simp: bnd_def)
  from assms(1) p ms x(1) have "Q (doc s1)" by (auto simp: ensures_def)
  with assms(2)[of x] x(2) show "R (doc s')" by (auto simp: ensures_def)
qed

lemma ensures_stable:
  "stable kept m \<Longrightarrow>
     ensures (\<lambda>d. format (canonical d) = F) m (\<lambda>d. format (canonical d) = F)"
  unfolding ensures_def stable_def kept_def
  by (metis snd_conv)

lemma ensures_upd: "(\<And>d. P d \<Longrightarrow> Q (f d)) \<Longrightarrow> ensures P (upd f) Q"
  by (auto simp: ensures_def upd_def)

lemma stable_normalize:
  "stable kept (\<lambda>s. case normalizeSeed seed0 (doc s) of (seed1, out1) \<Rightarrow> (Inr seed1, s\<lparr>doc := out1\<rparr>))"
  unfolding stable_def
proof
  fix s
  have "kept (doc s) (snd (normalizeSeed seed0 (doc s)))" by (rule kept_normalizeSeed)
  then show "kept (doc s) (doc (snd (case normalizeSeed seed0 (doc s) of
      (seed1, out1) \<Rightarrow> (Inr seed1, s\<lparr>doc := out1\<rparr>))))"
    by (simp add: split_beta)
qed

lemma finalizeCanonical_format:
  "format (canonical d) = [] \<Longrightarrow> format (canonical (finalizeCanonical d)) = [''Album'']"
  by (simp add: finalizeCanonical_def dedupe_def set_add_def)

lemma ensures_pipeline:
  "ensures (\<lambda>d. format (canonical d) = []) (pipeline seed) (\<lambda>d. format (canonical d) = [''Album''])"
  unfolding pipeline_def
  apply (rule ensures_bnd[OF ensures_stable[OF stable_normalize]])
  apply (rule ensures_bnd[OF ensures_stable])
   apply (simp add: stable_resolveDiscogsByUPC stable_ret[OF kept_reflp])
  apply (rule ensures_bnd[OF ensures_stable[OF stable_resolveMusicBrainz]])
  apply (rule ensures_bnd[OF ensures_stable[OF stable_resolveWikidataAndWikipedia]])
  apply (rule ensures_bnd[OF ensures_stable[OF stable_enrichFromWikipedia]])
  apply (rule ensures_bnd[OF ensures_stable])
   apply (auto intro!: stable_intros stable_buildImageGalleries)[1]
  apply (rule ensures_bnd[OF ensures_upd[where Q = "\<lambda>d. format (canonical d) = [''Album'']"]])
   apply (simp add: finalizeCanonical_format)
  apply (rule ensures_bnd[OF ensures_upd[where Q = "\<lambda>d. format (canonical d) = [''Album'']"]])
   apply (simp add: aggregateDownloadList_def Let_def)
  apply (rule ensures_upd)
  apply (simp add: stamp_def)
  done

text \<open>
  C10. A run that reaches the end of the pipeline, with no fatal exception, answers with the
  canonical format \<^verbatim>\<open>["Album"]\<close>, whatever the flags, the seed and the answers of the
  providers are: no resolution stage writes the format, so finalisation finds it empty.
\<close>

theorem canonical_format_is_album:
  "fst (run fl seed w) = Inr u \<Longrightarrow> format (canonical (fst (snd (run fl seed w)))) = [''Album'']"
proof -
  assume a: "fst (run fl seed w) = Inr u"
  let ?s0 = "\<lparr> doc = stamp ''start'' (initOut fl), net = w \<rparr>"
  obtain r s where p: "pipeline seed ?s0 = (r, s)" by (cases "pipeline seed ?s0")
  with a have r: "r = Inr u" by (cases r) (simp_all add: run_def)
  have "format (canonical (doc ?s0)) = []" by (simp add: stamp_def initOut_def)
  with ensures_pipeline[of seed] p r have "format (canonical (doc s)) = [''Album'']"
    unfolding ensures_def by blast
  with p r show ?thesis by (simp add: run_def)
qed

theorem canonical_format_is_album_witness:
  "fst (run default_flags (empty_seed\<lparr>seed_mbid := Some ''r1''\<rparr>)
     \<lparr> pending = [json_response (PMbRelease kind_of_blue), json_response (PMbRelease kind_of_blue),
                  Response (status_only 500)], trace = [] \<rparr>) = Inr ()
   \<and> format (canonical (fst (snd (run default_flags (empty_seed\<lparr>seed_mbid := Some ''r1''\<rparr>)
     \<lparr> pending = [json_response (PMbRelease kind_of_blue), json_response (PMbRelease kind_of_blue),
                  Response (status_only 500)], trace = [] \<rparr>)))) = [''Album'']"
proof -
  have a: "fst (run default_flags (empty_seed\<lparr>seed_mbid := Some ''r1''\<rparr>)
     \<lparr> pending = [json_response (PMbRelease kind_of_blue), json_response (PMbRelease kind_of_blue),
                  Response (status_only 500)], trace = [] \<rparr>) = Inr ()"
    by code_simp
  from a canonical_format_is_album[OF a] show ?thesis by simp
qed

section \<open>The members of the seed the stages read\<close>

lemma used_fields_stages:
  assumes "used_fields a = used_fields b"
  shows "resolveDiscogsByUPC a = resolveDiscogsByUPC b"
    and "resolveMusicBrainz a = resolveMusicBrainz b"
    and "resolveWikidataAndWikipedia a = resolveWikidataAndWikipedia b"
    and "enrichFromWikipedia a = enrichFromWikipedia b"
    and "buildImageGalleries a = buildImageGalleries b"
proof -
  from assms have e: "seed_upc a = seed_upc b" "seed_mbid a = seed_mbid b"
    "seed_mb_release_mbid a = seed_mb_release_mbid b" "seed_title a = seed_title b"
    "seed_artist a = seed_artist b"
    by (simp_all add: used_fields_def)
  have "discogs_apply_hit a = discogs_apply_hit b"
    by (rule ext) (simp only: discogs_apply_hit_def e)
  then show "resolveDiscogsByUPC a = resolveDiscogsByUPC b"
    by (simp only: resolveDiscogsByUPC_def e)
  show "resolveMusicBrainz a = resolveMusicBrainz b"
    by (simp only: resolveMusicBrainz_def mb_use_candidate_def[abs_def] mb_search_artist_title_def e)
  show "resolveWikidataAndWikipedia a = resolveWikidataAndWikipedia b"
    by (simp only: resolveWikidataAndWikipedia_def)
  show "enrichFromWikipedia a = enrichFromWikipedia b"
    by (simp only: enrichFromWikipedia_def)
  show "buildImageGalleries a = buildImageGalleries b"
    by (simp only: buildImageGalleries_def)
qed

lemma used_fields_normalizeSeed:
  assumes "used_fields a = used_fields b"
  shows "snd (normalizeSeed a d) = snd (normalizeSeed b d)"
    and "used_fields (fst (normalizeSeed a d)) = used_fields (fst (normalizeSeed b d))"
  using assms by (simp_all add: normalizeSeed_def Let_def used_fields_def)

lemma bnd_eqI:
  "m s = (Inr x, s1) \<Longrightarrow> m' s = (Inr y, s1) \<Longrightarrow> f x = f' y \<Longrightarrow> bnd m f s = bnd m' f' s"
  by (simp add: bnd_def)

lemma used_fields_pipeline:
  assumes "used_fields a = used_fields b"
  shows "pipeline a = pipeline b"
proof
  fix s :: sys
  obtain a1 d1 where na: "normalizeSeed a (doc s) = (a1, d1)" by (cases "normalizeSeed a (doc s)")
  obtain b1 d2 where nb: "normalizeSeed b (doc s) = (b1, d2)" by (cases "normalizeSeed b (doc s)")
  from used_fields_normalizeSeed[OF assms, of "doc s"] na nb
  have d: "d1 = d2" and u: "used_fields a1 = used_fields b1" by simp_all
  from u have e: "seed_upc a1 = seed_upc b1" by (simp add: used_fields_def)
  show "pipeline a s = pipeline b s"
    unfolding pipeline_def
    apply (rule bnd_eqI[where x = a1 and y = b1 and ?s1.0 = "s\<lparr>doc := d1\<rparr>"])
      apply (simp add: na)
     apply (simp add: nb d)
    apply (simp add: used_fields_stages[OF u] e cong: if_cong)
    done
qed

lemma run_empty_seed:
  "run fl empty_seed w = (Inr (), stamp ''done'' (finalizeCanonical (stamp ''start'' (initOut fl))), w)"
  by (simp add: run_def pipeline_def bnd_def normalizeSeed_def normalizeBarcode_def truthy_def
    empty_seed_def ret_def resolveMusicBrainz_def mb_use_candidate_def mb_search_artist_title_def with_doc_def js_or_def
    stamp_def initOut_def resolveWikidataAndWikipedia_def resolve_album_qid_def resolve_artist_qid_def
    resolve_enwiki_title_def ref_truthy_def enrichFromWikipedia_def buildImageGalleries_def
    upd_def finalizeCanonical_def aggregateDownloadList_def dedupe_def set_add_def push_urls_def Let_def)

text \<open>
  C2. The claim is that a seed whose only populated member is a provider-specific ID (the
  Wikidata entity, the Discogs release or master, the MusicBrainz release group or artist) is
  resolved, so that the run differs from the run on the empty seed. No stage reads these
  members: a run does not depend on them, and the run on a seed that holds nothing but a
  Wikidata entity ID is the run on the empty seed, which sends no request and resolves no
  identifier.
\<close>

theorem provider_ids_in_seed_are_ignored:
  "run fl (seed\<lparr>seed_mb_release_group := g, seed_mb_artist_id := a, seed_discogs := dr,
              seed_discogs_master_id := dm, seed_qid := q\<rparr>) w = run fl seed w
   \<and> run fl (empty_seed\<lparr>seed_qid := Some ''Q283221''\<rparr>) w = run fl empty_seed w
   \<and> snd (snd (run fl (empty_seed\<lparr>seed_qid := Some ''Q283221''\<rparr>) w)) = w
   \<and> ids (fst (snd (run fl (empty_seed\<lparr>seed_qid := Some ''Q283221''\<rparr>) w))) = ids (initOut fl)"
proof -
  have p: "pipeline (x\<lparr>seed_mb_release_group := g, seed_mb_artist_id := a, seed_discogs := dr,
              seed_discogs_master_id := dm, seed_qid := q\<rparr>) = pipeline x" for x g a dr dm q
    by (rule used_fields_pipeline) (simp add: used_fields_def)
  have r: "run fl (x\<lparr>seed_mb_release_group := g, seed_mb_artist_id := a, seed_discogs := dr,
              seed_discogs_master_id := dm, seed_qid := q\<rparr>) w = run fl x w" for x g a dr dm q
    by (simp add: run_def p)
  have q: "run fl (empty_seed\<lparr>seed_qid := Some ''Q283221''\<rparr>) w = run fl empty_seed w"
    using r[where x = empty_seed and g = "seed_mb_release_group empty_seed"
        and a = "seed_mb_artist_id empty_seed" and dr = "seed_discogs empty_seed"
        and dm = "seed_discogs_master_id empty_seed" and q = "Some ''Q283221''"]
    by simp
  show ?thesis
    by (simp add: r q run_empty_seed stamp_def finalizeCanonical_def initOut_def)
qed

section \<open>The provenance tag\<close>

lemma tag_same_reflp: "reflp tag_same"
  by (simp add: reflp_def tag_same_def)

lemma tag_same_transp: "transp tag_same"
  by (simp add: transp_def tag_same_def)

lemma tag_same_steps: "(\<And>f d. f \<in> set fs \<Longrightarrow> tag_same d (f d)) \<Longrightarrow> tag_same d (steps fs d)"
proof (induction fs arbitrary: d)
  case Nil
  then show ?case by (simp add: steps_def tag_same_def)
next
  case (Cons f fs)
  have a: "tag_same d (f d)" using Cons.prems by simp
  have "tag_same (f d) (steps fs (f d))" using Cons.IH Cons.prems by simp
  with a show ?case by (simp add: steps_def tag_same_def)
qed

lemma tag_same_writes:
  "tag_same d (push_http l e d)"
  "tag_same d (push_note n d)"
  "tag_same d (upd_ids f d)"
  "tag_same d (upd_canonical g d)"
  "tag_same d d"
  by (cases l) (simp_all add: tag_same_def push_http_def push_note_def upd_ids_def upd_canonical_def Let_def)

lemmas tag_intros = stable_bnd[OF tag_same_transp] stable_catch[OF tag_same_transp] stable_with_doc
  stable_if stable_ret[OF tag_same_reflp] stable_throw[OF tag_same_reflp]
  stable_fetch[OF tag_same_reflp] stable_sleep[OF tag_same_reflp] stable_json_of[OF tag_same_reflp]
  stable_GETjson[OF tag_same_reflp tag_same_transp tag_same_writes(1)] stable_upd

lemma tag_hydrateMBRelease: "stable tag_same (hydrateMBRelease rid)"
  unfolding hydrateMBRelease_def Let_def
  by (intro tag_intros tag_same_writes)

lemma tag_mb_apply_release: "tag_same d (mb_apply_release full d)"
  unfolding mb_apply_release_def
  by (rule tag_same_steps)
     (auto intro!: tag_same_steps simp: tag_same_writes split: option.splits list.splits)

lemma tag_relation_step: "stable tag_same (relation_step u)"
  unfolding relation_step_def
  by (auto intro!: tag_intros simp: tag_same_writes split: option.splits)

lemma tag_scan_relations: "stable tag_same (scan_relations rels)"
  by (induction rels) (auto intro!: tag_intros tag_relation_step)

lemma tag_warm_cache: "stable tag_same warm_cache"
  unfolding warm_cache_def
  by (auto intro!: tag_intros)

lemma tag_after_candidate:
  "stable tag_same
     (bnd (hydrateMBRelease rid) (\<lambda>full.
        case full of
          None \<Rightarrow> ret ()
        | Some f \<Rightarrow>
            bnd (upd (mb_apply_release f)) (\<lambda>_.
            bnd (case rel_relations f of
                   Some (r # rs) \<Rightarrow> scan_relations (r # rs)
                 | _ \<Rightarrow> ret ()) (\<lambda>_.
            warm_cache))))"
  by (auto intro!: tag_intros tag_hydrateMBRelease tag_mb_apply_release tag_scan_relations
        tag_warm_cache simp del: scan_relations.simps split: option.splits list.splits)

lemma bnd_ret: "bnd (ret x) f = f x"
  by (rule ext) (simp add: bnd_def ret_def)

lemma bnd_Inr: "m s = (Inr x, s1) \<Longrightarrow> bnd m f s = f x s1"
  by (simp add: bnd_def)

lemma hydrateMBRelease_success:
  assumes "pending (net s) = Response r # rest" and "ok r" and "r_body r = Json p"
  shows "fst (hydrateMBRelease rid s) = Inr (map_option as_release p)"
  using assms
  by (simp add: hydrateMBRelease_def Let_def catch_def bnd_def fetch_def upd_def json_of_def ret_def)

text \<open>
  C3. The claim is that a resolution through an explicit release ID records that strategy in
  \<^verbatim>\<open>diagnostics.matched_on\<close>. When the seed has no barcode and the lookup of
  \<^verbatim>\<open>seed.mbid\<close> is answered with a release, the MusicBrainz stage leaves
  \<^verbatim>\<open>matched_on\<close> as it was, which on a run is null.
\<close>

theorem explicit_id_leaves_matched_on:
  assumes "\<not> truthy (seed_upc seed)" and "truthy (seed_mbid seed)"
    and "pending (net s) = Response r # rest" and "ok r" and "r_body r = Json (Some p)"
  shows "matched_on (diagnostics (doc (snd (resolveMusicBrainz seed s))))
           = matched_on (diagnostics (doc s))"
proof -
  obtain x s1 where h: "hydrateMBRelease (the (seed_mbid seed)) s = (x, s1)"
    by (cases "hydrateMBRelease (the (seed_mbid seed)) s")
  from hydrateMBRelease_success[OF assms(3,4,5), of "the (seed_mbid seed)"] h
  have x: "x = Inr (Some (as_release p))" by simp
  from tag_hydrateMBRelease[of "the (seed_mbid seed)"] h
  have a: "tag_same (doc s) (doc s1)" by (auto simp: stable_def dest: spec[of _ s])
  let ?tail = "bnd (hydrateMBRelease (js_str (rel_id (as_release p)))) (\<lambda>full.
        case full of
          None \<Rightarrow> ret ()
        | Some f \<Rightarrow>
            bnd (upd (mb_apply_release f)) (\<lambda>_.
            bnd (case rel_relations f of
                   Some (r # rs) \<Rightarrow> scan_relations (r # rs)
                 | _ \<Rightarrow> ret ()) (\<lambda>_.
            warm_cache)))"
  from h x have h': "hydrateMBRelease (the (seed_mbid seed)) s = (Inr (Some (as_release p)), s1)"
    by simp
  have "resolveMusicBrainz seed s = ?tail s1"
    using assms(1,2) by (simp add: resolveMusicBrainz_def mb_use_candidate_def bnd_ret
          bnd_Inr[where m = "hydrateMBRelease (the (seed_mbid seed))" and s = s, OF h'])
  moreover have "tag_same (doc s1) (doc (snd (?tail s1)))"
    using tag_after_candidate[of "js_str (rel_id (as_release p))"] by (simp add: stable_def)
  ultimately show ?thesis using a by (simp add: tag_same_def)
qed

theorem explicit_id_leaves_matched_on_witness:
  "matched_on (diagnostics (doc (snd (resolveMusicBrainz (empty_seed\<lparr>seed_mbid := Some ''r1''\<rparr>)
     (start_sys [json_response (PMbRelease kind_of_blue), json_response (PMbRelease kind_of_blue)])))))
   = None"
proof -
  let ?s = "start_sys [json_response (PMbRelease kind_of_blue), json_response (PMbRelease kind_of_blue)]"
  have a: "\<not> truthy (seed_upc (empty_seed\<lparr>seed_mbid := Some ''r1''\<rparr>))"
    by (simp add: empty_seed_def truthy_def)
  have b: "truthy (seed_mbid (empty_seed\<lparr>seed_mbid := Some ''r1''\<rparr>))"
    by (simp add: truthy_def)
  have c: "pending (net ?s) = Response \<lparr> r_status = 200, r_body = Json (Some (PMbRelease kind_of_blue)), r_text = [] \<rparr>
      # [json_response (PMbRelease kind_of_blue)]"
    by (simp add: start_sys_def json_response_def)
  have d: "ok \<lparr> r_status = 200, r_body = Json (Some (PMbRelease kind_of_blue)), r_text = [] \<rparr>"
    by (simp add: ok_def)
  have e: "r_body \<lparr> r_status = 200, r_body = Json (Some (PMbRelease kind_of_blue)), r_text = [] \<rparr>
      = Json (Some (PMbRelease kind_of_blue))"
    by simp
  have "matched_on (diagnostics (doc ?s)) = None"
    by (simp add: start_sys_def initOut_def)
  with explicit_id_leaves_matched_on[OF a b c d e] show ?thesis by simp
qed

text \<open>The same input, evaluated: the release is resolved, and the tag is null.\<close>

lemma explicit_id_resolves:
  "(case resolveMusicBrainz (empty_seed\<lparr>seed_mbid := Some ''r1''\<rparr>)
     (start_sys [json_response (PMbRelease kind_of_blue), json_response (PMbRelease kind_of_blue)]) of
     (r, s) \<Rightarrow> (r, mb_release_mbid (ids (doc s)), title (canonical (doc s)), artist (canonical (doc s)),
        mb_http (diagnostics (doc s)), matched_on (diagnostics (doc s))))
   = (Inr (), Some \<lparr> ref_id = Some ''r1'', ref_url = ''https://musicbrainz.org/release/r1'' \<rparr>,
      Some ''Kind of Blue'', Some ''Miles Davis'',
      [\<lparr> h_url = ''/release/r1'', h_status = 200 \<rparr>, \<lparr> h_url = ''/release/r1'', h_status = 200 \<rparr>], None)"
  by (simp add: resolveMusicBrainz_def mb_use_candidate_def empty_seed_def truthy_def bnd_def ret_def hydrateMBRelease_def
     Let_def catch_def fetch_def start_sys_def json_response_def upd_def ok_def json_of_def as_release_def
     kind_of_blue_def no_release_def mb_search_artist_title_def with_doc_def js_or_def initOut_def js_str_def
     mb_apply_release_def steps_def upd_ids_def upd_canonical_def mk_ref_def push_http_def warm_cache_def
     ref_truthy_def default_flags_def)

section \<open>Barcode variants\<close>

text \<open>The Discogs stage does not write the list of barcode variants.\<close>

lemma tried_same_reflp: "reflp tried_same"
  by (simp add: reflp_def tried_same_def)

lemma tried_same_transp: "transp tried_same"
  by (simp add: transp_def tried_same_def)

lemma tried_same_steps: "(\<And>f d. f \<in> set fs \<Longrightarrow> tried_same d (f d)) \<Longrightarrow> tried_same d (steps fs d)"
proof (induction fs arbitrary: d)
  case Nil
  then show ?case by (simp add: steps_def tried_same_def)
next
  case (Cons f fs)
  have a: "tried_same d (f d)" using Cons.prems by simp
  have "tried_same (f d) (steps fs (f d))" using Cons.IH Cons.prems by simp
  with a show ?case by (simp add: steps_def tried_same_def)
qed

lemma tried_same_writes:
  "tried_same d (push_http l e d)"
  "tried_same d (push_note n d)"
  "tried_same d (upd_ids f d)"
  "tried_same d (upd_canonical g d)"
  "tried_same d d"
  by (cases l) (simp_all add: tried_same_def push_http_def push_note_def upd_ids_def upd_canonical_def Let_def)

lemma tried_same_discogs_apply_hit: "tried_same d (discogs_apply_hit seed hit d)"
  unfolding discogs_apply_hit_def discogs_title_step_def Let_def
  by (rule tried_same_steps)
     (auto intro!: tried_same_steps simp: tried_same_writes split: option.splits list.splits)

lemma tried_resolveDiscogsByUPC: "stable tried_same (resolveDiscogsByUPC seed)"
  unfolding resolveDiscogsByUPC_def
  by (auto intro!: stable_bnd[OF tried_same_transp] stable_ret[OF tried_same_reflp]
        stable_GETjson[OF tried_same_reflp tried_same_transp tried_same_writes(1)] stable_upd
        tried_same_writes tried_same_discogs_apply_hit split: option.splits list.splits)

text \<open>Every computation of the run only adds to the trace.\<close>

lemma appends_ret: "appends (ret x)"
  by (simp add: appends_def ret_def)

lemma appends_throw: "appends (throw e)"
  by (simp add: appends_def throw_def)

lemma appends_upd: "appends (upd f)"
  by (simp add: appends_def upd_def)

lemma appends_sleep: "appends (sleep n)"
  by (simp add: appends_def sleep_def)

lemma appends_fetch: "appends (fetch ev)"
  by (simp add: appends_def fetch_def Let_def split: list.splits fetch_result.splits)

lemma appends_json_of: "appends (json_of r)"
  by (simp add: json_of_def appends_ret appends_throw split: json_body.splits)

lemma appends_if: "appends a \<Longrightarrow> appends b \<Longrightarrow> appends (if c then a else b)"
  by simp

lemma appends_with_doc: "(\<And>d. appends (f d)) \<Longrightarrow> appends (with_doc f)"
  by (simp add: appends_def with_doc_def)

lemma appends_bnd:
  assumes "appends m" and "\<And>x. appends (f x)"
  shows "appends (bnd m f)"
  unfolding appends_def
proof
  fix s :: sys
  obtain r s1 where ms: "m s = (r, s1)" by (cases "m s")
  from assms(1) ms obtain evs where a: "trace (net s1) = trace (net s) @ evs"
    by (auto simp: appends_def dest: spec[of _ s])
  show "\<exists>evs. trace (net (snd (bnd m f s))) = trace (net s) @ evs"
  proof (cases r)
    case (Inl e)
    with ms a show ?thesis by (simp add: bnd_def)
  next
    case (Inr x)
    from assms(2)[of x] obtain evs' where "trace (net (snd (f x s1))) = trace (net s1) @ evs'"
      by (auto simp: appends_def dest: spec[of _ s1])
    with ms Inr a show ?thesis by (simp add: bnd_def)
  qed
qed

lemma appends_catch:
  assumes "appends m" and "\<And>e. appends (h e)"
  shows "appends (catch m h)"
  unfolding appends_def
proof
  fix s :: sys
  obtain r s1 where ms: "m s = (r, s1)" by (cases "m s")
  from assms(1) ms obtain evs where a: "trace (net s1) = trace (net s) @ evs"
    by (auto simp: appends_def dest: spec[of _ s])
  show "\<exists>evs. trace (net (snd (catch m h s))) = trace (net s) @ evs"
  proof (cases r)
    case (Inr x)
    with ms a show ?thesis by (simp add: catch_def)
  next
    case (Inl e)
    from assms(2)[of e] obtain evs' where "trace (net (snd (h e s1))) = trace (net s1) @ evs'"
      by (auto simp: appends_def dest: spec[of _ s1])
    with ms Inl a show ?thesis by (simp add: catch_def)
  qed
qed

lemma appends_GETjson: "appends (GETjson base path l qs)"
  unfolding GETjson_def Let_def
  by (intro appends_bnd appends_fetch appends_upd appends_if appends_sleep appends_ret appends_json_of)

lemmas appends_intros = appends_bnd appends_catch appends_with_doc appends_if appends_ret
  appends_throw appends_fetch appends_sleep appends_json_of appends_GETjson appends_upd

lemma appends_hydrateMBRelease: "appends (hydrateMBRelease rid)"
  unfolding hydrateMBRelease_def Let_def
  by (intro appends_intros)

lemma appends_mb_search_artist_title: "appends (mb_search_artist_title seed)"
  unfolding mb_search_artist_title_def Let_def
  by (auto intro!: appends_intros split: option.splits)

lemma appends_relation_step: "appends (relation_step u)"
  unfolding relation_step_def
  by (auto intro!: appends_intros split: option.splits)

lemma appends_scan_relations: "appends (scan_relations rels)"
  by (induction rels) (auto intro!: appends_intros appends_relation_step)

lemma appends_warm_cache: "appends warm_cache"
  unfolding warm_cache_def
  by (auto intro!: appends_intros)

text \<open>The address of a barcode search, and what one search adds to the trace.\<close>

lemma form_encode_append: "form_encode (a @ b) = form_encode a @ form_encode b"
  by (simp add: form_encode_def)

lemma form_encode_digits: "\<forall>c\<in>set u. is_digit c \<Longrightarrow> form_encode u = u"
  by (induction u) (auto simp: form_encode_def is_digit_def is_alnum_def)

lemma form_encode_words:
  "form_encode ''query'' = ''query''" "form_encode ''fmt'' = ''fmt''" "form_encode ''json'' = ''json''"
  "form_encode ''barcode:'' = ''barcode%3A''"
  by code_simp+

lemma barcode_query:
  assumes "\<forall>c\<in>set u. is_digit c"
  shows "urlsearchparams [(''query'', ''barcode:'' @ u), (''fmt'', ''json'')]
         = ''query=barcode%3A'' @ u @ ''&fmt=json''"
proof -
  have "form_encode (''barcode:'' @ u) = ''barcode%3A'' @ u"
    by (simp only: form_encode_append form_encode_words form_encode_digits[OF assms])
  then have "urlsearchparams [(''query'', ''barcode:'' @ u), (''fmt'', ''json'')]
      = ''query'' @ ''='' @ (''barcode%3A'' @ u) @ ''&'' @ ''fmt'' @ ''='' @ ''json''"
    by (simp only: urlsearchparams.simps form_encode_words)
  then show ?thesis by simp
qed

lemma barcode_search_address:
  assumes "\<forall>c\<in>set u. is_digit c"
  shows "request_url ''https://musicbrainz.org/ws/2'' ''/release/''
           (urlsearchparams [(''query'', ''barcode:'' @ u), (''fmt'', ''json'')])
         = barcode_search_url u"
proof -
  have "\<not> js_includes ''/release/'' ''?''" by code_simp
  then show ?thesis
    unfolding barcode_query[OF assms] by (simp add: request_url_def barcode_search_url_def)
qed

lemma normalizeBarcode_digits:
  assumes "normalizeBarcode b = Some u"
  shows "\<forall>c\<in>set u. is_digit c"
proof (cases b)
  case None
  with assms show ?thesis by (simp add: normalizeBarcode_None)
next
  case (Some t)
  with assms have "u = filter is_digit t \<or> u = strip_leading_zeros (filter is_digit t)"
    by (auto simp: normalizeBarcode_Some Let_def split: if_splits)
  then show ?thesis
    by (auto simp: strip_leading_zeros_def dest: set_dropWhileD)
qed

lemma GETjson_trace:
  "trace (net (snd (GETjson base path l qs s))) = trace (net s) @ [Get (request_url base path qs)]
   \<or> trace (net (snd (GETjson base path l qs s)))
       = trace (net s) @ [Get (request_url base path qs), Sleep 2000, Get (request_url base path qs)]"
  by (simp add: GETjson_def Let_def bnd_def fetch_def upd_def sleep_def ret_def json_of_def throw_def
      split: list.splits fetch_result.splits json_body.splits)

lemma barcode_search_trace:
  assumes "\<forall>c\<in>set u. is_digit c"
  shows "searched u s (snd (barcode_search u s))"
  unfolding searched_def barcode_search_def barcode_search_address[OF assms, symmetric]
  by (rule GETjson_trace)

lemma normalizeBarcode_nonempty: "normalizeBarcode b = Some u \<Longrightarrow> u \<noteq> []"
  by (cases b) (auto simp: normalizeBarcode_None normalizeBarcode_Some Let_def split: if_splits)

lemma appends_mb_use_candidate: "appends (mb_use_candidate seed r1)"
  unfolding mb_use_candidate_def
  by (auto intro!: appends_intros appends_hydrateMBRelease appends_mb_search_artist_title
        appends_scan_relations appends_warm_cache
        simp del: scan_relations.simps split: option.splits list.splits)

lemma appends_barcode_search: "appends (barcode_search bc)"
  by (simp add: barcode_search_def appends_GETjson)

lemma appends_mb_search_barcodes: "appends (mb_search_barcodes bcs)"
  by (induction bcs) (auto intro!: appends_intros appends_barcode_search split: option.splits)

lemma first_event_bnd:
  assumes "\<exists>evs. trace (net (snd (m s))) = trace (net s) @ e # evs" and "\<And>x. appends (f x)"
  shows "\<exists>evs. trace (net (snd (bnd m f s))) = trace (net s) @ e # evs"
proof -
  obtain r s1 where ms: "m s = (r, s1)" by (cases "m s")
  with assms(1) obtain evs where a: "trace (net s1) = trace (net s) @ e # evs" by auto
  show ?thesis
  proof (cases r)
    case (Inl x)
    with ms a show ?thesis by (simp add: bnd_def)
  next
    case (Inr x)
    from assms(2)[of x] obtain evs' where "trace (net (snd (f x s1))) = trace (net s1) @ evs'"
      by (auto simp: appends_def dest: spec[of _ s1])
    with ms Inr a show ?thesis by (simp add: bnd_def)
  qed
qed

lemma searched_first:
  "searched bc s s1 \<Longrightarrow> \<exists>evs. trace (net s1) = trace (net s) @ Get (barcode_search_url bc) # evs"
  by (auto simp: searched_def)

lemma next_requestI:
  "\<exists>evs. trace (net (snd (resolveMusicBrainz seed s))) = trace (net s1) @ Get url # evs
     \<Longrightarrow> next_request seed s s1 url"
  by (auto simp: next_request_def)

lemma resolveMusicBrainz_loop:
  assumes "truthy (seed_upc seed)"
  shows "resolveMusicBrainz seed s = bnd (mb_search_barcodes (mb_barcodes (doc s))) (mb_use_candidate seed) s"
  using assms by (simp add: resolveMusicBrainz_def bnd_def with_doc_def)

lemma loop_first_request:
  assumes "\<forall>c\<in>set bc. is_digit c" and "\<And>x. appends (K x)"
  shows "\<exists>evs. trace (net (snd (bnd (mb_search_barcodes (bc # bcs)) K s)))
            = trace (net s) @ Get (barcode_search_url bc) # evs"
  unfolding mb_search_barcodes.simps
  by (intro first_event_bnd searched_first[OF barcode_search_trace[OF assms(1)]] assms(2))
     (auto intro!: appends_intros appends_mb_search_barcodes split: option.splits)

lemma loop_step:
  assumes "barcode_search bc s = (x, s1)"
  shows "bnd (mb_search_barcodes (bc # bcs)) K s =
     (case x of
        Inl e \<Rightarrow> (Inl e, s1)
      | Inr search \<Rightarrow>
          (case first_release search of
             Some r \<Rightarrow> K (Some r) (s1\<lparr>doc := set_matched_on ''upc'' (doc s1)\<rparr>)
           | None \<Rightarrow> bnd (mb_search_barcodes bcs) K s1))"
  using assms by (simp add: bnd_def upd_def ret_def split: sum.splits option.splits)

lemma appends_sparql_first: "appends (sparql_first body tag)"
  unfolding sparql_first_def
  by (auto intro!: appends_intros split: option.splits)

lemma appends_fetchWikidataEntity: "appends (fetchWikidataEntity q)"
  unfolding fetchWikidataEntity_def
  by (intro appends_intros)

lemma appends_resolve_album_qid: "appends resolve_album_qid"
  unfolding resolve_album_qid_def sparqlFirstQIDForMBRG_def sparqlFirstQIDByTitleArtist_def
  by (auto intro!: appends_intros appends_sparql_first)

lemma appends_resolve_artist_qid: "appends resolve_artist_qid"
  unfolding resolve_artist_qid_def sparqlFirstArtistQIDByMBArtist_def Let_def
  by (auto intro!: appends_intros appends_sparql_first appends_fetchWikidataEntity)

lemma appends_resolve_enwiki_title: "appends resolve_enwiki_title"
  unfolding resolve_enwiki_title_def Let_def
  by (auto intro!: appends_intros appends_fetchWikidataEntity)

lemma appends_resolveWikidataAndWikipedia: "appends (resolveWikidataAndWikipedia seed)"
  unfolding resolveWikidataAndWikipedia_def
  by (auto intro!: appends_intros appends_resolve_album_qid appends_resolve_artist_qid
        appends_resolve_enwiki_title)

lemma appends_enrichFromWikipedia: "appends (enrichFromWikipedia seed)"
  unfolding enrichFromWikipedia_def Let_def
  by (auto intro!: appends_intros split: option.splits)

lemma appends_commonsImageInfo: "appends (commonsImageInfo f)"
  unfolding commonsImageInfo_def Let_def
  by (auto intro!: appends_intros split: option.splits)

lemma appends_push_artist_images: "appends (push_artist_images fs)"
  by (induction fs)
     (auto intro!: appends_intros appends_commonsImageInfo split: option.splits)

lemma appends_buildImageGalleries: "appends (buildImageGalleries seed)"
  unfolding buildImageGalleries_def Let_def
  by (auto intro!: appends_intros appends_fetchWikidataEntity appends_push_artist_images)

lemma trace_bnd_prefix:
  assumes "\<And>x. appends (f x)"
  shows "\<exists>evs. trace (net (snd (bnd m f s))) = trace (net (snd (m s))) @ evs"
proof -
  obtain r s1 where ms: "m s = (r, s1)" by (cases "m s")
  show ?thesis
  proof (cases r)
    case (Inl e)
    with ms show ?thesis by (simp add: bnd_def)
  next
    case (Inr x)
    from assms[of x] obtain evs where "trace (net (snd (f x s1))) = trace (net s1) @ evs"
      by (auto simp: appends_def dest: spec[of _ s1])
    with ms Inr show ?thesis by (simp add: bnd_def)
  qed
qed

text \<open>The state in which the MusicBrainz stage starts.\<close>

lemma normalizeSeed_result:
  assumes "normalizeBarcode (seed_upc seed0) = Some u" and "tried_barcodes (diagnostics d0) = []"
  shows "fst (normalizeSeed seed0 d0) = seed0\<lparr>seed_upc := Some u\<rparr>"
    and "tried_barcodes (diagnostics (snd (normalizeSeed seed0 d0)))
           = (if length u = 12 then [u, CHR ''0'' # u] else [u])"
  using assms normalizeBarcode_nonempty[OF assms(1)]
  by (simp_all add: normalizeSeed_def Let_def truthy_def push_tried_def padStart0_def)

lemma before_musicbrainz_steps:
  assumes "before_musicbrainz seed0 d0 w = (Inr seed, s)"
  shows "seed = fst (normalizeSeed seed0 d0)"
    and "(if truthy (seed_upc seed) then resolveDiscogsByUPC seed else ret ())
           \<lparr> doc = snd (normalizeSeed seed0 d0), net = w \<rparr> = (Inr (), s)"
  using assms
  by (auto simp: before_musicbrainz_def bnd_def ret_def split: prod.splits sum.splits)

lemma before_musicbrainz_result:
  assumes "normalizeBarcode (seed_upc seed0) = Some u" and "tried_barcodes (diagnostics d0) = []"
    and "before_musicbrainz seed0 d0 w = (Inr seed, s)"
  shows "truthy (seed_upc seed)"
    and "tried_barcodes (diagnostics (doc s)) = (if length u = 12 then [u, CHR ''0'' # u] else [u])"
proof -
  let ?out1 = "snd (normalizeSeed seed0 d0)"
  from before_musicbrainz_steps(1)[OF assms(3)] normalizeSeed_result(1)[OF assms(1,2)]
  have sd: "seed = seed0\<lparr>seed_upc := Some u\<rparr>" by simp
  from normalizeBarcode_nonempty[OF assms(1)] sd show tr: "truthy (seed_upc seed)"
    by (simp add: truthy_def)
  from before_musicbrainz_steps(2)[OF assms(3)] tr
  have s: "s = snd (resolveDiscogsByUPC seed \<lparr> doc = ?out1, net = w \<rparr>)" by simp
  from tried_resolveDiscogsByUPC[of seed] s
  have "tried_barcodes (diagnostics (doc s)) = tried_barcodes (diagnostics ?out1)"
    by (auto simp: stable_def tried_same_def dest: spec[of _ "\<lparr> doc = ?out1, net = w \<rparr>"])
  with normalizeSeed_result(2)[OF assms(1,2)]
  show "tried_barcodes (diagnostics (doc s)) = (if length u = 12 then [u, CHR ''0'' # u] else [u])"
    by simp
qed

lemma pipeline_stage_in_run:
  assumes "before_musicbrainz seed0 d0 w = (Inr seed, s)"
  shows "stage_in_run seed0 d0 w seed s"
proof -
  let ?rest = "\<lambda>_::unit.
     bnd (resolveWikidataAndWikipedia seed) (\<lambda>_.
     bnd (enrichFromWikipedia seed) (\<lambda>_.
     bnd (with_doc (\<lambda>out. if flag_images (out_flags out) \<noteq> ''none''
                           then buildImageGalleries seed else ret ())) (\<lambda>_.
     bnd (upd finalizeCanonical) (\<lambda>_.
     bnd (upd aggregateDownloadList) (\<lambda>_.
     upd (stamp ''done''))))))"
  have n: "(\<lambda>s. case normalizeSeed seed0 (doc s) of (seed1, out1) \<Rightarrow> (Inr seed1, s\<lparr>doc := out1\<rparr>))
        \<lparr> doc = d0, net = w \<rparr>
      = (Inr seed, \<lparr> doc = snd (normalizeSeed seed0 d0), net = w \<rparr>)"
    using before_musicbrainz_steps(1)[OF assms] by (simp add: case_prod_unfold)
  have "pipeline seed0 \<lparr> doc = d0, net = w \<rparr>
      = bnd (if truthy (seed_upc seed) then resolveDiscogsByUPC seed else ret ())
          (\<lambda>_. bnd (resolveMusicBrainz seed) ?rest)
          \<lparr> doc = snd (normalizeSeed seed0 d0), net = w \<rparr>"
    unfolding pipeline_def
    by (rule bnd_Inr[where m = "\<lambda>s. case normalizeSeed seed0 (doc s) of
                                    (seed1, out1) \<Rightarrow> (Inr seed1, s\<lparr>doc := out1\<rparr>)"
          and s = "\<lparr> doc = d0, net = w \<rparr>", OF n])
  also have "\<dots> = bnd (resolveMusicBrainz seed) ?rest s"
    by (rule bnd_Inr[where m = "if truthy (seed_upc seed) then resolveDiscogsByUPC seed else ret ()"
          and s = "\<lparr> doc = snd (normalizeSeed seed0 d0), net = w \<rparr>",
          OF before_musicbrainz_steps(2)[OF assms]])
  finally have p: "pipeline seed0 \<lparr> doc = d0, net = w \<rparr> = bnd (resolveMusicBrainz seed) ?rest s" .
  have "\<And>x. appends (?rest x)"
    by (auto intro!: appends_intros appends_resolveWikidataAndWikipedia appends_enrichFromWikipedia
          appends_buildImageGalleries)
  from trace_bnd_prefix[of ?rest "resolveMusicBrainz seed" s, OF this] p
  show ?thesis by (auto simp: stage_in_run_def)
qed

lemma mb_barcodes_two:
  "tried_barcodes (diagnostics d) = [u, CHR ''0'' # u] \<Longrightarrow> u \<noteq> [] \<Longrightarrow> mb_barcodes d = [u, CHR ''0'' # u]"
  by (simp add: mb_barcodes_def dedupe_def set_add_def)

lemma mb_barcodes_one:
  "tried_barcodes (diagnostics d) = [u] \<Longrightarrow> u \<noteq> [] \<Longrightarrow> mb_barcodes d = [u]"
  by (simp add: mb_barcodes_def dedupe_def set_add_def)

lemma searches_loop:
  assumes "\<forall>bc\<in>set bcs. \<forall>c\<in>set bc. is_digit c"
    and "resolveMusicBrainz seed s = bnd (mb_search_barcodes bcs) (mb_use_candidate seed) s1"
  shows "searches seed s s1 bcs"
  using assms
proof (induction bcs arbitrary: s1)
  case Nil
  then show ?case by (simp add: bnd_ret)
next
  case (Cons bc bcs)
  from Cons.prems(1) have dg: "\<forall>c\<in>set bc. is_digit c" by simp
  have "\<exists>evs. trace (net (snd (resolveMusicBrainz seed s)))
      = trace (net s1) @ Get (barcode_search_url bc) # evs"
    unfolding Cons.prems(2) by (rule loop_first_request[OF dg appends_mb_use_candidate])
  then have nx: "next_request seed s s1 (barcode_search_url bc)" by (rule next_requestI)
  obtain y s2 where b: "barcode_search bc s1 = (y, s2)" by (cases "barcode_search bc s1")
  from barcode_search_trace[OF dg, of s1] b have sd: "searched bc s1 s2" by simp
  note st = loop_step[OF b, of bcs "mb_use_candidate seed"]
  show ?case
  proof (cases y)
    case (Inl e)
    with nx b sd st Cons.prems(2) show ?thesis by (simp del: mb_search_barcodes.simps)
  next
    case (Inr search)
    show ?thesis
    proof (cases "first_release search")
      case (Some r)
      with Inr nx b sd st Cons.prems(2) show ?thesis by (simp del: mb_search_barcodes.simps)
    next
      case None
      with Inr st Cons.prems(2)
      have "resolveMusicBrainz seed s = bnd (mb_search_barcodes bcs) (mb_use_candidate seed) s2"
        by (simp del: mb_search_barcodes.simps)
      with Cons.IH[of s2] Cons.prems(1) have "searches seed s s2 bcs" by simp
      with Inr None nx b sd show ?thesis by simp
    qed
  qed
qed

text \<open>
  C5. Let \<open>u\<close> be the canonical form of the barcode. When \<open>u\<close> has exactly 12 digits, the
  variants recorded in \<^verbatim>\<open>diagnostics.tried_barcodes\<close> are exactly two, \<open>u\<close> and then \<open>u\<close>
  behind one more zero, 13 characters long, and they are the barcodes the loop of
  \<open>resolveMusicBrainz\<close> goes through. When the first two stages of the run return, with the
  seed \<open>seed\<close> and in the state \<open>s\<close>, the variants are still the recorded ones, and
  \<open>resolveMusicBrainz\<close> searches MusicBrainz for them in this order: its first request is the
  search for \<open>u\<close>; the search for the second variant follows when the first search has found
  no release, and is not made otherwise; no third barcode is searched for. When \<open>u\<close> has 13
  digits exactly one variant is recorded and exactly one search is made. The requests of the
  stage are the beginning of what the run requests from there on.
\<close>

theorem barcode_variants_searched_in_order:
  assumes "normalizeBarcode (seed_upc seed0) = Some u"
    and "tried_barcodes (diagnostics d0) = []"
  shows
    "(length u = 12 \<longrightarrow>
        tried_barcodes (diagnostics (snd (normalizeSeed seed0 d0))) = [u, CHR ''0'' # u]
      \<and> length (CHR ''0'' # u) = 13
      \<and> mb_barcodes (snd (normalizeSeed seed0 d0)) = [u, CHR ''0'' # u]
      \<and> (before_musicbrainz seed0 d0 w = (Inr seed, s) \<longrightarrow>
            tried_barcodes (diagnostics (doc s)) = [u, CHR ''0'' # u]
          \<and> searches seed s s [u, CHR ''0'' # u]))
     \<and> (length u = 13 \<longrightarrow>
        tried_barcodes (diagnostics (snd (normalizeSeed seed0 d0))) = [u]
      \<and> mb_barcodes (snd (normalizeSeed seed0 d0)) = [u]
      \<and> (before_musicbrainz seed0 d0 w = (Inr seed, s) \<longrightarrow>
            tried_barcodes (diagnostics (doc s)) = [u]
          \<and> searches seed s s [u]))
     \<and> (before_musicbrainz seed0 d0 w = (Inr seed, s) \<longrightarrow> stage_in_run seed0 d0 w seed s)"
proof -
  note dg = normalizeBarcode_digits[OF assms(1)]
  note ne = normalizeBarcode_nonempty[OF assms(1)]
  from dg have dg0: "\<forall>c\<in>set (CHR ''0'' # u). is_digit c" by (simp add: is_digit_def)
  note t0 = normalizeSeed_result(2)[OF assms]
  have stage: "searches seed s s bcs"
    if "before_musicbrainz seed0 d0 w = (Inr seed, s)" and "mb_barcodes (doc s) = bcs"
      and "\<forall>bc\<in>set bcs. \<forall>c\<in>set bc. is_digit c" for bcs
  proof -
    from resolveMusicBrainz_loop[OF before_musicbrainz_result(1)[OF assms that(1)], of s] that(2)
    have "resolveMusicBrainz seed s = bnd (mb_search_barcodes bcs) (mb_use_candidate seed) s"
      by simp
    with that(3) show ?thesis by (rule searches_loop)
  qed
  show ?thesis
  proof (intro conjI impI)
    assume l: "length u = 12"
    from l t0 show t: "tried_barcodes (diagnostics (snd (normalizeSeed seed0 d0))) = [u, CHR ''0'' # u]"
      by simp
    from l show "length (CHR ''0'' # u) = 13" by simp
    from mb_barcodes_two[OF t ne] show "mb_barcodes (snd (normalizeSeed seed0 d0)) = [u, CHR ''0'' # u]" .
    assume b: "before_musicbrainz seed0 d0 w = (Inr seed, s)"
    from l before_musicbrainz_result(2)[OF assms b]
    show ts: "tried_barcodes (diagnostics (doc s)) = [u, CHR ''0'' # u]" by simp
    from stage[OF b mb_barcodes_two[OF ts ne]] dg dg0
    show "searches seed s s [u, CHR ''0'' # u]" by simp
  next
    assume l: "length u = 13"
    from l t0 show t: "tried_barcodes (diagnostics (snd (normalizeSeed seed0 d0))) = [u]" by simp
    from mb_barcodes_one[OF t ne] show "mb_barcodes (snd (normalizeSeed seed0 d0)) = [u]" .
    assume b: "before_musicbrainz seed0 d0 w = (Inr seed, s)"
    from l before_musicbrainz_result(2)[OF assms b]
    show ts: "tried_barcodes (diagnostics (doc s)) = [u]" by simp
    from stage[OF b mb_barcodes_one[OF ts ne]] dg
    show "searches seed s s [u]" by simp
  next
    assume "before_musicbrainz seed0 d0 w = (Inr seed, s)"
    then show "stage_in_run seed0 d0 w seed s" by (rule pipeline_stage_in_run)
  qed
qed

text \<open>
  The two example runs: the barcode \<^verbatim>\<open>888-7511-19215\<close> has the canonical form
  \<^verbatim>\<open>888751119215\<close> of 12 digits, and \<^verbatim>\<open>5099749522828\<close> has 13 digits.
\<close>

theorem barcode_variants_searched_in_order_witness:
  "tried_barcodes (diagnostics (snd (normalizeSeed (barcode_seed ''888-7511-19215'') start_doc)))
     = [''888751119215'', ''0888751119215'']
   \<and> tried_barcodes (diagnostics (doc (snd (before_musicbrainz (barcode_seed ''888-7511-19215'') start_doc second_hit_world))))
     = [''888751119215'', ''0888751119215'']
   \<and> next_request (barcode_seed ''888751119215'')
       (snd (before_musicbrainz (barcode_seed ''888-7511-19215'') start_doc second_hit_world))
       (snd (before_musicbrainz (barcode_seed ''888-7511-19215'') start_doc second_hit_world))
       ''https://musicbrainz.org/ws/2/release/?query=barcode%3A888751119215&fmt=json''
   \<and> next_request (barcode_seed ''888751119215'')
       (snd (before_musicbrainz (barcode_seed ''888-7511-19215'') start_doc second_hit_world))
       (snd (barcode_search ''888751119215''
          (snd (before_musicbrainz (barcode_seed ''888-7511-19215'') start_doc second_hit_world))))
       ''https://musicbrainz.org/ws/2/release/?query=barcode%3A0888751119215&fmt=json''
   \<and> stage_in_run (barcode_seed ''888-7511-19215'') start_doc second_hit_world
       (barcode_seed ''888751119215'')
       (snd (before_musicbrainz (barcode_seed ''888-7511-19215'') start_doc second_hit_world))
   \<and> tried_barcodes (diagnostics (snd (normalizeSeed (barcode_seed ''5099749522828'') start_doc)))
     = [''5099749522828'']
   \<and> tried_barcodes (diagnostics (doc (snd (before_musicbrainz (barcode_seed ''5099749522828'') start_doc no_hit_world))))
     = [''5099749522828'']
   \<and> resolveMusicBrainz (barcode_seed ''5099749522828'')
         (snd (before_musicbrainz (barcode_seed ''5099749522828'') start_doc no_hit_world))
       = mb_use_candidate (barcode_seed ''5099749522828'') None
           (snd (barcode_search ''5099749522828''
              (snd (before_musicbrainz (barcode_seed ''5099749522828'') start_doc no_hit_world))))"
proof -
  let ?B = "before_musicbrainz (barcode_seed ''888-7511-19215'') start_doc second_hit_world"
  let ?C = "before_musicbrainz (barcode_seed ''5099749522828'') start_doc no_hit_world"
  have d0: "tried_barcodes (diagnostics start_doc) = []"
    by (simp add: start_doc_def stamp_def initOut_def)
  have nb: "normalizeBarcode (seed_upc (barcode_seed ''888-7511-19215'')) = Some ''888751119215''"
    by code_simp
  have nc: "normalizeBarcode (seed_upc (barcode_seed ''5099749522828'')) = Some ''5099749522828''"
    by code_simp
  have "fst ?B = Inr (barcode_seed ''888751119215'')" by code_simp
  then have b: "?B = (Inr (barcode_seed ''888751119215''), snd ?B)" by (simp add: prod_eq_iff)
  have "fst ?C = Inr (barcode_seed ''5099749522828'')" by code_simp
  then have c: "?C = (Inr (barcode_seed ''5099749522828''), snd ?C)" by (simp add: prod_eq_iff)
  have sb: "fst (barcode_search ''888751119215'' (snd ?B)) = Inr (Some (PMbSearch (Some [])))"
    by code_simp
  have sc: "fst (barcode_search ''5099749522828'' (snd ?C)) = Inr (Some (PMbSearch (Some [])))"
    by code_simp
  have f: "first_release (Some (PMbSearch (Some []))) = None"
    by (simp add: first_release_def mb_releases_def)
  show ?thesis
    using barcode_variants_searched_in_order[OF nb d0, of second_hit_world "barcode_seed ''888751119215''" "snd ?B"]
      barcode_variants_searched_in_order[OF nc d0, of no_hit_world "barcode_seed ''5099749522828''" "snd ?C"]
      b c
    by (simp add: case_prod_unfold sb sc f barcode_search_url_def)
qed

section \<open>The track listing\<close>

lemma rx_star_Some: "\<exists>y. rx_star p s Some = Some y"
  by (induction s) (auto split: option.splits)

lemma starts_with_digits_iff: "starts_with_digits s \<longleftrightarrow> s \<noteq> [] \<and> is_digit (hd s)"
  by (cases s) (simp_all add: starts_with_digits_def rx_plus_def rx_seq_def rx_chr_def rx_star_Some)

lemma foldl_push_row:
  "foldl push_row rows rs =
     rows @ map (\<lambda>r. \<lparr> track_no = row_cols r ! 0, track_title = row_cols r ! 1 \<rparr>)
              (filter (\<lambda>r. 2 \<le> length (row_cols r) \<and> row_cols r ! 0 \<noteq> [] \<and> is_digit (hd (row_cols r ! 0))) rs)"
  by (induction rs arbitrary: rows) (simp_all add: push_row_def Let_def starts_with_digits_iff)

lemma foldl_push_table:
  "foldl push_table rows tbs =
     rows @ map (\<lambda>r. \<lparr> track_no = row_cols r ! 0, track_title = row_cols r ! 1 \<rparr>)
              (filter (\<lambda>r. 2 \<le> length (row_cols r) \<and> row_cols r ! 0 \<noteq> [] \<and> is_digit (hd (row_cols r ! 0)))
                 (concat (map (rx_match_all tr_rx) (filter is_track_table tbs))))"
  by (induction tbs arbitrary: rows) (simp_all add: push_table_def foldl_push_row)

text \<open>
  C8, as amended. The rows captured are, in the order of the matching tables in the document
  and of the rows in each table, exactly the rows that have at least two cells and whose first
  cell, with its tags stripped and the white space at its ends removed, begins with a decimal
  digit; each is captured as the pair of its first and its second cell. The tracklist is set
  to them when there is at least one, and left as it was otherwise. So the number of every
  captured track begins with a digit: a row whose first cell does not, such as a header word,
  never appears, while a first cell such as \<^verbatim>\<open>1a\<close> or \<^verbatim>\<open>2.\<close> does.
\<close>

theorem tracklist_rows_captured:
  "track_rows html =
     map (\<lambda>r. \<lparr> track_no = row_cols r ! 0, track_title = row_cols r ! 1 \<rparr>)
       (filter (\<lambda>r. 2 \<le> length (row_cols r) \<and> row_cols r ! 0 \<noteq> [] \<and> is_digit (hd (row_cols r ! 0)))
          (concat (map (rx_match_all tr_rx) (filter is_track_table (rx_match_all table_rx html)))))
   \<and> tracklist (wikipedia (extractTracklistFromHTML html out))
       = (if track_rows html \<noteq> [] then Some (track_rows html) else tracklist (wikipedia out))
   \<and> (\<forall>t \<in> set (track_rows html). track_no t \<noteq> [] \<and> is_digit (hd (track_no t)))"
proof -
  have rows: "track_rows html =
     map (\<lambda>r. \<lparr> track_no = row_cols r ! 0, track_title = row_cols r ! 1 \<rparr>)
       (filter (\<lambda>r. 2 \<le> length (row_cols r) \<and> row_cols r ! 0 \<noteq> [] \<and> is_digit (hd (row_cols r ! 0)))
          (concat (map (rx_match_all tr_rx) (filter is_track_table (rx_match_all table_rx html)))))"
    by (simp add: track_rows_def foldl_push_table)
  have "\<forall>t \<in> set (track_rows html). track_no t \<noteq> [] \<and> is_digit (hd (track_no t))"
    unfolding rows by auto
  with rows show ?thesis
    by (simp add: extractTracklistFromHTML_def Let_def)
qed

theorem tracklist_rows_captured_witness:
  "tracklist (wikipedia (extractTracklistFromHTML track_table (initOut default_flags)))
    = Some [\<lparr> track_no = ''2.'', track_title = ''So What'' \<rparr>,
            \<lparr> track_no = ''3'', track_title = ''Blue in Green'' \<rparr>]"
proof -
  have rows: "concat (map (rx_match_all tr_rx) (filter is_track_table (rx_match_all table_rx track_table)))
      = [''<tr><th>No.</th><th>Title</th></tr>'', ''<tr><td> 2. </td><td><i>So What</i></td></tr>'',
         nbsp_row, ''<tr><td>4</td></tr>'']"
    by code_simp
  have c1: "row_cols ''<tr><th>No.</th><th>Title</th></tr>'' = [''No.'', ''Title'']"
    by code_simp
  have c2: "row_cols ''<tr><td> 2. </td><td><i>So What</i></td></tr>'' = [''2.'', ''So What'']"
    by code_simp
  have c3: "row_cols nbsp_row = [''3'', ''Blue in Green'']"
    by code_simp
  have c4: "row_cols ''<tr><td>4</td></tr>'' = [''4'']"
    by code_simp
  have "track_rows track_table = [\<lparr> track_no = ''2.'', track_title = ''So What'' \<rparr>,
      \<lparr> track_no = ''3'', track_title = ''Blue in Green'' \<rparr>]"
    using tracklist_rows_captured[of track_table "initOut default_flags"]
    by (simp add: rows c1 c2 c3 c4 is_digit_def)
  then show ?thesis
    using tracklist_rows_captured[of track_table "initOut default_flags"] by simp
qed

text \<open>
  The claim as it was stated fails on a row whose first cell is \<^verbatim>\<open>1a\<close>, which is not a
  number: the row is captured.
\<close>

theorem tracklist_non_numeric_cell_counterexample:
  \<open>tracklist (wikipedia (extractTracklistFromHTML
      ''<table class="wikitable"><caption>Track listing</caption><tr><td>1a</td><td>Intro</td></tr></table>''
      (initOut default_flags)))
    = Some [\<lparr> track_no = ''1a'', track_title = ''Intro'' \<rparr>]\<close>
  by code_simp

section \<open>Further properties of a run\<close>

lemma stable_mono: "(\<And>d d'. R d d' \<Longrightarrow> S d d') \<Longrightarrow> stable R m \<Longrightarrow> stable S m"
  by (simp add: stable_def)

lemma genres_distinct_reflp: "reflp genres_distinct"
  by (simp add: reflp_def genres_distinct_def)

lemma genres_distinct_transp: "transp genres_distinct"
  by (simp add: transp_def genres_distinct_def)

lemma kept_genres_distinct: "kept d d' \<Longrightarrow> genres_distinct d d'"
  by (simp add: kept_def genres_distinct_def)

lemma stable_kept_genres: "stable kept m \<Longrightarrow> stable genres_distinct m"
  by (rule stable_mono[OF kept_genres_distinct])

lemma stable_pipeline_genres: "stable genres_distinct (pipeline seed)"
  unfolding pipeline_def
  apply (intro stable_bnd[OF genres_distinct_transp] stable_upd stable_with_doc stable_if)
  apply (simp_all add: stable_kept_genres stable_normalize stable_resolveDiscogsByUPC
      stable_resolveMusicBrainz stable_resolveWikidataAndWikipedia stable_enrichFromWikipedia
      stable_buildImageGalleries stable_ret[OF genres_distinct_reflp]
      genres_distinct_def finalizeCanonical_def aggregateDownloadList_def stamp_def Let_def)
  done

text \<open>
  The canonical genres of the answer never hold a duplicate, whatever the providers
  contribute and whether the run ends with a fatal exception or not.
\<close>

theorem genres_have_no_duplicates:
  "distinct (genre (canonical (fst (snd (run fl seed w)))))"
proof -
  let ?s0 = "\<lparr> doc = stamp ''start'' (initOut fl), net = w \<rparr>"
  obtain r s where p: "pipeline seed ?s0 = (r, s)" by (cases "pipeline seed ?s0")
  have "distinct (genre (canonical (doc ?s0)))" by (simp add: stamp_def initOut_def)
  with stable_pipeline_genres[of seed] p have d: "distinct (genre (canonical (doc s)))"
    by (auto simp: stable_def genres_distinct_def dest: spec[of _ ?s0])
  show ?thesis
  proof (cases r)
    case (Inl e)
    with p d show ?thesis by (simp add: run_def push_note_def)
  next
    case (Inr u)
    with p d show ?thesis by (simp add: run_def)
  qed
qed

text \<open>
  With no barcode, no release ID and not both an artist and a title, a run sends no request
  and answers with the empty document and the default format.
\<close>

theorem no_input_no_request:
  assumes "\<not> truthy (seed_upc seed)" and "\<not> truthy (seed_mbid seed)"
    and "\<not> truthy (seed_mb_release_mbid seed)"
    and "\<not> truthy (seed_artist seed) \<or> \<not> truthy (seed_title seed)"
  shows "fst (run fl seed w) = Inr ()
       \<and> snd (snd (run fl seed w)) = w
       \<and> fst (snd (run fl seed w)) = stamp ''done'' (finalizeCanonical (stamp ''start'' (initOut fl)))
       \<and> format (canonical (fst (snd (run fl seed w)))) = [''Album'']"
  using assms
  by (auto simp: run_def pipeline_def bnd_def normalizeSeed_def normalizeBarcode_def
    ret_def resolveMusicBrainz_def mb_use_candidate_def mb_search_artist_title_def with_doc_def js_or_def
    stamp_def initOut_def resolveWikidataAndWikipedia_def resolve_album_qid_def resolve_artist_qid_def
    resolve_enwiki_title_def ref_truthy_def enrichFromWikipedia_def buildImageGalleries_def
    upd_def finalizeCanonical_def aggregateDownloadList_def dedupe_def set_add_def push_urls_def Let_def
    truthy_def[of None])

theorem no_input_no_request_witness:
  "fst (run default_flags (empty_seed\<lparr>seed_artist := Some ''Miles Davis''\<rparr>) \<lparr> pending = [], trace = [] \<rparr>) = Inr ()
   \<and> snd (snd (run default_flags (empty_seed\<lparr>seed_artist := Some ''Miles Davis''\<rparr>) \<lparr> pending = [], trace = [] \<rparr>))
       = \<lparr> pending = [], trace = [] \<rparr>
   \<and> format (canonical (fst (snd (run default_flags (empty_seed\<lparr>seed_artist := Some ''Miles Davis''\<rparr>)
       \<lparr> pending = [], trace = [] \<rparr>)))) = [''Album'']"
  using no_input_no_request[of "empty_seed\<lparr>seed_artist := Some ''Miles Davis''\<rparr>" default_flags
      "\<lparr> pending = [], trace = [] \<rparr>"]
  by (simp add: empty_seed_def truthy_def stamp_def finalizeCanonical_def initOut_def dedupe_def
      set_add_def)

text \<open>
  A run on a 12-digit barcode: Discogs fails, the MusicBrainz search for the 12-digit form
  finds nothing, the search for the 13-digit form finds the release, its lookup returns it,
  and the Wikidata query fails. The searches are sent in the order of the barcode variants.
\<close>

theorem barcode_run_example:
  "(case run default_flags (barcode_seed ''888751119215'') second_hit_world of
      (r, d, w) \<Rightarrow> (r, title (canonical d), artist (canonical d), matched_on (diagnostics d),
                    tried_barcodes (diagnostics d), format (canonical d), mb_http (diagnostics d),
                    take 4 (trace w), pending w))
   = (Inr (), Some ''Kind of Blue'', Some ''Miles Davis'', Some ''upc'',
      [''888751119215'', ''0888751119215''], [''Album''],
      [\<lparr> h_url = ''/release/?query=barcode%3A888751119215&fmt=json'', h_status = 200 \<rparr>,
       \<lparr> h_url = ''/release/?query=barcode%3A0888751119215&fmt=json'', h_status = 200 \<rparr>,
       \<lparr> h_url = ''/release/r1'', h_status = 200 \<rparr>],
      [Get ''https://api.discogs.com/database/search?type=release&barcode=888751119215&per_page=1&page=1'',
       Get ''https://musicbrainz.org/ws/2/release/?query=barcode%3A888751119215&fmt=json'',
       Get ''https://musicbrainz.org/ws/2/release/?query=barcode%3A0888751119215&fmt=json'',
       Get ''https://musicbrainz.org/ws/2/release/r1?fmt=json&inc=url-rels%2Btags%2Bartist-credits%2Blabel-info%2Brelease-group''],
      [])"
  by code_simp
end
